theory Spec2Isabelle
  imports Main "HOL-Library.Word" "HOL-Library.Signed_Division"
begin

unbundle bit_operations_syntax

section \<open>Common types\<close>

type_synonym u8 = "8 word"
type_synonym u16 = "16 word"
type_synonym u32 = "32 word"

text \<open>The values of \<open>esp_err_t\<close> that the modelled functions return.\<close>

datatype esp_err_t =
    ESP_OK
  | ESP_FAIL
  | ESP_ERR_NO_MEM
  | ESP_ERR_INVALID_ARG
  | ESP_ERR_INVALID_STATE
  | ESP_ERR_NOT_FOUND
  | ESP_ERR_TIMEOUT
  | ESP_ERR_INVALID_VERSION
  | ESP_ERR_NVS_NO_FREE_PAGES
  | ESP_ERR_NVS_NEW_VERSION_FOUND

section \<open>sx1276\_regs.h\<close>

definition REG_FIFO :: u8 where "REG_FIFO = 0x00"
definition REG_OP_MODE :: u8 where "REG_OP_MODE = 0x01"
definition REG_PA_CONFIG :: u8 where "REG_PA_CONFIG = 0x09"
definition REG_OCP :: u8 where "REG_OCP = 0x0B"
definition REG_FIFO_ADDR_PTR :: u8 where "REG_FIFO_ADDR_PTR = 0x0D"
definition REG_FIFO_RX_CURRENT_ADDR :: u8 where "REG_FIFO_RX_CURRENT_ADDR = 0x10"
definition REG_IRQ_FLAGS :: u8 where "REG_IRQ_FLAGS = 0x12"
definition REG_RX_NB_BYTES :: u8 where "REG_RX_NB_BYTES = 0x13"
definition REG_PKT_SNR_VALUE :: u8 where "REG_PKT_SNR_VALUE = 0x19"
definition REG_PKT_RSSI_VALUE :: u8 where "REG_PKT_RSSI_VALUE = 0x1A"
definition REG_PA_DAC :: u8 where "REG_PA_DAC = 0x4D"

definition MODE_LONG_RANGE_MODE :: u8 where "MODE_LONG_RANGE_MODE = 0x80"
definition MODE_STDBY :: u8 where "MODE_STDBY = 0x01"
definition PA_BOOST :: int where "PA_BOOST = 0x80"

definition IRQ_TX_DONE :: u8 where "IRQ_TX_DONE = 0x08"
definition IRQ_PAYLOAD_CRC_ERROR :: u8 where "IRQ_PAYLOAD_CRC_ERROR = 0x20"
definition IRQ_RX_DONE :: u8 where "IRQ_RX_DONE = 0x40"

lemmas sx1276_regs_defs =
  REG_FIFO_def REG_OP_MODE_def REG_PA_CONFIG_def REG_OCP_def REG_FIFO_ADDR_PTR_def
  REG_FIFO_RX_CURRENT_ADDR_def REG_IRQ_FLAGS_def REG_RX_NB_BYTES_def
  REG_PKT_SNR_VALUE_def REG_PKT_RSSI_VALUE_def REG_PA_DAC_def
  MODE_LONG_RANGE_MODE_def MODE_STDBY_def PA_BOOST_def
  IRQ_TX_DONE_def IRQ_PAYLOAD_CRC_ERROR_def IRQ_RX_DONE_def

section \<open>sx1276.c: the radio driver\<close>

subsection \<open>The transceiver behind the SPI bus\<close>

text \<open>
  The chip is the driver's environment. It is modelled as the register file and the
  256-byte FIFO that the SPI transactions of \<open>sx1276_read_reg\<close>, \<open>sx1276_write_reg\<close>
  and \<open>sx1276_read_fifo\<close> address: a register read returns the register's value, a
  register write stores the value (in \<open>REG_IRQ_FLAGS\<close> a written 1 clears the flag), and a
  burst read of \<open>REG_FIFO\<close> returns the bytes from \<open>REG_FIFO_ADDR_PTR\<close> on, the pointer
  advancing modulo 256. \<open>spi_log\<close> records every write transaction as the two bytes
  the driver puts on the bus.
\<close>

record sx1276_chip =
  chip_regs :: "u8 \<Rightarrow> u8"
  chip_fifo :: "u8 \<Rightarrow> u8"
  spi_log :: "(u8 \<times> u8) list"

definition chip_write :: "sx1276_chip \<Rightarrow> u8 \<Rightarrow> u8 \<Rightarrow> sx1276_chip" where
  "chip_write c addr v =
     (if addr = REG_IRQ_FLAGS
      then c\<lparr>chip_regs := (chip_regs c)(addr := chip_regs c addr AND NOT v)\<rparr>
      else c\<lparr>chip_regs := (chip_regs c)(addr := v)\<rparr>)"

fun chip_burst_read :: "sx1276_chip \<Rightarrow> nat \<Rightarrow> u8 list \<times> sx1276_chip" where
  "chip_burst_read c 0 = ([], c)"
| "chip_burst_read c (Suc n) =
     (let p = chip_regs c REG_FIFO_ADDR_PTR;
          b = chip_fifo c p;
          c' = c\<lparr>chip_regs := (chip_regs c)(REG_FIFO_ADDR_PTR := p + 1)\<rparr>;
          (bs, c'') = chip_burst_read c' n
      in (b # bs, c''))"

subsection \<open>Driver state\<close>

datatype sx1276_mode_t =
    SX1276_MODE_SLEEP
  | SX1276_MODE_STANDBY
  | SX1276_MODE_FSTX
  | SX1276_MODE_TX
  | SX1276_MODE_FSRX
  | SX1276_MODE_RX_CONTINUOUS
  | SX1276_MODE_RX_SINGLE
  | SX1276_MODE_CAD

text \<open>\<open>sx1276_config_t\<close>; \<open>tx_power\<close> is an \<open>int8_t\<close>, read with \<open>sint\<close>.\<close>

record sx1276_config_t =
  cfg_frequency :: u32
  cfg_sf :: u8
  cfg_bw :: u8
  cfg_cr :: u8
  cfg_tx_power :: u8
  cfg_sync_word :: u8
  cfg_preamble_length :: u16
  cfg_crc_on :: bool
  cfg_implicit_header :: bool
  cfg_invert_iq_rx :: bool
  cfg_invert_iq_tx :: bool

text \<open>
  \<open>struct sx1276_dev_s\<close>. The callback slots hold function pointers; the model keeps
  whether a callback is registered (\<open>NULL\<close> or not). The SPI device binding is the
  \<open>chip\<close>.
\<close>

record sx1276_dev_s =
  chip :: sx1276_chip
  config :: sx1276_config_t
  rx_callback :: bool
  tx_callback :: bool
  current_mode :: sx1276_mode_t
  is_transmitting :: bool

text \<open>\<open>sx1276_write_reg\<close>: the bus carries \<open>reg | 0x80\<close> and the value.\<close>

definition sx1276_write_reg :: "sx1276_dev_s \<Rightarrow> u8 \<Rightarrow> u8 \<Rightarrow> sx1276_dev_s" where
  "sx1276_write_reg h reg v =
     h\<lparr>chip := (chip_write (chip h) reg v)
                 \<lparr>spi_log := spi_log (chip h) @ [(reg OR 0x80, v)]\<rparr>\<rparr>"

text \<open>\<open>sx1276_read_reg\<close>: the bus carries \<open>reg & 0x7F\<close>; the chip answers with the register.\<close>

definition sx1276_read_reg :: "sx1276_dev_s \<Rightarrow> u8 \<Rightarrow> u8" where
  "sx1276_read_reg h reg = chip_regs (chip h) (reg AND 0x7F)"

text \<open>\<open>sx1276_read_fifo\<close>: one burst of \<open>len\<close> bytes, copied to the caller's buffer.\<close>

definition sx1276_read_fifo :: "sx1276_dev_s \<Rightarrow> u8 \<Rightarrow> u8 list \<times> sx1276_dev_s" where
  "sx1276_read_fifo h len =
     (let (bs, c') = chip_burst_read (chip h) (unat len) in (bs, h\<lparr>chip := c'\<rparr>))"

subsection \<open>\<open>sx1276_set_tx_power\<close>\<close>

text \<open>
  \<open>power\<close> (here \<open>pwr\<close>) is an \<open>int8_t\<close>. The arithmetic \<open>PA_BOOST | (power - 5)\<close> is done in
  \<open>int\<close> and converted to the \<open>uint8_t\<close> parameter of \<open>sx1276_write_reg\<close>. A
  \<open>NULL\<close> handle is \<open>None\<close>. The result is the return code and the handle's new state.
\<close>

definition sx1276_set_tx_power ::
  "sx1276_dev_s option \<Rightarrow> u8 \<Rightarrow> esp_err_t \<times> sx1276_dev_s option" where
  "sx1276_set_tx_power handle pwr =
     (case handle of
        None \<Rightarrow> (ESP_ERR_INVALID_ARG, None)
      | Some h \<Rightarrow>
          (let (h1, pwr1) =
                 (if sint pwr > 17 then
                    (let h' = sx1276_write_reg h REG_PA_DAC 0x87;
                         p' = (if sint pwr > 20 then 20 else pwr);
                         h'' = sx1276_write_reg h' REG_PA_CONFIG
                                 (word_of_int (PA_BOOST OR (sint p' - 5)))
                     in (h'', p'))
                  else if sint pwr > 14 then
                    (let h' = sx1276_write_reg h REG_PA_DAC 0x84;
                         h'' = sx1276_write_reg h' REG_PA_CONFIG
                                 (word_of_int (PA_BOOST OR (sint pwr - 2)))
                     in (h'', pwr))
                  else
                    (let h' = sx1276_write_reg h REG_PA_DAC 0x84;
                         p' = (if sint pwr < 2 then 2 else pwr);
                         h'' = sx1276_write_reg h' REG_PA_CONFIG
                                 (word_of_int (PA_BOOST OR (sint p' - 2)))
                     in (h'', p')));
               h2 = sx1276_write_reg h1 REG_OCP 0x2B;
               h3 = h2\<lparr>config := (config h2)\<lparr>cfg_tx_power := pwr1\<rparr>\<rparr>
           in (ESP_OK, Some h3)))"

text \<open>
  The overcurrent limit that the chip derives from \<open>REG_OCP\<close> (SX1276 datasheet,
  RegOcp): bit 5 switches the protection on, the low five bits are \<open>OcpTrim\<close>.
\<close>

definition ocp_limit_mA :: "u8 \<Rightarrow> nat" where
  "ocp_limit_mA v =
     (let trim = unat (v AND 0x1F)
      in if trim \<le> 15 then 45 + 5 * trim
         else if trim \<le> 27 then 10 * trim - 30
         else 240)"

subsection \<open>\<open>dio0_isr_handler\<close>\<close>

text \<open>
  \<open>sx1276_rx_packet_t\<close>. \<open>rx_data\<close> is the whole 255-byte array, \<open>rx_rssi\<close> an
  \<open>int16_t\<close> and \<open>rx_snr\<close> an \<open>int8_t\<close> (both read with \<open>sint\<close>), \<open>rx_timestamp\<close> a
  \<open>uint32_t\<close>.
\<close>

record sx1276_rx_packet_t =
  rx_data :: "u8 list"
  rx_length :: u8
  rx_rssi :: u16
  rx_snr :: u8
  rx_frequency :: u32
  rx_timestamp :: u32
  rx_sf :: u8
  rx_bw :: u8
  rx_cr :: u8
  rx_crc_ok :: bool

definition SX1276_MAX_PACKET_SIZE :: nat where "SX1276_MAX_PACKET_SIZE = 255"

text \<open>
  The clock \<open>esp_timer_get_time\<close> returns an \<open>int64_t\<close> count of microseconds since
  boot; its value at the call is the argument \<open>now\<close>. The handler returns the handle's new
  state, the packet passed to the RX callback (if it was called) and the argument of the TX
  callback (if it was called).
\<close>

definition dio0_isr_handler ::
  "sx1276_dev_s option \<Rightarrow> int \<Rightarrow>
     sx1276_dev_s option \<times> sx1276_rx_packet_t option \<times> bool option" where
  "dio0_isr_handler arg now =
     (case arg of
        None \<Rightarrow> (None, None, None)
      | Some handle \<Rightarrow>
          (let irq_flags = sx1276_read_reg handle REG_IRQ_FLAGS;
               (h1, rx) =
                 (if irq_flags AND IRQ_RX_DONE \<noteq> 0 then
                    (let (hc, delivered) =
                           (if rx_callback handle then
                              (let len = sx1276_read_reg handle REG_RX_NB_BYTES;
                                   fifo_addr = sx1276_read_reg handle REG_FIFO_RX_CURRENT_ADDR;
                                   ha = sx1276_write_reg handle REG_FIFO_ADDR_PTR fifo_addr;
                                   (bs, hb) = sx1276_read_fifo ha len;
                                   packet = \<lparr>
                                     rx_data = bs @ replicate (SX1276_MAX_PACKET_SIZE - length bs) 0,
                                     rx_length = len,
                                     rx_rssi = word_of_int
                                       (uint (sx1276_read_reg hb REG_PKT_RSSI_VALUE) - 157),
                                     rx_snr = word_of_int
                                       (sint (sx1276_read_reg hb REG_PKT_SNR_VALUE) sdiv 4),
                                     rx_frequency = cfg_frequency (config hb),
                                     rx_timestamp = word_of_int now,
                                     rx_sf = cfg_sf (config hb),
                                     rx_bw = cfg_bw (config hb),
                                     rx_cr = cfg_cr (config hb),
                                     rx_crc_ok = (irq_flags AND IRQ_PAYLOAD_CRC_ERROR = 0) \<rparr>
                               in (hb, Some packet))
                            else (handle, None))
                     in (sx1276_write_reg hc REG_IRQ_FLAGS (IRQ_RX_DONE OR IRQ_PAYLOAD_CRC_ERROR),
                         delivered))
                  else (handle, None));
               (h2, tx) =
                 (if irq_flags AND IRQ_TX_DONE \<noteq> 0 then
                    (let hx = h1\<lparr>is_transmitting := False\<rparr>;
                         called = (if tx_callback hx then Some True else None);
                         he = sx1276_write_reg hx REG_IRQ_FLAGS IRQ_TX_DONE;
                         hf = sx1276_write_reg he REG_OP_MODE (MODE_LONG_RANGE_MODE OR MODE_STDBY)
                     in (hf\<lparr>current_mode := SX1276_MODE_STANDBY\<rparr>, called))
                  else (h1, None))
           in (Some h2, rx, tx)))"

text \<open>A quiet chip with only \<open>RX_DONE\<close> raised, and a handle with an RX callback.\<close>

definition rx_done_chip :: sx1276_chip where
  "rx_done_chip =
     \<lparr> chip_regs = (\<lambda>_. 0)(REG_IRQ_FLAGS := IRQ_RX_DONE), chip_fifo = (\<lambda>_. 0), spi_log = [] \<rparr>"

definition au915_config :: sx1276_config_t where
  "au915_config =
     \<lparr> cfg_frequency = 916800000, cfg_sf = 7, cfg_bw = 7, cfg_cr = 1, cfg_tx_power = 14,
       cfg_sync_word = 0x34, cfg_preamble_length = 8, cfg_crc_on = True,
       cfg_implicit_header = False, cfg_invert_iq_rx = False, cfg_invert_iq_tx = True \<rparr>"

definition rx_done_handle :: sx1276_dev_s where
  "rx_done_handle =
     \<lparr> chip = rx_done_chip, config = au915_config, rx_callback = True, tx_callback = False,
       current_mode = SX1276_MODE_RX_CONTINUOUS, is_transmitting = False \<rparr>"

text \<open>The reception of scenario 8b of the specification, shortened to three bytes.\<close>

definition scenario_chip :: sx1276_chip where
  "scenario_chip =
     \<lparr> chip_regs = (\<lambda>_. 0)(REG_IRQ_FLAGS := IRQ_RX_DONE, REG_RX_NB_BYTES := 3,
                               REG_FIFO_RX_CURRENT_ADDR := 0x10,
                               REG_PKT_RSSI_VALUE := 118, REG_PKT_SNR_VALUE := 40),
       chip_fifo = (\<lambda>_. 0)(0x10 := 0x40, 0x11 := 0x11, 0x12 := 0x22),
       spi_log = [] \<rparr>"

definition scenario_handle :: sx1276_dev_s where
  "scenario_handle = rx_done_handle\<lparr>chip := scenario_chip\<rparr>"

section \<open>gateway\_config.c and nvs\_config.c: the durable configuration\<close>

definition GATEWAY_MAX_CHANNELS :: nat where "GATEWAY_MAX_CHANNELS = 8"
definition WIFI_SSID_MAX_LEN :: nat where "WIFI_SSID_MAX_LEN = 32"
definition WIFI_PASS_MAX_LEN :: nat where "WIFI_PASS_MAX_LEN = 64"
definition SERVER_HOST_MAX_LEN :: nat where "SERVER_HOST_MAX_LEN = 64"
definition AU915_SB2 :: nat where "AU915_SB2 = 1"
definition AU915_FREQ_START_UP :: u32 where "AU915_FREQ_START_UP = 915200000"
definition AU915_FREQ_STEP_UP :: u32 where "AU915_FREQ_STEP_UP = 200000"

record gw_channel_config_t =
  ch_frequency :: u32
  ch_sf_min :: u8
  ch_sf_max :: u8
  ch_bw :: u8
  ch_enabled :: bool

record gw_lora_config_t =
  subband :: nat
  channels :: "gw_channel_config_t list"
  lora_rx_sf :: u8
  lora_rx_bw :: u8
  lora_tx_power :: u8
  lora_sync_word :: u8

record gw_wifi_config_t =
  wifi_ssid :: string
  wifi_password :: string
  wifi_enabled :: bool
  wifi_max_retry :: u8

record gw_ethernet_config_t =
  eth_enabled :: bool
  eth_dhcp :: bool
  eth_ip :: u32
  eth_netmask :: u32
  eth_gateway :: u32
  eth_dns :: u32

record gw_server_config_t =
  server_host :: string
  server_port :: u16
  keepalive_interval :: u32
  stat_interval :: u32

text \<open>\<open>gateway_config_t\<close> of gateway\_config.h.\<close>

record gateway_config_t =
  gateway_eui :: "u8 list"
  lora :: gw_lora_config_t
  wifi :: gw_wifi_config_t
  ethernet :: gw_ethernet_config_t
  server :: gw_server_config_t
  config_version :: u32

text \<open>
  The build configuration (sdkconfig) is not part of the sources; its values are
  parameters.
\<close>

record kconfig =
  CONFIG_WIFI_SSID :: string
  CONFIG_WIFI_PASSWORD :: string
  CONFIG_WIFI_MAX_RETRY :: u8
  CONFIG_W5500_ENABLED :: bool
  CONFIG_LORAWAN_SERVER_HOST :: string
  CONFIG_LORAWAN_SERVER_PORT :: u16

text \<open>
  \<open>gw_config_defaults\<close>. \<open>mac\<close> is the six-byte array that \<open>esp_read_mac\<close> fills.
  \<open>strncpy\<close> into a zeroed buffer of \<open>n + 1\<close> bytes keeps the first \<open>n\<close> characters. A
  \<open>NULL\<close> \<open>config\<close> (\<open>None\<close>) is left alone.
\<close>

definition gw_config_defaults ::
  "kconfig \<Rightarrow> u8 list \<Rightarrow> gateway_config_t option \<Rightarrow> gateway_config_t option" where
  "gw_config_defaults kc mac cfg =
     (case cfg of
        None \<Rightarrow> None
      | Some _ \<Rightarrow> Some \<lparr>
          gateway_eui = [mac ! 0, mac ! 1, mac ! 2, 0xFF, 0xFE, mac ! 3, mac ! 4, mac ! 5],
          lora = \<lparr>
            subband = AU915_SB2,
            channels = map (\<lambda>i. \<lparr>
                ch_frequency = AU915_FREQ_START_UP + (8 + of_nat i) * AU915_FREQ_STEP_UP,
                ch_sf_min = 7, ch_sf_max = 10, ch_bw = 0, ch_enabled = True \<rparr>)
              [0..<GATEWAY_MAX_CHANNELS],
            lora_rx_sf = 7, lora_rx_bw = 0, lora_tx_power = 14, lora_sync_word = 0x34 \<rparr>,
          wifi = \<lparr>
            wifi_ssid = take WIFI_SSID_MAX_LEN (CONFIG_WIFI_SSID kc),
            wifi_password = take WIFI_PASS_MAX_LEN (CONFIG_WIFI_PASSWORD kc),
            wifi_enabled = True,
            wifi_max_retry = CONFIG_WIFI_MAX_RETRY kc \<rparr>,
          ethernet = \<lparr>
            eth_enabled = CONFIG_W5500_ENABLED kc, eth_dhcp = True,
            eth_ip = 0, eth_netmask = 0, eth_gateway = 0, eth_dns = 0 \<rparr>,
          server = \<lparr>
            server_host = take SERVER_HOST_MAX_LEN (CONFIG_LORAWAN_SERVER_HOST kc),
            server_port = CONFIG_LORAWAN_SERVER_PORT kc,
            keepalive_interval = 10000,
            stat_interval = 30000 \<rparr>,
          config_version = 1 \<rparr>)"

text \<open>
  The NVS partition is the environment of \<open>gw_config_load\<close>: the results of the two
  possible \<open>nvs_flash_init\<close> calls and of \<open>nvs_open\<close>, and the stored blob
  (\<open>None\<close> when \<open>nvs_get_blob\<close> fails, leaving the caller's buffer as it was).
  \<open>nvs_flash_erase\<close> is taken to succeed.
\<close>

record nvs_env =
  nvs_flash_init_first :: esp_err_t
  nvs_flash_init_second :: esp_err_t
  nvs_open_ret :: esp_err_t
  nvs_blob :: "gateway_config_t option"

definition gw_config_load ::
  "nvs_env \<Rightarrow> gateway_config_t option \<Rightarrow> esp_err_t \<times> gateway_config_t option" where
  "gw_config_load nvs cfg =
     (case cfg of
        None \<Rightarrow> (ESP_ERR_INVALID_ARG, None)
      | Some c \<Rightarrow>
          (let ret0 = nvs_flash_init_first nvs;
               ret = (if ret0 = ESP_ERR_NVS_NO_FREE_PAGES \<or> ret0 = ESP_ERR_NVS_NEW_VERSION_FOUND
                      then nvs_flash_init_second nvs else ret0)
           in if ret \<noteq> ESP_OK then (ret, Some c)
              else if nvs_open_ret nvs \<noteq> ESP_OK then (ESP_ERR_NOT_FOUND, Some c)
              else (case nvs_blob nvs of
                      None \<Rightarrow> (ESP_ERR_NOT_FOUND, Some c)
                    | Some b \<Rightarrow>
                        if config_version b = 0 then (ESP_ERR_INVALID_VERSION, Some b)
                        else (ESP_OK, Some b))))"

text \<open>The statics \<open>s_config\<close> and \<open>s_initialized\<close> of gateway\_config.c.\<close>

record gw_config_state =
  s_config :: gateway_config_t
  s_initialized :: bool

definition gw_config_init ::
  "kconfig \<Rightarrow> u8 list \<Rightarrow> nvs_env \<Rightarrow> gw_config_state \<Rightarrow> esp_err_t \<times> gw_config_state" where
  "gw_config_init kc mac nvs st =
     (if s_initialized st then (ESP_OK, st)
      else
        (let (ret, loaded) = gw_config_load nvs (Some (s_config st));
             cfg = (if ret \<noteq> ESP_OK then gw_config_defaults kc mac loaded else loaded)
         in (ESP_OK, \<lparr> s_config = (case cfg of Some c \<Rightarrow> c | None \<Rightarrow> s_config st),
                      s_initialized = True \<rparr>)))"

text \<open>A device that has never stored a configuration, and its build settings.\<close>

definition blank_nvs :: nvs_env where
  "blank_nvs =
     \<lparr> nvs_flash_init_first = ESP_OK, nvs_flash_init_second = ESP_OK,
       nvs_open_ret = ESP_ERR_NOT_FOUND, nvs_blob = None \<rparr>"

definition demo_kconfig :: kconfig where
  "demo_kconfig =
     \<lparr> CONFIG_WIFI_SSID = ''gateway'', CONFIG_WIFI_PASSWORD = ''secret'',
       CONFIG_WIFI_MAX_RETRY = 5, CONFIG_W5500_ENABLED = False,
       CONFIG_LORAWAN_SERVER_HOST = ''au1.cloud.thethings.network'',
       CONFIG_LORAWAN_SERVER_PORT = 1700 \<rparr>"

definition zero_gw_config_state :: gw_config_state where
  "zero_gw_config_state =
     \<lparr> s_config = \<lparr>
         gateway_eui = replicate 8 0,
         lora = \<lparr> subband = 0, channels = [], lora_rx_sf = 0, lora_rx_bw = 0,
                  lora_tx_power = 0, lora_sync_word = 0 \<rparr>,
         wifi = \<lparr> wifi_ssid = [], wifi_password = [], wifi_enabled = False,
                  wifi_max_retry = 0 \<rparr>,
         ethernet = \<lparr> eth_enabled = False, eth_dhcp = False, eth_ip = 0, eth_netmask = 0,
                      eth_gateway = 0, eth_dns = 0 \<rparr>,
         server = \<lparr> server_host = [], server_port = 0, keepalive_interval = 0,
                    stat_interval = 0 \<rparr>,
         config_version = 0 \<rparr>,
       s_initialized = False \<rparr>"

section \<open>packet\_forwarder.c: base64\<close>

text \<open>
  C \<open>char\<close> values are bytes. \<open>c_char\<close> is the code of a character constant and
  \<open>c_str\<close> the bytes of a string literal (without its terminator).
\<close>

definition c_char :: "char \<Rightarrow> u8" where
  "c_char c = of_char c"

definition c_str :: "string \<Rightarrow> u8 list" where
  "c_str s = map c_char s"

definition LORA_MAX_PAYLOAD_SIZE :: int where "LORA_MAX_PAYLOAD_SIZE = 255"

definition b64_table :: "u8 list" where
  "b64_table = c_str ''ABCDEFGHIJKLMNOPQRSTUVWXYZabcdefghijklmnopqrstuvwxyz0123456789+/''"

text \<open>
  \<open>encode_base64\<close>. \<open>data\<close> holds the \<open>len\<close> bytes to encode, so \<open>len\<close> is
  \<open>length data\<close>. The loop variable \<open>i\<close> advances by 3; the four characters of each
  round are appended at \<open>output[j++]\<close>. The result is the string written before the
  terminating \<open>'\0'\<close>.
\<close>

function encode_base64_loop :: "u8 list \<Rightarrow> nat \<Rightarrow> u8 list" where
  "encode_base64_loop data i =
     (if i < length data then
        (let n0 = push_bit 16 (ucast (data ! i) :: u32);
             n1 = (if i + 1 < length data then n0 OR push_bit 8 (ucast (data ! (i + 1))) else n0);
             n = (if i + 2 < length data then n1 OR ucast (data ! (i + 2)) else n1)
         in [b64_table ! unat (drop_bit 18 n AND 0x3F),
             b64_table ! unat (drop_bit 12 n AND 0x3F),
             (if i + 1 < length data then b64_table ! unat (drop_bit 6 n AND 0x3F)
              else c_char CHR ''=''),
             (if i + 2 < length data then b64_table ! unat (n AND 0x3F)
              else c_char CHR ''='')]
            @ encode_base64_loop data (i + 3))
      else [])"
  by pat_completeness auto
termination
  by (relation "measure (\<lambda>(data, i). length data - i)") auto

definition encode_base64 :: "u8 list \<Rightarrow> u8 list" where
  "encode_base64 data = encode_base64_loop data 0"

text \<open>
  The character classification of \<open>decode_base64\<close>: the value \<open>v\<close> assigned to an input
  character; \<open>'='\<close> and every character outside the alphabet leave it 0.
\<close>

definition b64_value :: "u8 \<Rightarrow> u8" where
  "b64_value c =
     (if c_char CHR ''A'' \<le> c \<and> c \<le> c_char CHR ''Z'' then c - c_char CHR ''A''
      else if c_char CHR ''a'' \<le> c \<and> c \<le> c_char CHR ''z'' then c - c_char CHR ''a'' + 26
      else if c_char CHR ''0'' \<le> c \<and> c \<le> c_char CHR ''9'' then c - c_char CHR ''0'' + 52
      else if c = c_char CHR ''+'' then 62
      else if c = c_char CHR ''/'' then 63
      else 0)"

text \<open>
  \<open>decode_base64\<close> reads \<open>input[i + 2]\<close> and \<open>input[i + 3]\<close> without comparing the
  index to \<open>len\<close>. \<open>input\<close> is the string up to its terminator; index \<open>len\<close> holds the
  terminator and \<open>past\<close> is the memory that follows it.
\<close>

definition cstr_at :: "u8 list \<Rightarrow> (nat \<Rightarrow> u8) \<Rightarrow> nat \<Rightarrow> u8" where
  "cstr_at input past k =
     (if k < length input then input ! k
      else if k = length input then 0
      else past (k - length input - 1))"

text \<open>The inner loop over \<open>j\<close>, accumulating \<open>n\<close>.\<close>

function decode_base64_quad :: "u8 list \<Rightarrow> nat \<Rightarrow> nat \<Rightarrow> u32 \<Rightarrow> u32" where
  "decode_base64_quad input i j n =
     (if j < 4 \<and> i + j < length input
      then decode_base64_quad input i (j + 1)
             (push_bit 6 n OR ucast (b64_value (input ! (i + j))))
      else n)"
  by pat_completeness auto
termination
  by (relation "measure (\<lambda>(input, i, j, n). 4 - j)") auto

text \<open>
  A guarded store \<open>if (cond) output[out_len++] = v\<close>. The output buffer is a list as long
  as the array it stands for; a store outside the array has no defined behaviour in C and
  is \<open>None\<close>.
\<close>

definition buf_put :: "bool \<Rightarrow> u8 list \<times> int \<Rightarrow> u8 \<Rightarrow> (u8 list \<times> int) option" where
  "buf_put cond st v =
     (case st of (output, out_len) \<Rightarrow>
        if cond then
          (if 0 \<le> out_len \<and> nat out_len < length output
           then Some (output[nat out_len := v], out_len + 1)
           else None)
        else Some (output, out_len))"

text \<open>The outer loop over \<open>i\<close>; the state is the buffer and \<open>out_len\<close>.\<close>

function decode_base64_loop ::
  "u8 list \<Rightarrow> (nat \<Rightarrow> u8) \<Rightarrow> int \<Rightarrow> nat \<Rightarrow> u8 list \<times> int \<Rightarrow> (u8 list \<times> int) option" where
  "decode_base64_loop input past max_len i st =
     (if i < length input \<and> snd st < max_len then
        (let n = decode_base64_quad input i 0 0
         in case buf_put (snd st < max_len) st (ucast (drop_bit 16 n AND 0xFF)) of
              None \<Rightarrow> None
            | Some st1 \<Rightarrow>
           (case buf_put (snd st1 < max_len \<and> cstr_at input past (i + 2) \<noteq> c_char CHR ''='')
                   st1 (ucast (drop_bit 8 n AND 0xFF)) of
              None \<Rightarrow> None
            | Some st2 \<Rightarrow>
           (case buf_put (snd st2 < max_len \<and> cstr_at input past (i + 3) \<noteq> c_char CHR ''='')
                   st2 (ucast (n AND 0xFF)) of
              None \<Rightarrow> None
            | Some st3 \<Rightarrow> decode_base64_loop input past max_len (i + 4) st3)))
      else Some st)"
  by pat_completeness auto
termination
  by (relation "measure (\<lambda>(input, past, max_len, i, st). length input - i)") auto

text \<open>\<open>decode_base64\<close> returns \<open>out_len\<close>; the model returns the buffer with it.\<close>

definition decode_base64 ::
  "u8 list \<Rightarrow> (nat \<Rightarrow> u8) \<Rightarrow> u8 list \<Rightarrow> int \<Rightarrow> (u8 list \<times> int) option" where
  "decode_base64 input past output max_len = decode_base64_loop input past max_len 0 (output, 0)"


declare encode_base64_loop.simps [simp del]
declare decode_base64_quad.simps [simp del]
declare decode_base64_loop.simps [simp del]

section \<open>FreeRTOS queues and timers\<close>

text \<open>
  FreeRTOS is the platform, not part of the sources. A queue is its stored items and its
  length. A call is modelled as the calling task sees it; what the task at the other end
  of the queue does during a wait is an argument of the call.

  \<open>xQueueSend\<close> with a wait of \<open>w\<close> milliseconds stores the item at once when there
  is room. On a full queue the caller is blocked: if within the wait the consumer has
  taken elements off the queue (\<open>Some (t, k)\<close>: after \<open>t < w\<close> milliseconds the \<open>k \<ge> 1\<close>
  oldest elements are gone), the item is stored behind the remaining ones; otherwise the
  call fails after \<open>w\<close> milliseconds and the queue is as before.
  \<open>xQueueSendFromISR\<close> never waits. \<open>xQueueReceive\<close> takes the oldest element at once;
  on an empty queue the caller is blocked until a producer sends an item (\<open>Some (t, x)\<close>:
  after \<open>t < w\<close> milliseconds the item \<open>x\<close>) or the wait is over. The last component of
  a result is the time the caller was blocked, in milliseconds.
\<close>

record 'a queue_t =
  q_items :: "'a list"
  q_length :: nat

definition xQueueCreate :: "nat \<Rightarrow> 'a queue_t" where
  "xQueueCreate n = \<lparr> q_items = [], q_length = n \<rparr>"

definition xQueueSend ::
  "'a queue_t \<Rightarrow> 'a \<Rightarrow> nat \<Rightarrow> (nat \<times> nat) option \<Rightarrow> bool \<times> 'a queue_t \<times> nat" where
  "xQueueSend q item wait_ms consumer =
     (if length (q_items q) < q_length q
      then (True, q\<lparr>q_items := q_items q @ [item]\<rparr>, 0)
      else case consumer of
        None \<Rightarrow> (False, q, wait_ms)
      | Some (t, k) \<Rightarrow>
          if t < wait_ms \<and> 0 < k \<and> q_items q \<noteq> []
          then (True, q\<lparr>q_items := drop k (q_items q) @ [item]\<rparr>, t)
          else (False, q, wait_ms))"

definition xQueueSendFromISR :: "'a queue_t \<Rightarrow> 'a \<Rightarrow> bool \<times> 'a queue_t" where
  "xQueueSendFromISR q item =
     (if length (q_items q) < q_length q
      then (True, q\<lparr>q_items := q_items q @ [item]\<rparr>)
      else (False, q))"

definition xQueueReceive ::
  "'a queue_t \<Rightarrow> nat \<Rightarrow> (nat \<times> 'a) option \<Rightarrow> 'a option \<times> 'a queue_t \<times> nat" where
  "xQueueReceive q wait_ms producer =
     (case q_items q of
        x # xs \<Rightarrow> (Some x, q\<lparr>q_items := xs\<rparr>, 0)
      | [] \<Rightarrow>
          (case producer of
             None \<Rightarrow> (None, q, wait_ms)
           | Some (t, x) \<Rightarrow> if t < wait_ms then (Some x, q, t) else (None, q, wait_ms)))"

text \<open>A software timer: its period and whether it is running.\<close>

record timer_t =
  period_ms :: nat
  active :: bool

section \<open>lora\_packet.h\<close>

record lora_modulation_t =
  frequency :: u32
  bandwidth :: u8
  spreading_factor :: u8
  coding_rate :: u8
  invert_polarity :: bool

text \<open>
  \<open>lora_rx_packet_t\<close>. \<open>snr\<close> is a \<open>float\<close> that only ever receives the value of an
  \<open>int8_t\<close>, kept here as that integer.
\<close>

record lora_rx_packet_t =
  payload :: "u8 list"
  payload_size :: u8
  modulation :: lora_modulation_t
  rssi :: u16
  snr :: int
  crc_ok :: bool
  timestamp :: u32
  tmst :: u32
  rf_chain :: u8
  if_chain :: u8

text \<open>\<open>lora_tx_packet_t\<close>; \<open>tx_power\<close> is an \<open>int8_t\<close>.\<close>

record lora_tx_packet_t =
  tx_payload :: "u8 list"
  tx_payload_size :: u8
  tx_modulation :: lora_modulation_t
  tx_power :: u8
  immediate :: bool
  tx_timestamp :: u32
  tx_rf_chain :: u8

record gateway_stats_t =
  rx_total :: u32
  rx_ok :: u32
  rx_bad :: u32
  rx_forwarded :: u32
  tx_total :: u32
  tx_ok :: u32
  tx_fail :: u32
  tx_collision :: u32
  uptime :: u32
  last_rx_time :: int
  last_tx_time :: int

record forwarder_status_t =
  connected :: bool
  push_ack :: u32
  pull_ack :: u32
  latency_ms :: u32

definition zero_stats :: gateway_stats_t where
  "zero_stats =
     \<lparr> rx_total = 0, rx_ok = 0, rx_bad = 0, rx_forwarded = 0, tx_total = 0, tx_ok = 0,
       tx_fail = 0, tx_collision = 0, uptime = 0, last_rx_time = 0, last_tx_time = 0 \<rparr>"

definition zero_modulation :: lora_modulation_t where
  "zero_modulation =
     \<lparr> frequency = 0, bandwidth = 0, spreading_factor = 0, coding_rate = 0,
       invert_polarity = False \<rparr>"

text \<open>\<open>lora_tx_packet_t tx_pkt = {0}\<close>.\<close>

definition zero_tx_packet :: lora_tx_packet_t where
  "zero_tx_packet =
     \<lparr> tx_payload = replicate (nat LORA_MAX_PAYLOAD_SIZE) 0, tx_payload_size = 0,
       tx_modulation = zero_modulation, tx_power = 0, immediate = False, tx_timestamp = 0,
       tx_rf_chain = 0 \<rparr>"

definition GATEWAY_RX_QUEUE_SIZE :: nat where "GATEWAY_RX_QUEUE_SIZE = 32"
definition GATEWAY_TX_QUEUE_SIZE :: nat where "GATEWAY_TX_QUEUE_SIZE = 16"

section \<open>The radios behind their handles\<close>

text \<open>
  A \<open>sx1276_handle_t\<close> is a pointer to a device structure allocated by \<open>sx1276_init\<close>.
  The gateway core and the channel manager hold copies of the same two handles, so the
  devices live in a store indexed by address and a handle is an address or \<open>NULL\<close>
  (\<open>None\<close>). Freeing a device removes it from the store; a call through a handle whose
  device has been freed has no defined behaviour and is modelled as changing nothing.
\<close>

type_synonym sx1276_handle_t = "nat option"
type_synonym radio_store = "nat \<Rightarrow> sx1276_dev_s option"

definition MODE_SLEEP :: u8 where "MODE_SLEEP = 0x00"
definition MODE_RX_CONTINUOUS :: u8 where "MODE_RX_CONTINUOUS = 0x05"
definition REG_DIO_MAPPING_1 :: u8 where "REG_DIO_MAPPING_1 = 0x40"
definition DIO0_RX_DONE :: u8 where "DIO0_RX_DONE = 0x00"

fun op_mode_bits :: "sx1276_mode_t \<Rightarrow> u8" where
  "op_mode_bits SX1276_MODE_SLEEP = 0x00"
| "op_mode_bits SX1276_MODE_STANDBY = 0x01"
| "op_mode_bits SX1276_MODE_FSTX = 0x02"
| "op_mode_bits SX1276_MODE_TX = 0x03"
| "op_mode_bits SX1276_MODE_FSRX = 0x04"
| "op_mode_bits SX1276_MODE_RX_CONTINUOUS = 0x05"
| "op_mode_bits SX1276_MODE_RX_SINGLE = 0x06"
| "op_mode_bits SX1276_MODE_CAD = 0x07"

text \<open>\<open>sx1276_set_mode\<close>; the enumeration has no value outside the eight modes.\<close>

definition sx1276_set_mode ::
  "sx1276_handle_t \<Rightarrow> sx1276_mode_t \<Rightarrow> radio_store \<Rightarrow> esp_err_t \<times> radio_store" where
  "sx1276_set_mode handle mode rs =
     (case handle of
        None \<Rightarrow> (ESP_ERR_INVALID_ARG, rs)
      | Some a \<Rightarrow>
          (case rs a of
             None \<Rightarrow> (ESP_OK, rs)
           | Some h \<Rightarrow>
               (let op_mode = MODE_LONG_RANGE_MODE OR op_mode_bits mode;
                    h' = (sx1276_write_reg h REG_OP_MODE op_mode)\<lparr>current_mode := mode\<rparr>
                in (ESP_OK, rs(a := Some h')))))"

definition sx1276_start_rx ::
  "sx1276_handle_t \<Rightarrow> bool \<Rightarrow> radio_store \<Rightarrow> esp_err_t \<times> radio_store" where
  "sx1276_start_rx handle callback rs =
     (case handle of
        None \<Rightarrow> (ESP_ERR_INVALID_ARG, rs)
      | Some a \<Rightarrow>
          (case rs a of
             None \<Rightarrow> (ESP_OK, rs)
           | Some h \<Rightarrow>
               (let h1 = h\<lparr>rx_callback := callback\<rparr>;
                    h2 = sx1276_write_reg h1 REG_IRQ_FLAGS 0xFF;
                    h3 = sx1276_write_reg h2 REG_DIO_MAPPING_1 DIO0_RX_DONE;
                    h4 = sx1276_write_reg h3 REG_FIFO_ADDR_PTR 0x00
                in sx1276_set_mode handle SX1276_MODE_RX_CONTINUOUS (rs(a := Some h4)))))"

definition sx1276_stop_rx :: "sx1276_handle_t \<Rightarrow> radio_store \<Rightarrow> esp_err_t \<times> radio_store" where
  "sx1276_stop_rx handle rs =
     (case handle of
        None \<Rightarrow> (ESP_ERR_INVALID_ARG, rs)
      | Some a \<Rightarrow>
          (case rs a of
             None \<Rightarrow> (ESP_OK, rs)
           | Some h \<Rightarrow>
               sx1276_set_mode handle SX1276_MODE_STANDBY
                 (rs(a := Some (h\<lparr>rx_callback := False\<rparr>)))))"

text \<open>\<open>sx1276_deinit\<close>: the device is put to sleep and freed.\<close>

definition sx1276_deinit :: "sx1276_handle_t \<Rightarrow> radio_store \<Rightarrow> esp_err_t \<times> radio_store" where
  "sx1276_deinit handle rs =
     (case handle of
        None \<Rightarrow> (ESP_ERR_INVALID_ARG, rs)
      | Some a \<Rightarrow>
          (let (_, rs') = sx1276_set_mode handle SX1276_MODE_SLEEP rs
           in (ESP_OK, rs'(a := None))))"


section \<open>The process-wide state and its platform\<close>

text \<open>\<open>channel_manager_t\<close>. A task handle is kept as whether a task exists.\<close>

record channel_manager_t =
  cm_rx_radio :: sx1276_handle_t
  cm_tx_radio :: sx1276_handle_t
  tx_queue :: "lora_tx_packet_t queue_t option"
  tx_task_handle :: bool
  cm_running :: bool
  tx_busy :: bool
  hopping_enabled :: bool
  hop_interval_ms :: u32
  current_channel :: u8
  hop_timer :: "timer_t option"
  tx_mutex :: "bool option"

text \<open>
  \<open>gateway_config_t\<close> of lora\_gateway.h (another type than the one of
  gateway\_config.h): the two radio configurations and the callback slots. Pins and SPI
  host are wiring and are left out.
\<close>

record lgw_config_t =
  radio0_config :: sx1276_config_t
  radio1_config :: sx1276_config_t
  gw_rx_callback :: bool
  gw_tx_callback :: bool

record gateway_state_t =
  gw_rx_radio :: sx1276_handle_t
  gw_tx_radio :: sx1276_handle_t
  gw_config :: lgw_config_t
  rx_queue :: "lora_rx_packet_t queue_t option"
  stats :: gateway_stats_t
  gw_initialized :: bool
  gw_running :: bool
  start_time :: u32
  rx_process_task :: bool

text \<open>\<open>pkt_fwd_config_t\<close> and \<open>pkt_fwd_state_t\<close>.\<close>

record pkt_fwd_config_t =
  pf_server_host :: string
  pf_server_port :: u16
  pf_gateway_eui :: "u8 list"
  keepalive_interval_ms :: u32
  stat_interval_ms :: u32

record pkt_fwd_state_t =
  pf_config :: pkt_fwd_config_t
  sock :: int
  server_addr :: "u32 \<times> u16"
  push_token :: u16
  pull_token :: u16
  pf_rx_task :: bool
  pf_tx_task :: bool
  keepalive_timer :: "timer_t option"
  stat_timer :: "timer_t option"
  uplink_queue :: "lora_rx_packet_t queue_t option"
  status :: forwarder_status_t
  push_sent :: u32
  pull_sent :: u32
  last_pull_ack :: int
  pf_initialized :: bool
  pf_running :: bool

text \<open>
  The three singletons \<open>s_gw\<close>, \<open>s_cm\<close> and \<open>s_pf\<close>, the radio devices, every datagram
  handed to \<open>sendto\<close> (in order), and the time tasks have spent blocked in queue waits.
\<close>

record system =
  s_gw :: gateway_state_t
  s_cm :: channel_manager_t
  s_pf :: pkt_fwd_state_t
  radios :: radio_store
  outbox :: "u8 list list"
  blocked_ms :: nat

text \<open>
  What the platform answers to the calls whose outcome the sources do not decide:
  allocation of queues, mutexes, timers and tasks, the SPI bus, \<open>sx1276_init\<close> (its
  return code and, on success, the address and state of the new device), name
  resolution, \<open>socket\<close> and \<open>sendto\<close>.
\<close>

record platform =
  spi_bus_initialize_ret :: esp_err_t
  sx1276_init_rx :: "esp_err_t \<times> nat \<times> sx1276_dev_s"
  sx1276_init_tx :: "esp_err_t \<times> nat \<times> sx1276_dev_s"
  tx_queue_alloc_ok :: bool
  tx_mutex_alloc_ok :: bool
  hop_timer_alloc_ok :: bool
  rx_queue_alloc_ok :: bool
  gw_task_create_ok :: bool
  cm_task_create_ok :: bool
  uplink_queue_alloc_ok :: bool
  pf_timer_alloc_ok :: bool
  pf_task_create_ok :: bool
  gethostbyname_ret :: "u32 option"
  socket_ret :: int
  sendto_ok :: bool

text \<open>The zero-initialised statics (\<open>= {0}\<close>, and what \<open>memset\<close> restores).\<close>

definition zero_sx1276_config :: sx1276_config_t where
  "zero_sx1276_config =
     \<lparr> cfg_frequency = 0, cfg_sf = 0, cfg_bw = 0, cfg_cr = 0, cfg_tx_power = 0,
       cfg_sync_word = 0, cfg_preamble_length = 0, cfg_crc_on = False,
       cfg_implicit_header = False, cfg_invert_iq_rx = False, cfg_invert_iq_tx = False \<rparr>"

definition zero_cm :: channel_manager_t where
  "zero_cm =
     \<lparr> cm_rx_radio = None, cm_tx_radio = None, tx_queue = None, tx_task_handle = False,
       cm_running = False, tx_busy = False, hopping_enabled = False, hop_interval_ms = 0,
       current_channel = 0, hop_timer = None, tx_mutex = None \<rparr>"

definition zero_gw :: gateway_state_t where
  "zero_gw =
     \<lparr> gw_rx_radio = None, gw_tx_radio = None,
       gw_config = \<lparr> radio0_config = zero_sx1276_config, radio1_config = zero_sx1276_config,
                     gw_rx_callback = False, gw_tx_callback = False \<rparr>,
       rx_queue = None, stats = zero_stats, gw_initialized = False, gw_running = False,
       start_time = 0, rx_process_task = False \<rparr>"

definition zero_pf :: pkt_fwd_state_t where
  "zero_pf =
     \<lparr> pf_config = \<lparr> pf_server_host = [], pf_server_port = 0, pf_gateway_eui = replicate 8 0,
                     keepalive_interval_ms = 0, stat_interval_ms = 0 \<rparr>,
       sock = 0, server_addr = (0, 0), push_token = 0, pull_token = 0,
       pf_rx_task = False, pf_tx_task = False, keepalive_timer = None, stat_timer = None,
       uplink_queue = None,
       status = \<lparr> connected = False, push_ack = 0, pull_ack = 0, latency_ms = 0 \<rparr>,
       push_sent = 0, pull_sent = 0, last_pull_ack = 0,
       pf_initialized = False, pf_running = False \<rparr>"

definition boot :: system where
  "boot = \<lparr> s_gw = zero_gw, s_cm = zero_cm, s_pf = zero_pf, radios = (\<lambda>_. None),
             outbox = [], blocked_ms = 0 \<rparr>"


section \<open>channel\_manager.c\<close>

definition channel_manager_init ::
  "sx1276_handle_t \<Rightarrow> sx1276_handle_t \<Rightarrow> platform \<Rightarrow> system \<Rightarrow> esp_err_t \<times> system" where
  "channel_manager_init rx_handle tx_handle plat sys =
     (if rx_handle = None \<or> tx_handle = None then (ESP_ERR_INVALID_ARG, sys)
      else
        (let cm0 = zero_cm\<lparr>cm_rx_radio := rx_handle, cm_tx_radio := tx_handle\<rparr>
         in if \<not> tx_queue_alloc_ok plat then (ESP_ERR_NO_MEM, sys\<lparr>s_cm := cm0\<rparr>)
            else
              (let cm1 = cm0\<lparr>tx_queue := Some (xQueueCreate GATEWAY_TX_QUEUE_SIZE)\<rparr>
               in if \<not> tx_mutex_alloc_ok plat then (ESP_ERR_NO_MEM, sys\<lparr>s_cm := cm1\<rparr>)
                  else
                    (ESP_OK, sys\<lparr>s_cm := cm1\<lparr>
                       tx_mutex := Some False,
                       hop_timer := (if hop_timer_alloc_ok plat
                                     then Some \<lparr> period_ms = 1000, active = False \<rparr>
                                     else None)\<rparr>\<rparr>))))"

text \<open>
  \<open>channel_manager_start\<close>. \<open>vTaskDelete\<close> on the error path leaves the handle
  non-\<open>NULL\<close>.
\<close>

definition channel_manager_start :: "platform \<Rightarrow> system \<Rightarrow> esp_err_t \<times> system" where
  "channel_manager_start plat sys =
     (if cm_running (s_cm sys) then (ESP_OK, sys)
      else if \<not> cm_task_create_ok plat then (ESP_FAIL, sys)
      else
        (let cm1 = (s_cm sys)\<lparr>tx_task_handle := True\<rparr>;
             (err, rs1) = sx1276_start_rx (cm_rx_radio cm1) True (radios sys)
         in if err \<noteq> ESP_OK then (err, sys\<lparr>s_cm := cm1, radios := rs1\<rparr>)
            else
              (let (_, rs2) = sx1276_set_mode (cm_tx_radio cm1) SX1276_MODE_STANDBY rs1;
                   timer = (if hopping_enabled cm1
                            then map_option (\<lambda>t. t\<lparr>active := True\<rparr>) (hop_timer cm1)
                            else hop_timer cm1)
               in (ESP_OK, sys\<lparr>s_cm := cm1\<lparr>hop_timer := timer, cm_running := True\<rparr>,
                                radios := rs2\<rparr>))))"

definition channel_manager_stop :: "system \<Rightarrow> esp_err_t \<times> system" where
  "channel_manager_stop sys =
     (if \<not> cm_running (s_cm sys) then (ESP_OK, sys)
      else
        (let cm1 = (s_cm sys)\<lparr>
                     cm_running := False,
                     hop_timer := map_option (\<lambda>t. t\<lparr>active := False\<rparr>) (hop_timer (s_cm sys)),
                     tx_task_handle := False\<rparr>;
             (_, rs1) = sx1276_stop_rx (cm_rx_radio cm1) (radios sys);
             (_, rs2) = sx1276_set_mode (cm_rx_radio cm1) SX1276_MODE_SLEEP rs1;
             (_, rs3) = sx1276_set_mode (cm_tx_radio cm1) SX1276_MODE_SLEEP rs2
         in (ESP_OK, sys\<lparr>s_cm := cm1, radios := rs3\<rparr>)))"

text \<open>
  \<open>channel_manager_schedule_tx\<close>: \<open>xQueueSend\<close> with a wait of 100 ms; \<open>consumer\<close> is
  what the TX worker does with the queue during that wait. A \<open>NULL\<close> packet is \<open>None\<close>.
  With a \<open>NULL\<close> queue handle FreeRTOS stops on an assertion; the model reports the
  failure code.
\<close>

definition channel_manager_schedule_tx ::
  "lora_tx_packet_t option \<Rightarrow> (nat \<times> nat) option \<Rightarrow> system \<Rightarrow> esp_err_t \<times> system" where
  "channel_manager_schedule_tx packet consumer sys =
     (case packet of
        None \<Rightarrow> (ESP_ERR_INVALID_STATE, sys)
      | Some p \<Rightarrow>
          if \<not> cm_running (s_cm sys) then (ESP_ERR_INVALID_STATE, sys)
          else
            (case tx_queue (s_cm sys) of
               None \<Rightarrow> (ESP_ERR_NO_MEM, sys)
             | Some q \<Rightarrow>
                 (let (sent, q', waited) = xQueueSend q p 100 consumer;
                      sys' = sys\<lparr>blocked_ms := blocked_ms sys + waited\<rparr>
                  in if \<not> sent then (ESP_ERR_NO_MEM, sys')
                     else (ESP_OK, sys'\<lparr>s_cm := (s_cm sys)\<lparr>tx_queue := Some q'\<rparr>\<rparr>))))"

definition tx_done_callback :: "bool \<Rightarrow> system \<Rightarrow> system" where
  "tx_done_callback success sys = sys\<lparr>s_cm := (s_cm sys)\<lparr>tx_busy := False\<rparr>\<rparr>"

section \<open>lora\_gateway.c\<close>

text \<open>\<open>lora_gateway_get_timestamp\<close>, from the value of \<open>esp_timer_get_time\<close>.\<close>

definition lora_gateway_get_timestamp :: "int \<Rightarrow> u32" where
  "lora_gateway_get_timestamp now = word_of_int (now AND 0xFFFFFFFF)"

text \<open>
  \<open>lora_gateway_rx_handler\<close>, called from the radio interrupt through the channel
  manager's \<open>rx_callback\<close>. \<open>now\<close> is the clock at the call.
\<close>

definition lora_gateway_rx_handler :: "lora_rx_packet_t option \<Rightarrow> int \<Rightarrow> system \<Rightarrow> system" where
  "lora_gateway_rx_handler packet now sys =
     (case packet of
        None \<Rightarrow> sys
      | Some p \<Rightarrow>
          if \<not> gw_running (s_gw sys) then sys
          else
            (let st0 = stats (s_gw sys);
                 st1 = st0\<lparr>rx_total := rx_total st0 + 1\<rparr>;
                 st2 = (if crc_ok p then st1\<lparr>rx_ok := rx_ok st1 + 1\<rparr>
                        else st1\<lparr>rx_bad := rx_bad st1 + 1\<rparr>);
                 st3 = st2\<lparr>last_rx_time := now\<rparr>;
                 gw1 = (s_gw sys)\<lparr>stats := st3\<rparr>
             in case rx_queue gw1 of
                  None \<Rightarrow> sys\<lparr>s_gw := gw1\<rparr>
                | Some q \<Rightarrow>
                    (let (sent, q') = xQueueSendFromISR q p
                     in sys\<lparr>s_gw := gw1\<lparr>rx_queue := Some q'\<rparr>\<rparr>)))"

text \<open>
  The channel manager's \<open>rx_callback\<close>: conversion to the gateway's packet format. The
  clock is read twice: \<open>now\<close> by \<open>lora_gateway_get_timestamp\<close> for \<open>tmst\<close>, and \<open>now2\<close>
  afterwards by \<open>lora_gateway_rx_handler\<close>.
\<close>

definition rx_callback_cm ::
  "sx1276_rx_packet_t option \<Rightarrow> int \<Rightarrow> int \<Rightarrow> system \<Rightarrow> system" where
  "rx_callback_cm packet now now2 sys =
     (case packet of
        None \<Rightarrow> sys
      | Some p \<Rightarrow>
          (let len = unat (rx_length p);
               gw_packet = \<lparr>
                 payload = take len (rx_data p) @ replicate (nat LORA_MAX_PAYLOAD_SIZE - len) 0,
                 payload_size = rx_length p,
                 modulation = \<lparr> frequency = rx_frequency p, bandwidth = rx_bw p,
                                spreading_factor = rx_sf p, coding_rate = rx_cr p,
                                invert_polarity = False \<rparr>,
                 rssi = rx_rssi p,
                 snr = sint (rx_snr p),
                 crc_ok = rx_crc_ok p,
                 timestamp = rx_timestamp p,
                 tmst = lora_gateway_get_timestamp now,
                 rf_chain = 0,
                 if_chain = 0 \<rparr>
           in lora_gateway_rx_handler (Some gw_packet) now2 sys))"


text \<open>
  \<open>lora_gateway_init\<close>. \<open>init_spi_bus\<close> accepts \<open>ESP_ERR_INVALID_STATE\<close> (bus already
  initialised). \<open>sx1276_init\<close> is taken by its outcome.
\<close>

definition lora_gateway_init ::
  "lgw_config_t option \<Rightarrow> platform \<Rightarrow> system \<Rightarrow> esp_err_t \<times> system" where
  "lora_gateway_init cfg plat sys =
     (if gw_initialized (s_gw sys) then (ESP_OK, sys)
      else case cfg of
        None \<Rightarrow> (ESP_ERR_INVALID_ARG, sys)
      | Some c \<Rightarrow>
          (let gw0 = zero_gw\<lparr>gw_config := c\<rparr>;
               sys0 = sys\<lparr>s_gw := gw0\<rparr>;
               spi = spi_bus_initialize_ret plat
           in if spi \<noteq> ESP_OK \<and> spi \<noteq> ESP_ERR_INVALID_STATE then (spi, sys0)
              else
                (case sx1276_init_rx plat of (ret_rx, a_rx, dev_rx) \<Rightarrow>
                 if ret_rx \<noteq> ESP_OK then (ret_rx, sys0)
                 else
                   (let gw1 = gw0\<lparr>gw_rx_radio := Some a_rx\<rparr>;
                        sys1 = sys0\<lparr>s_gw := gw1, radios := (radios sys0)(a_rx := Some dev_rx)\<rparr>
                    in case sx1276_init_tx plat of (ret_tx, a_tx, dev_tx) \<Rightarrow>
                       if ret_tx \<noteq> ESP_OK
                       then (ret_tx, sys1\<lparr>radios := snd (sx1276_deinit (gw_rx_radio gw1) (radios sys1))\<rparr>)
                       else
                         (let gw2 = gw1\<lparr>gw_tx_radio := Some a_tx\<rparr>;
                              sys2 = sys1\<lparr>s_gw := gw2, radios := (radios sys1)(a_tx := Some dev_tx)\<rparr>;
                              (ret_cm, sys3) = channel_manager_init (gw_rx_radio gw2) (gw_tx_radio gw2)
                                                 plat sys2
                          in if ret_cm \<noteq> ESP_OK
                             then (ret_cm, sys3\<lparr>radios :=
                                     snd (sx1276_deinit (gw_tx_radio gw2)
                                       (snd (sx1276_deinit (gw_rx_radio gw2) (radios sys3))))\<rparr>)
                             else if \<not> rx_queue_alloc_ok plat then (ESP_ERR_NO_MEM, sys3)
                             else
                               (ESP_OK, sys3\<lparr>s_gw := gw2\<lparr>
                                  rx_queue := Some (xQueueCreate GATEWAY_RX_QUEUE_SIZE),
                                  gw_initialized := True\<rparr>\<rparr>))))))"

text \<open>\<open>lora_gateway_start\<close>; \<open>now\<close> is the clock read for \<open>start_time\<close>.\<close>

definition lora_gateway_start :: "platform \<Rightarrow> int \<Rightarrow> system \<Rightarrow> esp_err_t \<times> system" where
  "lora_gateway_start plat now sys =
     (if \<not> gw_initialized (s_gw sys) then (ESP_ERR_INVALID_STATE, sys)
      else if gw_running (s_gw sys) then (ESP_OK, sys)
      else if \<not> gw_task_create_ok plat then (ESP_FAIL, sys)
      else
        (let sys1 = sys\<lparr>s_gw := (s_gw sys)\<lparr>rx_process_task := True\<rparr>\<rparr>;
             (err, sys2) = channel_manager_start plat sys1
         in if err \<noteq> ESP_OK then (err, sys2)
            else
              (ESP_OK, sys2\<lparr>s_gw := (s_gw sys2)\<lparr>
                 gw_running := True,
                 start_time := word_of_int (now sdiv 1000000)\<rparr>\<rparr>)))"

definition lora_gateway_stop :: "system \<Rightarrow> esp_err_t \<times> system" where
  "lora_gateway_stop sys =
     (if \<not> gw_running (s_gw sys) then (ESP_OK, sys)
      else
        (let sys1 = sys\<lparr>s_gw := (s_gw sys)\<lparr>gw_running := False\<rparr>\<rparr>;
             (_, sys2) = channel_manager_stop sys1
         in (ESP_OK, sys2\<lparr>s_gw := (s_gw sys2)\<lparr>rx_process_task := False\<rparr>\<rparr>)))"

text \<open>\<open>lora_gateway_deinit\<close>; the deleted RX queue's handle is left in place.\<close>

definition lora_gateway_deinit :: "system \<Rightarrow> esp_err_t \<times> system" where
  "lora_gateway_deinit sys =
     (if \<not> gw_initialized (s_gw sys) then (ESP_OK, sys)
      else
        (let (_, sys1) = lora_gateway_stop sys;
             (_, sys2) = channel_manager_stop sys1;
             rs1 = snd (sx1276_deinit (gw_rx_radio (s_gw sys2)) (radios sys2));
             rs2 = snd (sx1276_deinit (gw_tx_radio (s_gw sys2)) rs1)
         in (ESP_OK, sys2\<lparr>s_gw := (s_gw sys2)\<lparr>gw_initialized := False\<rparr>, radios := rs2\<rparr>)))"

definition lora_gateway_send ::
  "lora_tx_packet_t option \<Rightarrow> int \<Rightarrow> (nat \<times> nat) option \<Rightarrow> system \<Rightarrow> esp_err_t \<times> system" where
  "lora_gateway_send packet now consumer sys =
     (if \<not> gw_running (s_gw sys) \<or> packet = None then (ESP_ERR_INVALID_STATE, sys)
      else
        (let st1 = (stats (s_gw sys))\<lparr>tx_total := tx_total (stats (s_gw sys)) + 1\<rparr>;
             sys1 = sys\<lparr>s_gw := (s_gw sys)\<lparr>stats := st1\<rparr>\<rparr>;
             (ret, sys2) = channel_manager_schedule_tx packet consumer sys1;
             st2 = stats (s_gw sys2);
             st3 = (if ret = ESP_OK then st2\<lparr>last_tx_time := now\<rparr>
                    else st2\<lparr>tx_fail := tx_fail st2 + 1\<rparr>)
         in (ret, sys2\<lparr>s_gw := (s_gw sys2)\<lparr>stats := st3\<rparr>\<rparr>)))"

section \<open>channel\_manager.c: the TX worker\<close>

text \<open>\<open>sx1276_tx_packet_t\<close>; \<open>sx_power\<close> is an \<open>int8_t\<close>.\<close>

record sx1276_tx_packet_t =
  sx_data :: "u8 list"
  sx_length :: u8
  sx_frequency :: u32
  sx_power :: u8
  sx_sf :: u8
  sx_bw :: u8
  sx_cr :: u8
  sx_invert_iq :: bool
  sx_tx_delay_us :: u32

text \<open>
  The clock as the worker sees it: the list of the values that successive calls of
  \<open>esp_timer_get_time\<close> return. The wait loop
  \<open>while (lora_gateway_get_timestamp() < packet.tx_timestamp) vTaskDelay(1)\<close> takes one
  reading per round; it leaves the loop at the first reading that is not below the
  timestamp (an unsigned comparison) and returns the readings that remain. When the
  readings run out the loop is still waiting (\<open>None\<close>).
\<close>

fun wait_until_timestamp :: "u32 \<Rightarrow> int list \<Rightarrow> int list option" where
  "wait_until_timestamp t [] = None"
| "wait_until_timestamp t (c # cs) =
     (if lora_gateway_get_timestamp c < t then wait_until_timestamp t cs else Some cs)"

text \<open>
  The timing check of \<open>tx_task\<close>: \<open>Some (True, cs)\<close> goes on to transmit, \<open>Some (False, cs)\<close>
  skips the packet (the \<open>continue\<close>), \<open>None\<close> is still waiting.
\<close>

definition tx_task_timing :: "lora_tx_packet_t \<Rightarrow> int list \<Rightarrow> (bool \<times> int list) option" where
  "tx_task_timing packet clock =
     (if \<not> immediate packet then
        (case clock of
           [] \<Rightarrow> None
         | c # cs \<Rightarrow>
             (let current = lora_gateway_get_timestamp c;
                  delay = sint (tx_timestamp packet - current)
              in if delay > 0 \<and> delay < 5000000 then
                   (case wait_until_timestamp (tx_timestamp packet) cs of
                      None \<Rightarrow> None
                    | Some cs' \<Rightarrow> Some (True, cs'))
                 else if delay < - 100000 then Some (False, cs)
                 else Some (True, cs)))
      else Some (True, clock))"

text \<open>
  The block "Prepare SX1276 packet" of \<open>tx_task\<close>. \<open>memcpy\<close> copies \<open>payload_size\<close>
  bytes into \<open>sx_packet.data\<close>.
\<close>

definition prepare_sx_packet :: "lora_tx_packet_t \<Rightarrow> sx1276_tx_packet_t" where
  "prepare_sx_packet packet =
     \<lparr> sx_data = take (unat (tx_payload_size packet)) (tx_payload packet),
       sx_length = tx_payload_size packet,
       sx_frequency = frequency (tx_modulation packet),
       sx_power = tx_power packet,
       sx_sf = spreading_factor (tx_modulation packet),
       sx_bw = bandwidth (tx_modulation packet),
       sx_cr = coding_rate (tx_modulation packet),
       sx_invert_iq = invert_polarity (tx_modulation packet),
       sx_tx_delay_us = 0 \<rparr>"

text \<open>What one round of the worker's loop did with the queue's head.\<close>

datatype tx_action =
    TxIdle
  | TxSkipped lora_tx_packet_t
  | TxTransmit sx1276_tx_packet_t
  | TxWaiting lora_tx_packet_t

text \<open>
  One round of \<open>tx_task\<close>, from \<open>xQueueReceive\<close> to the call of \<open>sx1276_transmit\<close>,
  whose argument is the result; \<open>producer\<close> is what arrives in the queue while the
  worker waits on it. The mutex is used by this task only, so \<open>xSemaphoreTake\<close> gets it.
  The rest of the iteration (the wait for \<open>tx_done_callback\<close> to clear \<open>tx_busy\<close> and the
  release of the mutex) is not part of the round.
\<close>

definition tx_task_round ::
  "(nat \<times> lora_tx_packet_t) option \<Rightarrow> int list \<Rightarrow> system \<Rightarrow> tx_action \<times> system" where
  "tx_task_round producer clock sys =
     (if \<not> cm_running (s_cm sys) then (TxIdle, sys)
      else case tx_queue (s_cm sys) of
        None \<Rightarrow> (TxIdle, sys)
      | Some q \<Rightarrow>
          (case xQueueReceive q 100 producer of (received, q', waited) \<Rightarrow>
           (case received of
              None \<Rightarrow> (TxIdle, sys\<lparr>blocked_ms := blocked_ms sys + waited\<rparr>)
            | Some packet \<Rightarrow>
                (let cm1 = (s_cm sys)\<lparr>tx_queue := Some q', tx_mutex := Some True, tx_busy := True\<rparr>;
                     sys1 = sys\<lparr>s_cm := cm1, blocked_ms := blocked_ms sys + waited\<rparr>
                 in case tx_task_timing packet clock of
                      None \<Rightarrow> (TxWaiting packet, sys1)
                    | Some (False, _) \<Rightarrow>
                        (TxSkipped packet,
                         sys1\<lparr>s_cm := cm1\<lparr>tx_busy := False, tx_mutex := Some False\<rparr>\<rparr>)
                    | Some (True, _) \<Rightarrow>
                        (TxTransmit (prepare_sx_packet packet), sys1)))))"


section \<open>packet\_forwarder.c\<close>

definition PROTOCOL_VERSION :: u8 where "PROTOCOL_VERSION = 2"
definition PKT_PUSH_DATA :: u8 where "PKT_PUSH_DATA = 0x00"
definition PKT_PUSH_ACK :: u8 where "PKT_PUSH_ACK = 0x01"
definition PKT_PULL_DATA :: u8 where "PKT_PULL_DATA = 0x02"
definition PKT_PULL_RESP :: u8 where "PKT_PULL_RESP = 0x03"
definition PKT_PULL_ACK :: u8 where "PKT_PULL_ACK = 0x04"
definition PKT_TX_ACK :: u8 where "PKT_TX_ACK = 0x05"
definition UDP_BUFFER_SIZE :: nat where "UDP_BUFFER_SIZE = 2048"

definition pkt_fwd_init ::
  "pkt_fwd_config_t option \<Rightarrow> platform \<Rightarrow> system \<Rightarrow> esp_err_t \<times> system" where
  "pkt_fwd_init cfg plat sys =
     (if pf_initialized (s_pf sys) then (ESP_OK, sys)
      else case cfg of
        None \<Rightarrow> (ESP_ERR_INVALID_ARG, sys)
      | Some c \<Rightarrow>
          (let pf0 = zero_pf\<lparr>pf_config := c, sock := - 1\<rparr>
           in if \<not> uplink_queue_alloc_ok plat then (ESP_ERR_NO_MEM, sys\<lparr>s_pf := pf0\<rparr>)
              else
                (ESP_OK, sys\<lparr>s_pf := pf0\<lparr>
                   uplink_queue := Some (xQueueCreate 32),
                   keepalive_timer :=
                     (if pf_timer_alloc_ok plat
                      then Some \<lparr> period_ms = unat (keepalive_interval_ms c), active = False \<rparr>
                      else None),
                   stat_timer :=
                     (if pf_timer_alloc_ok plat
                      then Some \<lparr> period_ms = unat (stat_interval_ms c), active = False \<rparr>
                      else None),
                   pf_initialized := True\<rparr>\<rparr>)))"

text \<open>The four header bytes of a datagram.\<close>

definition pkt_header :: "u16 \<Rightarrow> u8 \<Rightarrow> u8 list" where
  "pkt_header token ptype =
     [PROTOCOL_VERSION, ucast (drop_bit 8 token AND 0xFF), ucast (token AND 0xFF), ptype]"

text \<open>
  \<open>send_pull_data\<close>. Every buffer handed to \<open>sendto\<close> is appended to \<open>outbox\<close>;
  whether \<open>sendto\<close> reports the full length is the platform's answer.
\<close>

definition send_pull_data :: "platform \<Rightarrow> system \<Rightarrow> esp_err_t \<times> system" where
  "send_pull_data plat sys =
     (if sock (s_pf sys) < 0 then (ESP_ERR_INVALID_STATE, sys)
      else
        (let pf1 = (s_pf sys)\<lparr>pull_token := pull_token (s_pf sys) + 1\<rparr>;
             buffer = pkt_header (pull_token pf1) PKT_PULL_DATA @ pf_gateway_eui (pf_config pf1);
             sys1 = sys\<lparr>s_pf := pf1, outbox := outbox sys @ [buffer]\<rparr>
         in if \<not> sendto_ok plat then (ESP_FAIL, sys1)
            else (ESP_OK, sys1\<lparr>s_pf := pf1\<lparr>pull_sent := pull_sent pf1 + 1\<rparr>\<rparr>)))"

text \<open>
  \<open>pkt_fwd_start\<close>. The results of the two task creations are not looked at; a handle
  is set when the creation succeeds.
\<close>

definition pkt_fwd_start :: "platform \<Rightarrow> system \<Rightarrow> esp_err_t \<times> system" where
  "pkt_fwd_start plat sys =
     (if \<not> pf_initialized (s_pf sys) then (ESP_ERR_INVALID_STATE, sys)
      else if pf_running (s_pf sys) then (ESP_OK, sys)
      else case gethostbyname_ret plat of
        None \<Rightarrow> (ESP_FAIL, sys)
      | Some addr \<Rightarrow>
          (let pf1 = (s_pf sys)\<lparr>
                       server_addr := (addr, pf_server_port (pf_config (s_pf sys))),
                       sock := socket_ret plat\<rparr>
           in if sock pf1 < 0 then (ESP_FAIL, sys\<lparr>s_pf := pf1\<rparr>)
              else
                (let pf2 = pf1\<lparr>
                       pf_rx_task := (pf_task_create_ok plat \<or> pf_rx_task pf1),
                       pf_tx_task := (pf_task_create_ok plat \<or> pf_tx_task pf1),
                       keepalive_timer := map_option (\<lambda>t. t\<lparr>active := True\<rparr>) (keepalive_timer pf1),
                       stat_timer := map_option (\<lambda>t. t\<lparr>active := True\<rparr>) (stat_timer pf1),
                       pf_running := True\<rparr>
                 in (ESP_OK, snd (send_pull_data plat (sys\<lparr>s_pf := pf2\<rparr>))))))"

definition pkt_fwd_stop :: "system \<Rightarrow> esp_err_t \<times> system" where
  "pkt_fwd_stop sys =
     (if \<not> pf_running (s_pf sys) then (ESP_OK, sys)
      else
        (let pf = s_pf sys
         in (ESP_OK, sys\<lparr>s_pf := pf\<lparr>
               pf_running := False,
               keepalive_timer := map_option (\<lambda>t. t\<lparr>active := False\<rparr>) (keepalive_timer pf),
               stat_timer := map_option (\<lambda>t. t\<lparr>active := False\<rparr>) (stat_timer pf),
               pf_rx_task := False,
               pf_tx_task := False,
               sock := (if sock pf \<ge> 0 then - 1 else sock pf),
               status := (status pf)\<lparr>connected := False\<rparr>\<rparr>\<rparr>)))"

text \<open>
  \<open>pkt_fwd_send_uplink\<close>: \<open>xQueueSend\<close> with a wait of 100 ms; \<open>consumer\<close> is what the
  forwarder's \<open>tx_task\<close> does with the queue during that wait.
\<close>

definition pkt_fwd_send_uplink ::
  "lora_rx_packet_t option \<Rightarrow> (nat \<times> nat) option \<Rightarrow> system \<Rightarrow> esp_err_t \<times> system" where
  "pkt_fwd_send_uplink packet consumer sys =
     (case packet of
        None \<Rightarrow> (ESP_ERR_INVALID_STATE, sys)
      | Some p \<Rightarrow>
          if \<not> pf_running (s_pf sys) then (ESP_ERR_INVALID_STATE, sys)
          else
            (case uplink_queue (s_pf sys) of
               None \<Rightarrow> (ESP_ERR_NO_MEM, sys)
             | Some q \<Rightarrow>
                 (let (sent, q', waited) = xQueueSend q p 100 consumer;
                      sys' = sys\<lparr>blocked_ms := blocked_ms sys + waited\<rparr>
                  in if \<not> sent then (ESP_ERR_NO_MEM, sys')
                     else (ESP_OK, sys'\<lparr>s_pf := (s_pf sys)\<lparr>uplink_queue := Some q'\<rparr>\<rparr>))))"

text \<open>
  \<open>keepalive_callback\<close>; \<open>now\<close> is \<open>esp_timer_get_time()\<close>, an \<open>int64_t\<close> count of
  microseconds.
\<close>

definition keepalive_callback :: "platform \<Rightarrow> int \<Rightarrow> system \<Rightarrow> system" where
  "keepalive_callback plat now sys =
     (if \<not> pf_running (s_pf sys) then sys
      else
        (let sys1 = snd (send_pull_data plat sys);
             pf = s_pf sys1
         in if now - last_pull_ack pf > 30000000 then
              (if connected (status pf)
               then sys1\<lparr>s_pf := pf\<lparr>status := (status pf)\<lparr>connected := False\<rparr>\<rparr>\<rparr>
               else sys1)
            else sys1))"

text \<open>
  \<open>send_tx_ack\<close>. \<open>cJSON_PrintUnformatted\<close> of the object that the function builds
  prints the fixed text around the error code; the codes used contain no character that
  needs escaping. A \<open>NULL\<close> error is \<open>None\<close>.
\<close>

definition txpk_ack_json :: "u8 list \<Rightarrow> u8 list" where
  \<open>txpk_ack_json error = c_str ''{"txpk_ack":{"error":"'' @ error @ c_str ''"}}''\<close>

definition tx_ack_datagram :: "u8 list \<Rightarrow> u16 \<Rightarrow> u8 list option \<Rightarrow> u8 list" where
  "tx_ack_datagram eui token error =
     pkt_header token PKT_TX_ACK @ eui @
     (case error of None \<Rightarrow> [] | Some e \<Rightarrow> txpk_ack_json e)"

definition send_tx_ack :: "u16 \<Rightarrow> u8 list option \<Rightarrow> system \<Rightarrow> esp_err_t \<times> system" where
  "send_tx_ack token error sys =
     (if sock (s_pf sys) < 0 then (ESP_ERR_INVALID_STATE, sys)
      else
        (ESP_OK, sys\<lparr>outbox := outbox sys @
           [tx_ack_datagram (pf_gateway_eui (pf_config (s_pf sys))) token error]\<rparr>))"


subsection \<open>The JSON library\<close>

text \<open>
  cJSON is a library outside the sources. A parsed tree is a value of \<open>cJSON\<close>; a number
  node carries \<open>valueint\<close> and \<open>valuedouble\<close>, the latter as the bit pattern of the
  \<open>double\<close>. The parser itself, and the two conversions of a \<open>double\<close> that
  \<open>handle_pull_resp\<close> performs, are parameters of the model (floating point is not
  modelled): \<open>double_to_uint32 d\<close> is \<open>(uint32_t)d\<close> and \<open>mhz_to_hz d\<close> is
  \<open>(uint32_t)(d * 1e6)\<close>. \<open>string_past\<close> is the memory behind the terminator of the
  \<open>data\<close> string. \<open>buffer_past\<close> is the memory behind the received datagram: the
  rest of the receive buffer of \<open>rx_task\<close>, which is not cleared between datagrams, and
  what follows it.
\<close>

datatype cJSON =
    cJSON_False
  | cJSON_True
  | cJSON_NULL
  | cJSON_Number int "64 word"
  | cJSON_String "u8 list"
  | cJSON_Array "cJSON list"
  | cJSON_Object "(u8 list \<times> cJSON) list"

record pf_env =
  cJSON_Parse :: "u8 list \<Rightarrow> cJSON option"
  double_to_uint32 :: "64 word \<Rightarrow> u32"
  mhz_to_hz :: "64 word \<Rightarrow> u32"
  string_past :: "nat \<Rightarrow> u8"
  buffer_past :: "u8 list"

definition c_tolower :: "u8 \<Rightarrow> u8" where
  "c_tolower c = (if c_char CHR ''A'' \<le> c \<and> c \<le> c_char CHR ''Z'' then c + 32 else c)"

text \<open>\<open>cJSON_GetObjectItem\<close> compares names without regard to case and returns the first match.\<close>

fun cJSON_GetObjectItem :: "cJSON \<Rightarrow> u8 list \<Rightarrow> cJSON option" where
  "cJSON_GetObjectItem (cJSON_Object kvs) name =
     map_option snd (find (\<lambda>kv. map c_tolower (fst kv) = map c_tolower name) kvs)"
| "cJSON_GetObjectItem _ name = None"

fun cJSON_IsTrue :: "cJSON \<Rightarrow> bool" where
  "cJSON_IsTrue cJSON_True = True"
| "cJSON_IsTrue _ = False"

fun cJSON_IsNumber :: "cJSON \<Rightarrow> bool" where
  "cJSON_IsNumber (cJSON_Number _ _) = True"
| "cJSON_IsNumber _ = False"

fun cJSON_IsString :: "cJSON \<Rightarrow> bool" where
  "cJSON_IsString (cJSON_String _) = True"
| "cJSON_IsString _ = False"

text \<open>The fields of a node; the parser sets \<open>valueint\<close> to 1 in a \<open>true\<close> node.\<close>

fun valueint :: "cJSON \<Rightarrow> int" where
  "valueint (cJSON_Number i _) = i"
| "valueint cJSON_True = 1"
| "valueint _ = 0"

fun valuedouble :: "cJSON \<Rightarrow> 64 word" where
  "valuedouble (cJSON_Number _ d) = d"
| "valuedouble _ = 0"

fun valuestring :: "cJSON \<Rightarrow> u8 list" where
  "valuestring (cJSON_String s) = s"
| "valuestring _ = []"

subsection \<open>\<open>sscanf\<close> with the two formats of \<open>handle_pull_resp\<close>\<close>

definition c_isspace :: "u8 \<Rightarrow> bool" where
  "c_isspace c = (c = 0x20 \<or> (0x09 \<le> c \<and> c \<le> 0x0D))"

definition c_isdigit :: "u8 \<Rightarrow> bool" where
  "c_isdigit c = (c_char CHR ''0'' \<le> c \<and> c \<le> c_char CHR ''9'')"

text \<open>
  The conversion \<open>%d\<close>: white space is skipped, a sign is optional, at least one digit
  is needed. A value outside \<open>int\<close> has no defined result in C; here the value is exact.
\<close>

definition scan_int :: "u8 list \<Rightarrow> (int \<times> u8 list) option" where
  "scan_int s =
     (let s1 = dropWhile c_isspace s;
          (neg, s2) = (case s1 of
                         [] \<Rightarrow> (False, s1)
                       | c # r \<Rightarrow> if c = c_char CHR ''-'' then (True, r)
                                  else if c = c_char CHR ''+'' then (False, r)
                                  else (False, s1));
          ds = takeWhile c_isdigit s2;
          v = foldl (\<lambda>a d. 10 * a + (uint d - 48)) 0 ds
      in if ds = [] then None
         else Some (if neg then - v else v, dropWhile c_isdigit s2))"

text \<open>A literal character of the format must be the next input character.\<close>

definition scan_lit :: "char \<Rightarrow> u8 list \<Rightarrow> u8 list option" where
  "scan_lit c s = (case s of [] \<Rightarrow> None | x # r \<Rightarrow> if x = c_char c then Some r else None)"

text \<open>\<open>sscanf(s, "SF%dBW%d", &sf, &bw) == 2\<close>, with the two values.\<close>

definition sscanf_datr :: "u8 list \<Rightarrow> (int \<times> int) option" where
  "sscanf_datr s =
     (case scan_lit CHR ''S'' s of None \<Rightarrow> None | Some s1 \<Rightarrow>
      case scan_lit CHR ''F'' s1 of None \<Rightarrow> None | Some s2 \<Rightarrow>
      case scan_int s2 of None \<Rightarrow> None | Some (sf, s3) \<Rightarrow>
      case scan_lit CHR ''B'' s3 of None \<Rightarrow> None | Some s4 \<Rightarrow>
      case scan_lit CHR ''W'' s4 of None \<Rightarrow> None | Some s5 \<Rightarrow>
      case scan_int s5 of None \<Rightarrow> None | Some (bw, _) \<Rightarrow> Some (sf, bw))"

text \<open>\<open>sscanf(s, "%d/%d", &num, &den) == 2\<close>, with the two values.\<close>

definition sscanf_codr :: "u8 list \<Rightarrow> (int \<times> int) option" where
  "sscanf_codr s =
     (case scan_int s of None \<Rightarrow> None | Some (num, s1) \<Rightarrow>
      case scan_lit CHR ''/'' s1 of None \<Rightarrow> None | Some s2 \<Rightarrow>
      case scan_int s2 of None \<Rightarrow> None | Some (den, _) \<Rightarrow> Some (num, den))"


subsection \<open>\<open>handle_pull_resp\<close> and the receive loop\<close>

text \<open>
  The part of \<open>handle_pull_resp\<close> that fills \<open>tx_pkt\<close> from the \<open>txpk\<close> object. The
  conversions to the narrower fields (\<open>int\<close> to \<open>int8_t\<close> and \<open>uint8_t\<close>) keep the low
  bits. The result is \<open>None\<close> when \<open>decode_base64\<close> stores outside \<open>tx_pkt.payload\<close>.
\<close>

definition pull_resp_tx_packet :: "pf_env \<Rightarrow> cJSON \<Rightarrow> lora_tx_packet_t option" where
  "pull_resp_tx_packet env txpk =
     (let p0 = zero_tx_packet;
          p1 = p0\<lparr>immediate :=
                 (case cJSON_GetObjectItem txpk (c_str ''imme'') of
                    None \<Rightarrow> False | Some j \<Rightarrow> cJSON_IsTrue j)\<rparr>;
          p2 = (case cJSON_GetObjectItem txpk (c_str ''tmst'') of
                  None \<Rightarrow> p1
                | Some j \<Rightarrow>
                    if cJSON_IsNumber j
                    then p1\<lparr>tx_timestamp := double_to_uint32 env (valuedouble j)\<rparr>
                    else p1);
          p3 = (case cJSON_GetObjectItem txpk (c_str ''freq'') of
                  None \<Rightarrow> p2
                | Some j \<Rightarrow>
                    if cJSON_IsNumber j
                    then p2\<lparr>tx_modulation :=
                           (tx_modulation p2)\<lparr>frequency := mhz_to_hz env (valuedouble j)\<rparr>\<rparr>
                    else p2);
          p4 = p3\<lparr>tx_power :=
                 (case cJSON_GetObjectItem txpk (c_str ''powe'') of
                    None \<Rightarrow> 14 | Some j \<Rightarrow> word_of_int (valueint j))\<rparr>;
          p5 = (case cJSON_GetObjectItem txpk (c_str ''datr'') of
                  None \<Rightarrow> p4
                | Some j \<Rightarrow>
                    if cJSON_IsString j then
                      (case sscanf_datr (valuestring j) of
                         None \<Rightarrow> p4
                       | Some (sf, bw) \<Rightarrow>
                           p4\<lparr>tx_modulation := (tx_modulation p4)\<lparr>
                                spreading_factor := word_of_int sf,
                                bandwidth := (if bw = 500 then 2 else if bw = 250 then 1 else 0)\<rparr>\<rparr>)
                    else p4);
          p6 = (case cJSON_GetObjectItem txpk (c_str ''codr'') of
                  None \<Rightarrow> p5
                | Some j \<Rightarrow>
                    if cJSON_IsString j then
                      (case sscanf_codr (valuestring j) of
                         None \<Rightarrow> p5
                       | Some (num, den) \<Rightarrow>
                           p5\<lparr>tx_modulation := (tx_modulation p5)\<lparr>
                                coding_rate := word_of_int (den - 4)\<rparr>\<rparr>)
                    else p5);
          p7 = p6\<lparr>tx_modulation := (tx_modulation p6)\<lparr>invert_polarity :=
                 (case cJSON_GetObjectItem txpk (c_str ''ipol'') of
                    None \<Rightarrow> False | Some j \<Rightarrow> cJSON_IsTrue j)\<rparr>\<rparr>
      in case cJSON_GetObjectItem txpk (c_str ''data'') of
           None \<Rightarrow> Some p7
         | Some j \<Rightarrow>
             if cJSON_IsString j then
               (case decode_base64 (valuestring j) (string_past env) (tx_payload p7)
                       LORA_MAX_PAYLOAD_SIZE of
                  None \<Rightarrow> None
                | Some (buf, n) \<Rightarrow>
                    Some (p7\<lparr>tx_payload := buf, tx_payload_size := word_of_int n\<rparr>))
             else Some p7)"

text \<open>
  \<open>handle_pull_resp\<close>. \<open>data\<close> is the received datagram and \<open>len\<close> its length. The
  text handed to \<open>cJSON_Parse\<close> is the C string at \<open>data[4]\<close>: it ends at the first zero
  byte, in the datagram or behind it. \<open>now\<close> is the clock read by \<open>lora_gateway_send\<close>
  and \<open>consumer\<close> what the TX worker does while \<open>channel_manager_schedule_tx\<close> waits.
  The result is \<open>None\<close> when a store left the payload buffer.
\<close>

definition json_str :: "pf_env \<Rightarrow> u8 list \<Rightarrow> u8 list" where
  "json_str env data = takeWhile (\<lambda>c. c \<noteq> 0) (drop 4 data @ buffer_past env)"

definition handle_pull_resp ::
  "pf_env \<Rightarrow> u8 list \<Rightarrow> int \<Rightarrow> (nat \<times> nat) option \<Rightarrow> system \<Rightarrow> system option" where
  "handle_pull_resp env data now consumer sys =
     (if length data < 4 then Some sys
      else
        (let token = push_bit 8 (ucast (data ! 1)) OR ucast (data ! 2) :: u16
         in case cJSON_Parse env (json_str env data) of
              None \<Rightarrow> Some (snd (send_tx_ack token (Some (c_str ''INVALID_JSON'')) sys))
            | Some root \<Rightarrow>
                (case cJSON_GetObjectItem root (c_str ''txpk'') of
                   None \<Rightarrow> Some (snd (send_tx_ack token (Some (c_str ''MISSING_TXPK'')) sys))
                 | Some txpk \<Rightarrow>
                     (case pull_resp_tx_packet env txpk of
                        None \<Rightarrow> None
                      | Some tx_pkt \<Rightarrow>
                          (let (ret, sys1) = lora_gateway_send (Some tx_pkt) now consumer sys
                           in if ret = ESP_OK
                              then Some (snd (send_tx_ack token None sys1))
                              else Some (snd (send_tx_ack token (Some (c_str ''TX_FAILED'')) sys1)))))))"

text \<open>
  One round of the loop of \<open>rx_task\<close>. \<open>recv\<close> is what \<open>recvfrom\<close> delivered: nothing
  (an error or the one-second timeout) or a datagram, cut to the buffer size.
\<close>

definition rx_task_round ::
  "pf_env \<Rightarrow> u8 list option \<Rightarrow> int \<Rightarrow> (nat \<times> nat) option \<Rightarrow> system \<Rightarrow> system option" where
  "rx_task_round env recv now consumer sys =
     (if \<not> pf_running (s_pf sys) then Some sys
      else case recv of
        None \<Rightarrow> Some sys
      | Some datagram \<Rightarrow>
          (let buffer = take UDP_BUFFER_SIZE datagram
           in if length buffer < 4 then Some sys
              else if buffer ! 0 \<noteq> PROTOCOL_VERSION then Some sys
              else
                (let ptype = buffer ! 3;
                     pf = s_pf sys
                 in if ptype = PKT_PUSH_ACK then
                      Some (sys\<lparr>s_pf := pf\<lparr>status :=
                              (status pf)\<lparr>push_ack := push_ack (status pf) + 1\<rparr>\<rparr>\<rparr>)
                    else if ptype = PKT_PULL_ACK then
                      Some (sys\<lparr>s_pf := pf\<lparr>
                              status := (status pf)\<lparr>pull_ack := pull_ack (status pf) + 1,
                                                    connected := True\<rparr>,
                              last_pull_ack := now\<rparr>\<rparr>)
                    else if ptype = PKT_PULL_RESP then handle_pull_resp env buffer now consumer sys
                    else Some sys)))"

text \<open>
  A started channel manager and gateway with one downlink in the TX queue, scheduled
  \<open>At(t)\<close>; everything else as after boot.
\<close>

definition scheduled_packet :: "u32 \<Rightarrow> lora_tx_packet_t" where
  "scheduled_packet t = zero_tx_packet\<lparr>tx_timestamp := t\<rparr>"

definition tx_ready_system :: "lora_tx_packet_t list \<Rightarrow> system" where
  "tx_ready_system ps =
     boot\<lparr>s_cm := zero_cm\<lparr>
              cm_running := True,
              tx_queue := Some \<lparr> q_items = ps, q_length = GATEWAY_TX_QUEUE_SIZE \<rparr>,
              tx_mutex := Some False\<rparr>,
          s_gw := zero_gw\<lparr>
              gw_initialized := True, gw_running := True,
              rx_queue := Some (xQueueCreate GATEWAY_RX_QUEUE_SIZE)\<rparr>\<rparr>"

text \<open>The same with received packets waiting in the RX queue.\<close>

definition zero_rx_packet :: lora_rx_packet_t where
  "zero_rx_packet =
     \<lparr> payload = replicate (nat LORA_MAX_PAYLOAD_SIZE) 0, payload_size = 0,
       modulation = zero_modulation, rssi = 0, snr = 0, crc_ok = False, timestamp = 0,
       tmst = 0, rf_chain = 0, if_chain = 0 \<rparr>"

definition rx_ready_system :: "lora_rx_packet_t list \<Rightarrow> system" where
  "rx_ready_system ps =
     (tx_ready_system [])\<lparr>s_gw := (s_gw (tx_ready_system []))\<lparr>
        rx_queue := Some \<lparr> q_items = ps, q_length = GATEWAY_RX_QUEUE_SIZE \<rparr>\<rparr>\<rparr>"

text \<open>A running forwarder with an open socket and uplinks waiting in its queue.\<close>

definition uplink_ready_system :: "lora_rx_packet_t list \<Rightarrow> system" where
  "uplink_ready_system ps =
     boot\<lparr>s_pf := zero_pf\<lparr>
        sock := 3, pf_initialized := True, pf_running := True,
        uplink_queue := Some \<lparr> q_items = ps, q_length = 32 \<rparr>\<rparr>\<rparr>"

section \<open>A started gateway\<close>

text \<open>
  A platform on which every allocation, task creation and network call succeeds, the two
  radios at addresses 0 and 1, and the system after the start-up sequence of the
  application: \<open>lora_gateway_init\<close>, \<open>lora_gateway_start\<close>, \<open>pkt_fwd_init\<close>,
  \<open>pkt_fwd_start\<close>.
\<close>

definition idle_radio :: sx1276_dev_s where
  "idle_radio =
     \<lparr> chip = \<lparr> chip_regs = (\<lambda>_. 0), chip_fifo = (\<lambda>_. 0), spi_log = [] \<rparr>,
       config = au915_config, rx_callback = False, tx_callback = False,
       current_mode = SX1276_MODE_STANDBY, is_transmitting = False \<rparr>"

definition demo_platform :: platform where
  "demo_platform =
     \<lparr> spi_bus_initialize_ret = ESP_OK,
       sx1276_init_rx = (ESP_OK, 0, idle_radio),
       sx1276_init_tx = (ESP_OK, 1, idle_radio),
       tx_queue_alloc_ok = True, tx_mutex_alloc_ok = True, hop_timer_alloc_ok = True,
       rx_queue_alloc_ok = True, gw_task_create_ok = True, cm_task_create_ok = True,
       uplink_queue_alloc_ok = True, pf_timer_alloc_ok = True, pf_task_create_ok = True,
       gethostbyname_ret = Some 0x7F000001, socket_ret = 3, sendto_ok = True \<rparr>"

definition demo_lgw_config :: lgw_config_t where
  "demo_lgw_config =
     \<lparr> radio0_config = au915_config, radio1_config = au915_config,
       gw_rx_callback = True, gw_tx_callback = False \<rparr>"

definition demo_pf_config :: pkt_fwd_config_t where
  "demo_pf_config =
     \<lparr> pf_server_host = ''localhost'', pf_server_port = 1700,
       pf_gateway_eui = [0xAA, 0xBB, 0xCC, 0xFF, 0xFE, 0xDD, 0xEE, 0xFF],
       keepalive_interval_ms = 10000, stat_interval_ms = 30000 \<rparr>"

definition gateway_started_system :: system where
  "gateway_started_system =
     snd (lora_gateway_start demo_platform 0
       (snd (lora_gateway_init (Some demo_lgw_config) demo_platform boot)))"

definition started_system :: system where
  "started_system =
     snd (pkt_fwd_start demo_platform
       (snd (pkt_fwd_init (Some demo_pf_config) demo_platform gateway_started_system)))"


text \<open>
  Two PULL\_RESP texts with what cJSON makes of them: a downlink scheduled at \<open>800000\<close>
  (the \<open>double\<close> \<open>800000.0\<close> has the bit pattern \<open>0x41286A0000000000\<close>), and an object
  without \<open>txpk\<close>. Any other text does not parse.
\<close>

definition late_txpk_text :: "u8 list" where
  \<open>late_txpk_text = c_str ''{"txpk":{"imme":false,"tmst":800000}}''\<close>

definition no_txpk_text :: "u8 list" where
  \<open>no_txpk_text = c_str ''{"stat":1}''\<close>

definition demo_pf_env :: pf_env where
  "demo_pf_env =
     \<lparr> cJSON_Parse = (\<lambda>s.
         if s = late_txpk_text then
           Some (cJSON_Object [(c_str ''txpk'',
                   cJSON_Object [(c_str ''imme'', cJSON_False),
                                 (c_str ''tmst'', cJSON_Number 800000 0x41286A0000000000)])])
         else if s = no_txpk_text then
           Some (cJSON_Object [(c_str ''stat'', cJSON_Number 1 0x3FF0000000000000)])
         else None),
       double_to_uint32 = (\<lambda>d. if d = 0x41286A0000000000 then 800000 else 0),
       mhz_to_hz = (\<lambda>d. 0),
       string_past = (\<lambda>i. 0),
       buffer_past = [0] \<rparr>"



section \<open>Properties of the radio driver\<close>

lemma sx1276_write_reg_log:
  "spi_log (chip (sx1276_write_reg h reg v)) = spi_log (chip h) @ [(reg OR 0x80, v)]"
  by (simp add: sx1276_write_reg_def)

lemma sx1276_write_reg_config:
  "config (sx1276_write_reg h reg v) = config h"
  by (simp add: sx1276_write_reg_def)

lemma word_of_int_or8: "(word_of_int (x OR y) :: u8) = word_of_int x OR word_of_int y"
  by (simp add: word_of_int_eq_iff take_bit_or of_int_or_eq)

text \<open>
  C7. For every requested power \<open>p\<close>, \<open>sx1276_set_tx_power\<close> returns \<open>ESP_OK\<close>, stores
  the power saturated to 2..20 dBm, and writes exactly three registers: \<open>REG_PA_DAC\<close> with
  0x87 when the saturated power is 18..20 and with the default 0x84 otherwise,
  \<open>REG_PA_CONFIG\<close> with the \<open>PA_BOOST\<close> bit set and the saturated power as its output-power
  field, and \<open>REG_OCP\<close> with 0x2B, which switches the protection on at 100 mA.
\<close>

theorem sx1276_set_tx_power_saturates:
  "fst (sx1276_set_tx_power (Some h) p) = ESP_OK \<and>
   (\<exists>h'. snd (sx1276_set_tx_power (Some h) p) = Some h' \<and>
     (let s = max 2 (min 20 (sint p));
          dac = (if 18 \<le> s \<and> s \<le> 20 then 0x87 else 0x84);
          pa = 0x80 OR word_of_int (s - (if 18 \<le> s then 5 else 2))
      in sint (cfg_tx_power (config h')) = s \<and>
         spi_log (chip h') = spi_log (chip h) @
           [(REG_PA_DAC OR 0x80, dac), (REG_PA_CONFIG OR 0x80, pa), (REG_OCP OR 0x80, 0x2B)] \<and>
         pa AND 0x80 = 0x80 \<and>
         bit (0x2B :: u8) 5 \<and> ocp_limit_mA 0x2B = 100))"
  by (simp add: sx1276_set_tx_power_def Let_def sx1276_write_reg_log sx1276_write_reg_config
      PA_BOOST_def word_of_int_or8 ocp_limit_mA_def)

lemma chip_burst_read_bytes:
  "fst (chip_burst_read c n) = map (\<lambda>k. chip_fifo c (chip_regs c REG_FIFO_ADDR_PTR + of_nat k)) [0..<n]"
proof (induction n arbitrary: c)
  case 0
  then show ?case by simp
next
  case (Suc n)
  have "map (\<lambda>k. chip_fifo c (chip_regs c REG_FIFO_ADDR_PTR + of_nat k)) [0..<Suc n]
      = chip_fifo c (chip_regs c REG_FIFO_ADDR_PTR)
        # map (\<lambda>k. chip_fifo c (chip_regs c REG_FIFO_ADDR_PTR + 1 + of_nat k)) [0..<n]"
    by (simp add: upt_conv_Cons map_Suc_upt[symmetric] del: upt_Suc add: add.assoc add.commute add.left_commute)
  then show ?case
    using Suc[of "c\<lparr>chip_regs := (chip_regs c)(REG_FIFO_ADDR_PTR := chip_regs c REG_FIFO_ADDR_PTR + 1)\<rparr>"]
    by (simp add: Let_def split_beta)
qed

lemma chip_burst_read_regs:
  "r \<noteq> REG_FIFO_ADDR_PTR \<Longrightarrow> chip_regs (snd (chip_burst_read c n)) r = chip_regs c r"
  by (induction n arbitrary: c) (simp_all add: Let_def split_beta)

lemma sx1276_read_fifo_bytes:
  "fst (sx1276_read_fifo h len) =
     map (\<lambda>k. chip_fifo (chip h) (chip_regs (chip h) REG_FIFO_ADDR_PTR + of_nat k)) [0..<unat len]"
  using chip_burst_read_bytes[of "chip h" "unat len"]
  by (simp add: sx1276_read_fifo_def split_beta)

lemma sx1276_read_fifo_regs:
  "r \<noteq> REG_FIFO_ADDR_PTR \<Longrightarrow>
   chip_regs (chip (snd (sx1276_read_fifo h len))) r = chip_regs (chip h) r"
  using chip_burst_read_regs[of r "chip h" "unat len"]
  by (simp add: sx1276_read_fifo_def split_beta)

lemma sx1276_read_fifo_config:
  "config (snd (sx1276_read_fifo h len)) = config h"
  by (simp add: sx1276_read_fifo_def split_beta)

lemma dio0_isr_timestamp:
  "fst (snd (dio0_isr_handler (Some h) now)) = Some pkt \<Longrightarrow> rx_timestamp pkt = word_of_int now"
  by (auto simp: dio0_isr_handler_def Let_def split_beta split: if_splits)

lemma timestamp_delta:
  assumes "now \<le> now2" and "now2 - now < 2 ^ 31"
  shows "sint ((word_of_int now2 :: u32) - word_of_int now) = now2 - now"
proof -
  have e: "sint (word_of_int k :: u32) = k" if "0 \<le> k" "k < 2 ^ 31" for k
    using that by (simp add: signed_of_int signed_take_bit_int_eq_self)
  have d: "(word_of_int now2 :: u32) - word_of_int now = word_of_int (now2 - now)"
    by simp
  show ?thesis
    unfolding d using assms by (intro e) simp_all
qed

text \<open>
  C3, as amended. For every DIO0 interrupt with \<open>RX_DONE\<close> set on a handle with an RX
  callback, a payload \<open>P\<close> of at most 255 bytes in the FIFO at \<open>REG_FIFO_RX_CURRENT_ADDR\<close>,
  RSSI register \<open>r\<close> and SNR register \<open>s\<close>: the descriptor passed to the callback has
  payload \<open>P\<close>, rssi \<open>r - 157\<close>, snr \<open>(int8_t)s / 4\<close> (truncating), \<open>crc_ok\<close> the
  complement of the CRC-error flag, and as timestamp the clock modulo \<open>2^32\<close>. For a
  descriptor taken later, but less than \<open>2^31\<close> microseconds later, the wrap-aware signed
  difference of the two timestamps is the time that has passed, so the timestamps are in
  order under the wrap-aware comparison, across a wrap of the 32-bit value as well.
\<close>

theorem dio0_isr_rx_descriptor:
  assumes cb: "rx_callback h"
    and irq: "sx1276_read_reg h REG_IRQ_FLAGS AND IRQ_RX_DONE \<noteq> 0"
    and len: "length P \<le> 255" "sx1276_read_reg h REG_RX_NB_BYTES = of_nat (length P)"
    and fifo: "\<forall>k<length P. chip_fifo (chip h)
                  (sx1276_read_reg h REG_FIFO_RX_CURRENT_ADDR + of_nat k) = P ! k"
    and r: "sx1276_read_reg h REG_PKT_RSSI_VALUE = r"
    and s: "sx1276_read_reg h REG_PKT_SNR_VALUE = s"
  shows "\<exists>pkt. fst (snd (dio0_isr_handler (Some h) now)) = Some pkt \<and>
           take (unat (rx_length pkt)) (rx_data pkt) = P \<and>
           unat (rx_length pkt) = length P \<and>
           sint (rx_rssi pkt) = uint r - 157 \<and>
           sint (rx_snr pkt) = sint s sdiv 4 \<and>
           rx_crc_ok pkt = (sx1276_read_reg h REG_IRQ_FLAGS AND IRQ_PAYLOAD_CRC_ERROR = 0) \<and>
           uint (rx_timestamp pkt) = now mod 2 ^ 32 \<and>
           (\<forall>h2 now2 pkt2.
              now \<le> now2 \<and> now2 - now < 2 ^ 31 \<and>
              fst (snd (dio0_isr_handler (Some h2) now2)) = Some pkt2
              \<longrightarrow> sint (rx_timestamp pkt2 - rx_timestamp pkt) = now2 - now \<and>
                  0 \<le> sint (rx_timestamp pkt2 - rx_timestamp pkt))"
proof -
  let ?ha = "sx1276_write_reg h REG_FIFO_ADDR_PTR (sx1276_read_reg h REG_FIFO_RX_CURRENT_ADDR)"
  let ?len = "sx1276_read_reg h REG_RX_NB_BYTES"
  let ?rd = "sx1276_read_fifo ?ha ?len"
  have ulen: "unat ?len = length P"
    using len by (simp add: unat_of_nat)
  have ptr: "chip_regs (chip ?ha) REG_FIFO_ADDR_PTR = sx1276_read_reg h REG_FIFO_RX_CURRENT_ADDR"
    by (simp add: sx1276_write_reg_def chip_write_def sx1276_regs_defs)
  have ff: "chip_fifo (chip ?ha) = chip_fifo (chip h)"
    by (simp add: sx1276_write_reg_def chip_write_def)
  have bytes: "fst ?rd = P"
  proof (rule nth_equalityI)
    show "length (fst ?rd) = length P"
      by (simp add: sx1276_read_fifo_bytes ulen)
  next
    fix i assume "i < length (fst ?rd)"
    then have i: "i < length P"
      by (simp add: sx1276_read_fifo_bytes ulen)
    then show "fst ?rd ! i = P ! i"
      using fifo by (simp add: sx1276_read_fifo_bytes ulen ptr ff)
  qed
  have rssi: "sx1276_read_reg (snd ?rd) REG_PKT_RSSI_VALUE = r"
    using r by (simp add: sx1276_read_reg_def sx1276_read_fifo_regs sx1276_regs_defs
        sx1276_write_reg_def chip_write_def)
  have snr: "sx1276_read_reg (snd ?rd) REG_PKT_SNR_VALUE = s"
    using s by (simp add: sx1276_read_reg_def sx1276_read_fifo_regs sx1276_regs_defs
        sx1276_write_reg_def chip_write_def)
  have rb: "- 157 \<le> uint r - 157" "uint r - 157 < 99"
    using uint_lt2p[of r] by simp_all
  have s16: "sint (word_of_int k :: u16) = k" if "- 157 \<le> k" "k < 99" for k
    using that by (simp add: signed_of_int signed_take_bit_int_eq_self)
  have srssi: "sint (word_of_int (uint r - 157) :: u16) = uint r - 157"
    using rb by (rule s16)
  have sb: "- 32 \<le> sint s sdiv 4" "sint s sdiv 4 \<le> 31"
    using sint_ge[of s] sint_lt[of s]
    by (auto simp: signed_divide_int_def sgn_if abs_if)
  have s8: "sint (word_of_int k :: u8) = k" if "- 32 \<le> k" "k \<le> 31" for k
    using that by (simp add: signed_of_int signed_take_bit_int_eq_self)
  have ssnr: "sint (word_of_int (sint s sdiv 4) :: u8) = sint s sdiv 4"
    using sb by (rule s8)
  define pkt where "pkt = the (fst (snd (dio0_isr_handler (Some h) now)))"
  have deliv: "fst (snd (dio0_isr_handler (Some h) now)) = Some pkt"
    using cb irq by (simp add: pkt_def dio0_isr_handler_def Let_def split_beta)
  have flds: "rx_data pkt = fst ?rd @ replicate (SX1276_MAX_PACKET_SIZE - length (fst ?rd)) 0"
    "rx_length pkt = ?len"
    "rx_rssi pkt = word_of_int (uint (sx1276_read_reg (snd ?rd) REG_PKT_RSSI_VALUE) - 157)"
    "rx_snr pkt = word_of_int (sint (sx1276_read_reg (snd ?rd) REG_PKT_SNR_VALUE) sdiv 4)"
    "rx_crc_ok pkt = (sx1276_read_reg h REG_IRQ_FLAGS AND IRQ_PAYLOAD_CRC_ERROR = 0)"
    "rx_timestamp pkt = word_of_int now"
    using cb irq by (simp_all add: pkt_def dio0_isr_handler_def Let_def split_beta)
  have mono: "\<forall>h2 now2 pkt2.
              now \<le> now2 \<and> now2 - now < 2 ^ 31 \<and>
              fst (snd (dio0_isr_handler (Some h2) now2)) = Some pkt2
              \<longrightarrow> sint (rx_timestamp pkt2 - rx_timestamp pkt) = now2 - now \<and>
                  0 \<le> sint (rx_timestamp pkt2 - rx_timestamp pkt)"
  proof (intro allI impI)
    fix h2 now2 pkt2
    assume a: "now \<le> now2 \<and> now2 - now < 2 ^ 31 \<and>
              fst (snd (dio0_isr_handler (Some h2) now2)) = Some pkt2"
    then have t2: "rx_timestamp pkt2 = word_of_int now2"
      using dio0_isr_timestamp[of h2 now2 pkt2] by simp
    have "sint (rx_timestamp pkt2 - rx_timestamp pkt) = now2 - now"
      unfolding t2 flds(6) using a by (intro timestamp_delta) simp_all
    then show "sint (rx_timestamp pkt2 - rx_timestamp pkt) = now2 - now \<and>
                  0 \<le> sint (rx_timestamp pkt2 - rx_timestamp pkt)"
      using a by simp
  qed
  have c1: "take (unat (rx_length pkt)) (rx_data pkt) = P" "unat (rx_length pkt) = length P"
    by (simp_all add: flds bytes ulen)
  have c2: "sint (rx_rssi pkt) = uint r - 157"
    unfolding flds rssi by (rule srssi)
  have c3: "sint (rx_snr pkt) = sint s sdiv 4"
    unfolding flds snr by (rule ssnr)
  have c4: "uint (rx_timestamp pkt) = now mod 2 ^ 32"
    unfolding flds by (simp add: uint_word_of_int)
  show ?thesis
    using deliv c1 c2 c3 c4 flds(5) mono by blast
qed


theorem dio0_isr_rx_descriptor_witness:
  "rx_callback scenario_handle \<and>
   sx1276_read_reg scenario_handle REG_IRQ_FLAGS AND IRQ_RX_DONE \<noteq> 0 \<and>
   (\<exists>pkt. fst (snd (dio0_isr_handler (Some scenario_handle) 4294967000)) = Some pkt \<and>
      take (unat (rx_length pkt)) (rx_data pkt) = [0x40, 0x11, 0x22] \<and>
      sint (rx_rssi pkt) = - 39 \<and> sint (rx_snr pkt) = 10 \<and> rx_crc_ok pkt \<and>
      uint (rx_timestamp pkt) = 4294967000 \<and>
      (\<exists>pkt2. fst (snd (dio0_isr_handler (Some rx_done_handle) 4294968000)) = Some pkt2 \<and>
         uint (rx_timestamp pkt2) = 704 \<and>
         sint (rx_timestamp pkt2 - rx_timestamp pkt) = 1000))"
proof -
  have cb: "rx_callback scenario_handle"
    by (simp add: scenario_handle_def rx_done_handle_def)
  have irq: "sx1276_read_reg scenario_handle REG_IRQ_FLAGS AND IRQ_RX_DONE \<noteq> 0"
    by (simp add: scenario_handle_def scenario_chip_def sx1276_read_reg_def sx1276_regs_defs)
  have len: "length [0x40, 0x11, 0x22 :: u8] \<le> 255"
    "sx1276_read_reg scenario_handle REG_RX_NB_BYTES = of_nat (length [0x40, 0x11, 0x22 :: u8])"
    by (simp_all add: scenario_handle_def scenario_chip_def sx1276_read_reg_def sx1276_regs_defs)
  have cell: "chip_fifo (chip scenario_handle)
                  (sx1276_read_reg scenario_handle REG_FIFO_RX_CURRENT_ADDR + of_nat k)
                   = [0x40, 0x11, 0x22] ! k" if "k < 3" for k
  proof -
    from that consider "k = 0" | "k = 1" | "k = 2" by linarith
    then show ?thesis
      by cases (simp_all add: scenario_handle_def scenario_chip_def sx1276_read_reg_def
          sx1276_regs_defs)
  qed
  have fifo: "\<forall>k<length [0x40, 0x11, 0x22 :: u8]. chip_fifo (chip scenario_handle)
                  (sx1276_read_reg scenario_handle REG_FIFO_RX_CURRENT_ADDR + of_nat k)
                   = [0x40, 0x11, 0x22] ! k"
    using cell by simp
  have r: "sx1276_read_reg scenario_handle REG_PKT_RSSI_VALUE = 118"
    by (simp add: scenario_handle_def scenario_chip_def sx1276_read_reg_def sx1276_regs_defs)
  have s: "sx1276_read_reg scenario_handle REG_PKT_SNR_VALUE = 40"
    by (simp add: scenario_handle_def scenario_chip_def sx1276_read_reg_def sx1276_regs_defs)
  have crc: "sx1276_read_reg scenario_handle REG_IRQ_FLAGS AND IRQ_PAYLOAD_CRC_ERROR = 0"
    by (simp add: scenario_handle_def scenario_chip_def sx1276_read_reg_def sx1276_regs_defs)
  have sd: "sint (40 :: u8) sdiv 4 = 10"
    by (simp add: signed_divide_int_def)
  define pkt2 where "pkt2 = the (fst (snd (dio0_isr_handler (Some rx_done_handle) 4294968000)))"
  have d2: "fst (snd (dio0_isr_handler (Some rx_done_handle) 4294968000)) = Some pkt2"
    by (simp add: pkt2_def dio0_isr_handler_def rx_done_handle_def rx_done_chip_def
        sx1276_read_reg_def sx1276_regs_defs Let_def split_beta)
  have t2: "uint (rx_timestamp pkt2) = 704"
    using dio0_isr_timestamp[OF d2] by (simp add: uint_word_of_int)
  from dio0_isr_rx_descriptor[OF cb irq len fifo r s, of 4294967000]
  obtain pkt where p: "fst (snd (dio0_isr_handler (Some scenario_handle) 4294967000)) = Some pkt"
      "take (unat (rx_length pkt)) (rx_data pkt) = [0x40, 0x11, 0x22]"
      "sint (rx_rssi pkt) = uint (118 :: u8) - 157"
      "sint (rx_snr pkt) = sint (40 :: u8) sdiv 4"
      "rx_crc_ok pkt = (sx1276_read_reg scenario_handle REG_IRQ_FLAGS AND IRQ_PAYLOAD_CRC_ERROR = 0)"
      "uint (rx_timestamp pkt) = 4294967000 mod 2 ^ 32"
      and m: "\<forall>h2 now2 pkt2.
              4294967000 \<le> now2 \<and> now2 - 4294967000 < 2 ^ 31 \<and>
              fst (snd (dio0_isr_handler (Some h2) now2)) = Some pkt2
              \<longrightarrow> sint (rx_timestamp pkt2 - rx_timestamp pkt) = now2 - 4294967000 \<and>
                  0 \<le> sint (rx_timestamp pkt2 - rx_timestamp pkt)"
    by blast
  have "(4294967000 :: int) \<le> 4294968000 \<and> (4294968000 :: int) - 4294967000 < 2 ^ 31 \<and>
        fst (snd (dio0_isr_handler (Some rx_done_handle) 4294968000)) = Some pkt2"
    using d2 by simp
  with m have "sint (rx_timestamp pkt2 - rx_timestamp pkt) = 4294968000 - 4294967000"
    by blast
  then have dl: "sint (rx_timestamp pkt2 - rx_timestamp pkt) = 1000" by simp
  have "fst (snd (dio0_isr_handler (Some scenario_handle) 4294967000)) = Some pkt \<and>
      take (unat (rx_length pkt)) (rx_data pkt) = [0x40, 0x11, 0x22] \<and>
      sint (rx_rssi pkt) = - 39 \<and> sint (rx_snr pkt) = 10 \<and> rx_crc_ok pkt \<and>
      uint (rx_timestamp pkt) = 4294967000 \<and>
      (\<exists>pkt2. fst (snd (dio0_isr_handler (Some rx_done_handle) 4294968000)) = Some pkt2 \<and>
         uint (rx_timestamp pkt2) = 704 \<and>
         sint (rx_timestamp pkt2 - rx_timestamp pkt) = 1000)"
    using p crc sd d2 t2 dl by simp
  then show ?thesis
    using cb irq by blast
qed

text \<open>
  C3 as stated fails: the timestamp is a \<open>uint32_t\<close> copy of the 64-bit clock, so it
  cannot order descriptors that are \<open>2^31\<close> microseconds (about 36 minutes) or more apart.
  Of two descriptors taken at the clock values \<open>4294967295\<close> and \<open>6442450944\<close> the
  later one carries the smaller timestamp, and the wrap-aware signed difference from the
  earlier to the later one is negative as well.
\<close>

theorem dio0_isr_timestamp_wraps:
  "map_option rx_timestamp (fst (snd (dio0_isr_handler (Some rx_done_handle) 4294967295)))
     = Some 0xFFFFFFFF \<and>
   map_option rx_timestamp (fst (snd (dio0_isr_handler (Some rx_done_handle) 6442450944)))
     = Some 0x80000000 \<and>
   (4294967295 :: int) \<le> 6442450944 \<and>
   \<not> (0xFFFFFFFF :: u32) \<le> 0x80000000 \<and>
   sint ((0x80000000 :: u32) - 0xFFFFFFFF) = - 2147483647"
  by (simp add: dio0_isr_handler_def rx_done_handle_def rx_done_chip_def sx1276_read_reg_def
      sx1276_regs_defs Let_def split_beta)

section \<open>Properties of the configuration\<close>

text \<open>
  C8. When \<open>gw_config_load\<close> finds no usable configuration, \<open>gw_config_init\<close> installs
  the defaults, whose gateway EUI is MAC bytes 0..2, then 0xFF, 0xFE, then MAC bytes 3..5.
\<close>

theorem gw_config_defaults_eui:
  assumes "length mac = 6" and "\<not> s_initialized st"
    and "fst (gw_config_load nvs (Some (s_config st))) \<noteq> ESP_OK"
  shows "gateway_eui (s_config (snd (gw_config_init kc mac nvs st)))
           = take 3 mac @ [0xFF, 0xFE] @ drop 3 mac"
proof -
  obtain a b c d e f where m: "mac = [a, b, c, d, e, f]"
    using assms(1) by (auto simp: length_Suc_conv eval_nat_numeral)
  have "\<exists>c'. snd (gw_config_load nvs (Some (s_config st))) = Some c'"
    by (auto simp: gw_config_load_def Let_def split: option.splits)
  then obtain c' where l: "snd (gw_config_load nvs (Some (s_config st))) = Some c'" ..
  show ?thesis
    using assms(2,3) l
    by (simp add: gw_config_init_def split_beta Let_def gw_config_defaults_def m)
qed


theorem gw_config_defaults_eui_witness:
  "length [0x24, 0x6F, 0x28, 0xAA, 0xBB, 0xCC :: u8] = 6 \<and>
   \<not> s_initialized zero_gw_config_state \<and>
   fst (gw_config_load blank_nvs (Some (s_config zero_gw_config_state))) \<noteq> ESP_OK \<and>
   gateway_eui (s_config (snd (gw_config_init demo_kconfig [0x24, 0x6F, 0x28, 0xAA, 0xBB, 0xCC]
                                 blank_nvs zero_gw_config_state)))
     = [0x24, 0x6F, 0x28, 0xFF, 0xFE, 0xAA, 0xBB, 0xCC]"
  using gw_config_defaults_eui[of "[0x24, 0x6F, 0x28, 0xAA, 0xBB, 0xCC]" zero_gw_config_state
      blank_nvs demo_kconfig]
  by (simp add: zero_gw_config_state_def blank_nvs_def gw_config_load_def)

section \<open>Properties of the base64 codec\<close>

lemma buf_put_inv:
  assumes "0 \<le> l" "l \<le> m" "nat m \<le> length out" "c \<Longrightarrow> l < m"
  shows "\<exists>out' l'. buf_put c (out, l) v = Some (out', l') \<and> l \<le> l' \<and> l' \<le> m \<and>
           length out' = length out \<and> drop (nat l') out' = drop (nat l') out"
proof (cases c)
  case True
  with assms have "l < m" by simp
  with assms True show ?thesis
    by (simp add: buf_put_def nat_add_distrib)
next
  case False
  with assms show ?thesis by (simp add: buf_put_def)
qed

lemma drop_chain:
  assumes "drop a ys = drop a xs" "a \<le> b"
  shows "drop b ys = drop b xs"
proof -
  have "drop b ys = drop (b - a) (drop a ys)" using assms(2) by simp
  also have "\<dots> = drop (b - a) (drop a xs)" using assms(1) by simp
  also have "\<dots> = drop b xs" using assms(2) by simp
  finally show ?thesis .
qed

lemma decode_base64_loop_bounds:
  "0 \<le> snd st \<Longrightarrow> snd st \<le> max_len \<Longrightarrow> nat max_len \<le> length (fst st) \<Longrightarrow>
   \<exists>out' n. decode_base64_loop input past max_len i st = Some (out', n) \<and>
      snd st \<le> n \<and> n \<le> max_len \<and> length out' = length (fst st) \<and>
      drop (nat n) out' = drop (nat n) (fst st)"
proof (induction input past max_len i st rule: decode_base64_loop.induct)
  case (1 input past max_len i st)
  obtain out l where st: "st = (out, l)" by (cases st)
  show ?case
  proof (cases "i < length input \<and> snd st < max_len")
    case False
    then have "decode_base64_loop input past max_len i st = Some st"
      by (subst decode_base64_loop.simps) auto
    then show ?thesis
      using st "1.prems" by simp
  next
    case True
    let ?n = "decode_base64_quad input i 0 0"
    from "1.prems" st have p: "0 \<le> l" "l \<le> max_len" "nat max_len \<le> length out" by simp_all
    from buf_put_inv[OF p, of "snd st < max_len" "ucast (drop_bit 16 ?n AND 0xFF)"]
    obtain o1 l1 where s1: "buf_put (snd st < max_len) st (ucast (drop_bit 16 ?n AND 0xFF)) = Some (o1, l1)"
      and b1: "l \<le> l1" "l1 \<le> max_len" "length o1 = length out" "drop (nat l1) o1 = drop (nat l1) out"
      using st by auto
    have p1: "0 \<le> l1" "l1 \<le> max_len" "nat max_len \<le> length o1" using p b1 by simp_all
    from buf_put_inv[OF p1, of "snd (o1, l1) < max_len \<and> cstr_at input past (i + 2) \<noteq> c_char CHR ''=''"
        "ucast (drop_bit 8 ?n AND 0xFF)"]
    obtain o2 l2 where s2: "buf_put (snd (o1, l1) < max_len \<and> cstr_at input past (i + 2) \<noteq> c_char CHR ''='')
          (o1, l1) (ucast (drop_bit 8 ?n AND 0xFF)) = Some (o2, l2)"
      and b2: "l1 \<le> l2" "l2 \<le> max_len" "length o2 = length o1" "drop (nat l2) o2 = drop (nat l2) o1"
      by auto
    have p2: "0 \<le> l2" "l2 \<le> max_len" "nat max_len \<le> length o2" using p1 b2 by simp_all
    from buf_put_inv[OF p2, of "snd (o2, l2) < max_len \<and> cstr_at input past (i + 3) \<noteq> c_char CHR ''=''"
        "ucast (?n AND 0xFF)"]
    obtain o3 l3 where s3: "buf_put (snd (o2, l2) < max_len \<and> cstr_at input past (i + 3) \<noteq> c_char CHR ''='')
          (o2, l2) (ucast (?n AND 0xFF)) = Some (o3, l3)"
      and b3: "l2 \<le> l3" "l3 \<le> max_len" "length o3 = length o2" "drop (nat l3) o3 = drop (nat l3) o2"
      by auto
    have p3: "0 \<le> snd (o3, l3)" "snd (o3, l3) \<le> max_len" "nat max_len \<le> length (fst (o3, l3))"
      using p2 b3 by simp_all
    from "1.IH"[OF True refl s1 s2 s3 p3]
    obtain out' n where r: "decode_base64_loop input past max_len (i + 4) (o3, l3) = Some (out', n)"
      and br: "l3 \<le> n" "n \<le> max_len" "length out' = length o3" "drop (nat n) out' = drop (nat n) o3"
      by auto
    have s1': "buf_put True st (ucast (drop_bit 16 ?n AND 0xFF)) = Some (o1, l1)"
      using s1 True by simp
    have c1: "(i < length input) = True" "(snd st < max_len) = True"
      using True by simp_all
    have eq: "decode_base64_loop input past max_len i st = Some (out', n)"
      by (subst decode_base64_loop.simps)
         (simp only: c1 simp_thms if_True Let_def s1' s2 s3 r option.case)
    have d3: "drop (nat n) o3 = drop (nat n) o2"
      using drop_chain[OF b3(4), of "nat n"] br(1) by simp
    have d2: "drop (nat n) o2 = drop (nat n) o1"
      using drop_chain[OF b2(4), of "nat n"] br(1) b3(1) by simp
    have d1: "drop (nat n) o1 = drop (nat n) out"
      using drop_chain[OF b1(4), of "nat n"] br(1) b3(1) b2(1) by simp
    show ?thesis
      using eq br b1 b2 b3 d1 d2 d3 st by simp
  qed
qed

text \<open>
  C10. For every input string, every memory content behind it and every bound
  \<open>max_len \<ge> 0\<close> that fits the output buffer, \<open>decode_base64\<close> stores only inside the
  buffer, returns a length between 0 and \<open>max_len\<close>, and leaves every byte from that
  length on untouched. With \<open>LORA_MAX_PAYLOAD_SIZE\<close> and the 255-byte payload array this
  bounds \<open>payload_size\<close> by 255 for a \<open>data\<close> field of any length.
\<close>

theorem decode_base64_bounded:
  assumes "0 \<le> max_len" and "nat max_len \<le> length output"
  shows "\<exists>out' n. decode_base64 input past output max_len = Some (out', n) \<and>
           0 \<le> n \<and> n \<le> max_len \<and> length out' = length output \<and>
           drop (nat n) out' = drop (nat n) output"
  using decode_base64_loop_bounds[of "(output, 0)" max_len input past 0] assms
  by (simp add: decode_base64_def)


theorem decode_base64_bounded_witness:
  "(0 :: int) \<le> LORA_MAX_PAYLOAD_SIZE \<and>
   nat LORA_MAX_PAYLOAD_SIZE \<le> length (replicate 255 (0 :: u8)) \<and>
   (\<exists>out' n. decode_base64 (c_str ''SGVsbG8gV29ybGQ='') (\<lambda>_. 0) (replicate 255 0)
                 LORA_MAX_PAYLOAD_SIZE = Some (out', n) \<and>
      0 \<le> n \<and> n \<le> 255 \<and> length out' = 255)"
  using decode_base64_bounded[of LORA_MAX_PAYLOAD_SIZE "replicate 255 0"
      "c_str ''SGVsbG8gV29ybGQ=''" "\<lambda>_. 0"]
  by (auto simp: LORA_MAX_PAYLOAD_SIZE_def)

lemma b64_table_length: "length b64_table = 64"
  by (simp add: b64_table_def c_str_def)

lemma b64_value_table_all:
  "list_all (\<lambda>k. b64_value (b64_table ! k) = of_nat k \<and> b64_table ! k \<noteq> c_char CHR ''='') [0..<64]"
  by code_simp

lemma b64_value_table:
  assumes "k < 64"
  shows "b64_value (b64_table ! k) = of_nat k" "b64_table ! k \<noteq> c_char CHR ''=''"
  using b64_value_table_all assms by (simp_all add: list_all_iff)

lemma mask6: "(0x3F :: u32) = mask 6"
  by (simp add: mask_eq_exp_minus_1)

lemma mask8: "(0xFF :: u32) = mask 8"
  by (simp add: mask_eq_exp_minus_1)

lemma sextet_char:
  fixes x :: u32
  shows "ucast (b64_value (b64_table ! unat (x AND 0x3F))) = x AND 0x3F"
    and "b64_table ! unat (x AND 0x3F) \<noteq> c_char CHR ''=''"
proof -
  have "x AND 0x3F \<le> 0x3F" by (rule word_and_le1)
  then have k: "unat (x AND 0x3F) < 64"
    by (simp add: word_le_nat_alt)
  show "b64_table ! unat (x AND 0x3F) \<noteq> c_char CHR ''=''"
    using b64_value_table(2)[OF k] .
  have "ucast (ucast (x AND mask 6) :: u8) = x AND mask 6"
    by (rule bit_word_eqI) (auto simp: bit_simps)
  then show "ucast (b64_value (b64_table ! unat (x AND 0x3F))) = x AND 0x3F"
    using b64_value_table(1)[OF k] by (simp add: mask6)
qed

lemma sextets_rebuild:
  fixes n :: u32
  assumes "take_bit 24 n = n"
  shows "push_bit 6 (push_bit 6 (push_bit 6 (drop_bit 18 n AND 0x3F) OR (drop_bit 12 n AND 0x3F))
            OR (drop_bit 6 n AND 0x3F)) OR (n AND 0x3F) = n"
proof -
  have hi: "\<not> bit n k" if "24 \<le> k" for k
    using assms that by (metis bit_take_bit_iff not_le)
  show ?thesis
    unfolding mask6
  proof (rule bit_word_eqI)
    fix k assume "k < LENGTH(32)"
    consider "k < 6" | "6 \<le> k" "k < 12" | "12 \<le> k" "k < 18" | "18 \<le> k" "k < 24" | "24 \<le> k"
      by linarith
    then show "bit (push_bit 6 (push_bit 6 (push_bit 6 (drop_bit 18 n AND mask 6)
                  OR (drop_bit 12 n AND mask 6)) OR (drop_bit 6 n AND mask 6)) OR (n AND mask 6)) k
               = bit n k"
      by cases (auto simp: bit_simps hi)
  qed
qed


lemma group_bits:
  fixes a b c :: u8
  defines "n \<equiv> push_bit 16 (ucast a) OR push_bit 8 (ucast b) OR (ucast c :: u32)"
  shows "take_bit 24 n = n"
    and "ucast (drop_bit 16 n AND 0xFF) = a"
    and "ucast (drop_bit 8 n AND 0xFF) = b"
    and "ucast (n AND 0xFF) = c"
  unfolding n_def mask8
  by (rule bit_word_eqI; auto simp: bit_simps dest: bit_imp_le_length)+

lemma group_low_zero:
  fixes a b :: u8
  shows "(push_bit 16 (ucast a) OR push_bit 8 (ucast b) :: u32) AND 0x3F = 0"
    and "(push_bit 16 (ucast a) :: u32) AND 0x3F = 0"
    and "drop_bit 6 (push_bit 16 (ucast a) :: u32) AND 0x3F = 0"
  unfolding mask6
  by (rule bit_word_eqI; auto simp: bit_simps dest: bit_imp_le_length)+

lemma decode_base64_quad_shift:
  "decode_base64_quad (pre @ s) (length pre + i) j n = decode_base64_quad s i j n"
proof (induction s i j n rule: decode_base64_quad.induct)
  case (1 input i j n)
  show ?case
  proof (cases "j < 4 \<and> i + j < length input")
    case True
    then have "decode_base64_quad (pre @ input) (length pre + i) j n
        = decode_base64_quad (pre @ input) (length pre + i) (j + 1)
             (push_bit 6 n OR ucast (b64_value (input ! (i + j))))"
      by (subst decode_base64_quad.simps) (simp add: nth_append add.assoc)
    moreover from True have "decode_base64_quad input i j n
        = decode_base64_quad input i (j + 1) (push_bit 6 n OR ucast (b64_value (input ! (i + j))))"
      by (subst decode_base64_quad.simps) simp
    ultimately show ?thesis
      using "1.IH"[OF True] by simp
  next
    case False
    then have "decode_base64_quad (pre @ input) (length pre + i) j n = n"
      by (subst decode_base64_quad.simps) auto
    moreover from False have "decode_base64_quad input i j n = n"
      by (subst decode_base64_quad.simps) auto
    ultimately show ?thesis by simp
  qed
qed

lemma cstr_at_shift:
  "cstr_at (pre @ s) past (length pre + k) = cstr_at s past k"
  by (simp add: cstr_at_def nth_append)

lemma decode_base64_loop_shift:
  "decode_base64_loop (pre @ s) past max_len (length pre + i) st
     = decode_base64_loop s past max_len i st"
proof (induction s past max_len i st rule: decode_base64_loop.induct)
  case (1 input past max_len i st)
  show ?case
  proof (cases "i < length input \<and> snd st < max_len")
    case False
    then have "decode_base64_loop (pre @ input) past max_len (length pre + i) st = Some st"
      by (subst decode_base64_loop.simps) auto
    moreover from False have "decode_base64_loop input past max_len i st = Some st"
      by (subst decode_base64_loop.simps) auto
    ultimately show ?thesis by simp
  next
    case True
    have q: "decode_base64_quad (pre @ input) (length pre + i) 0 0 = decode_base64_quad input i 0 0"
      by (rule decode_base64_quad_shift)
    have c2: "cstr_at (pre @ input) past (length pre + i + 2) = cstr_at input past (i + 2)"
      using cstr_at_shift[of pre input past "i + 2"] by (simp add: add.assoc)
    have c3: "cstr_at (pre @ input) past (length pre + i + 3) = cstr_at input past (i + 3)"
      using cstr_at_shift[of pre input past "i + 3"] by (simp add: add.assoc)
    have ih: "decode_base64_loop (pre @ input) past max_len (length pre + i + 4) st3
              = decode_base64_loop input past max_len (i + 4) st3"
      if "buf_put (snd st < max_len) st (ucast (drop_bit 16 (decode_base64_quad input i 0 0) AND 0xFF)) = Some st1"
        "buf_put (snd st1 < max_len \<and> cstr_at input past (i + 2) \<noteq> c_char CHR ''='') st1
           (ucast (drop_bit 8 (decode_base64_quad input i 0 0) AND 0xFF)) = Some st2"
        "buf_put (snd st2 < max_len \<and> cstr_at input past (i + 3) \<noteq> c_char CHR ''='') st2
           (ucast (decode_base64_quad input i 0 0 AND 0xFF)) = Some st3"
      for st1 st2 st3
      using "1.IH"[OF True refl that] by (simp add: add.assoc)
    have l: "decode_base64_loop (pre @ input) past max_len (length pre + i) st =
       (case buf_put (snd st < max_len) st (ucast (drop_bit 16 (decode_base64_quad input i 0 0) AND 0xFF)) of
              None \<Rightarrow> None
            | Some st1 \<Rightarrow>
           (case buf_put (snd st1 < max_len \<and> cstr_at input past (i + 2) \<noteq> c_char CHR ''='')
                   st1 (ucast (drop_bit 8 (decode_base64_quad input i 0 0) AND 0xFF)) of
              None \<Rightarrow> None
            | Some st2 \<Rightarrow>
           (case buf_put (snd st2 < max_len \<and> cstr_at input past (i + 3) \<noteq> c_char CHR ''='')
                   st2 (ucast (decode_base64_quad input i 0 0 AND 0xFF)) of
              None \<Rightarrow> None
            | Some st3 \<Rightarrow> decode_base64_loop (pre @ input) past max_len (length pre + i + 4) st3)))"
      using True
      by (subst decode_base64_loop.simps) (simp only: q c2 c3 Let_def length_append nat_add_left_cancel_less simp_thms if_True)
    have r: "decode_base64_loop input past max_len i st =
       (case buf_put (snd st < max_len) st (ucast (drop_bit 16 (decode_base64_quad input i 0 0) AND 0xFF)) of
              None \<Rightarrow> None
            | Some st1 \<Rightarrow>
           (case buf_put (snd st1 < max_len \<and> cstr_at input past (i + 2) \<noteq> c_char CHR ''='')
                   st1 (ucast (drop_bit 8 (decode_base64_quad input i 0 0) AND 0xFF)) of
              None \<Rightarrow> None
            | Some st2 \<Rightarrow>
           (case buf_put (snd st2 < max_len \<and> cstr_at input past (i + 3) \<noteq> c_char CHR ''='')
                   st2 (ucast (decode_base64_quad input i 0 0 AND 0xFF)) of
              None \<Rightarrow> None
            | Some st3 \<Rightarrow> decode_base64_loop input past max_len (i + 4) st3)))"
      using True
      by (subst decode_base64_loop.simps) (simp only: Let_def simp_thms if_True)
    show ?thesis
      unfolding l r using ih by (auto split: option.splits)
  qed
qed


lemma decode_base64_quad_group:
  "decode_base64_quad ([g0, g1, g2, g3] @ E) 0 0 0 =
     push_bit 6 (push_bit 6 (push_bit 6 (ucast (b64_value g0)) OR ucast (b64_value g1))
       OR ucast (b64_value g2)) OR ucast (b64_value g3)"
  by (simp add: decode_base64_quad.simps)

lemma decode_base64_loop_group:
  assumes "l < max_len"
  shows "decode_base64_loop ([g0, g1, g2, g3] @ E) past max_len 0 (out, l) =
     (case buf_put True (out, l)
             (ucast (drop_bit 16 (decode_base64_quad ([g0, g1, g2, g3] @ E) 0 0 0) AND 0xFF)) of
        None \<Rightarrow> None
      | Some st1 \<Rightarrow>
     (case buf_put (snd st1 < max_len \<and> g2 \<noteq> c_char CHR ''='') st1
             (ucast (drop_bit 8 (decode_base64_quad ([g0, g1, g2, g3] @ E) 0 0 0) AND 0xFF)) of
        None \<Rightarrow> None
      | Some st2 \<Rightarrow>
     (case buf_put (snd st2 < max_len \<and> g3 \<noteq> c_char CHR ''='') st2
             (ucast (decode_base64_quad ([g0, g1, g2, g3] @ E) 0 0 0 AND 0xFF)) of
        None \<Rightarrow> None
      | Some st3 \<Rightarrow> decode_base64_loop E past max_len 0 st3)))"
proof -
  have sh: "decode_base64_loop ([g0, g1, g2, g3] @ E) past max_len (0 + 4) st3
            = decode_base64_loop E past max_len 0 st3" for st3
    using decode_base64_loop_shift[of "[g0, g1, g2, g3]" E past max_len 0 st3]
    by (simp add: eval_nat_numeral)
  have c: "cstr_at ([g0, g1, g2, g3] @ E) past (0 + 2) = g2"
    "cstr_at ([g0, g1, g2, g3] @ E) past (0 + 3) = g3"
    by (simp_all add: cstr_at_def)
  have t: "(0 < length ([g0, g1, g2, g3] @ E)) = True" "(snd (out, l) < max_len) = True"
    using assms by simp_all
  show ?thesis
    by (subst decode_base64_loop.simps)
       (simp only: t c sh Let_def simp_thms if_True cong: option.case_cong)
qed

lemma buf_put_True:
  assumes "0 \<le> l" "nat l < length out"
  shows "buf_put True (out, l) v = Some (out[nat l := v], l + 1)"
  using assms by (simp add: buf_put_def)

lemma buf_put_False: "buf_put False st v = Some st"
  by (cases st) (simp add: buf_put_def)

lemma take_Suc_update:
  assumes "i < length out" "take i out = take i data" "i < length data" "data ! i = v"
  shows "take (Suc i) (out[i := v]) = take (Suc i) data"
  using assms by (simp add: take_Suc_conv_app_nth)

lemma encode_base64_loop_done: "length data \<le> i \<Longrightarrow> encode_base64_loop data i = []"
  by (subst encode_base64_loop.simps) simp


lemma b64_value_pad: "b64_value (c_char CHR ''='') = 0"
  by (simp add: b64_value_def c_char_def)

lemma decode_base64_loop_Nil: "decode_base64_loop [] past max_len 0 st = Some st"
  by (subst decode_base64_loop.simps) simp

lemma encode_base64_loop_step:
  assumes "i < length data"
  shows "encode_base64_loop data i =
     (let n0 = push_bit 16 (ucast (data ! i) :: u32);
          n1 = (if i + 1 < length data then n0 OR push_bit 8 (ucast (data ! (i + 1))) else n0);
          n = (if i + 2 < length data then n1 OR ucast (data ! (i + 2)) else n1)
      in [b64_table ! unat (drop_bit 18 n AND 0x3F),
          b64_table ! unat (drop_bit 12 n AND 0x3F),
          (if i + 1 < length data then b64_table ! unat (drop_bit 6 n AND 0x3F)
           else c_char CHR ''=''),
          (if i + 2 < length data then b64_table ! unat (n AND 0x3F)
           else c_char CHR ''='')]
         @ encode_base64_loop data (i + 3))"
  using assms by (subst encode_base64_loop.simps) simp

lemma base64_roundtrip_loop:
  assumes "i \<le> length data" "int (length data) \<le> max_len" "nat max_len \<le> length out"
    "take i out = take i data"
  shows "\<exists>out'. decode_base64_loop (encode_base64_loop data i) past max_len 0 (out, int i)
                  = Some (out', int (length data)) \<and>
               take (length data) out' = data \<and> length out' = length out \<and>
               drop (length data) out' = drop (length data) out"
  using assms
proof (induction data i arbitrary: out rule: encode_base64_loop.induct)
  case (1 data i)
  show ?case
  proof (cases "i < length data")
    case False
    with "1.prems" have e: "i = length data" by simp
    then have "encode_base64_loop data i = []"
      by (simp add: encode_base64_loop_done)
    then show ?thesis
      using "1.prems" e by (simp add: decode_base64_loop_Nil)
  next
    case True
    define a where "a = data ! i"
    define b where "b = (if i + 1 < length data then data ! (i + 1) else 0)"
    define c where "c = (if i + 2 < length data then data ! (i + 2) else 0)"
    define n :: u32 where "n = push_bit 16 (ucast a) OR push_bit 8 (ucast b) OR ucast c"
    define g2 where "g2 = (if i + 1 < length data then b64_table ! unat (drop_bit 6 n AND 0x3F)
                           else c_char CHR ''='')"
    define g3 where "g3 = (if i + 2 < length data then b64_table ! unat (n AND 0x3F)
                           else c_char CHR ''='')"
    define E where "E = encode_base64_loop data (i + 3)"
    have c0: "\<not> i + 1 < length data \<Longrightarrow> c = 0"
      by (simp add: c_def)
    have enc: "encode_base64_loop data i =
        [b64_table ! unat (drop_bit 18 n AND 0x3F), b64_table ! unat (drop_bit 12 n AND 0x3F), g2, g3] @ E"
      unfolding encode_base64_loop_step[OF True] Let_def n_def a_def b_def c_def g2_def g3_def E_def
      by (simp add: or.assoc)
    have v2: "ucast (b64_value g2) = drop_bit 6 n AND 0x3F"
    proof (cases "i + 1 < length data")
      case True
      then show ?thesis by (simp add: g2_def sextet_char)
    next
      case False
      then have "n = push_bit 16 (ucast a)" by (simp add: n_def b_def c_def)
      with False show ?thesis
        by (simp add: g2_def b64_value_pad group_low_zero)
    qed
    have v3: "ucast (b64_value g3) = n AND 0x3F"
    proof (cases "i + 2 < length data")
      case True
      then show ?thesis by (simp add: g3_def sextet_char)
    next
      case False
      then have "n = push_bit 16 (ucast a) OR push_bit 8 (ucast b)" by (simp add: n_def c_def)
      with False show ?thesis
        by (simp add: g3_def b64_value_pad group_low_zero)
    qed
    have gb: "take_bit 24 n = n" "ucast (drop_bit 16 n AND 0xFF) = a"
      "ucast (drop_bit 8 n AND 0xFF) = b" "ucast (n AND 0xFF) = c"
      unfolding n_def by (rule group_bits)+
    have quad: "decode_base64_quad
        ([b64_table ! unat (drop_bit 18 n AND 0x3F), b64_table ! unat (drop_bit 12 n AND 0x3F), g2, g3] @ E)
        0 0 0 = n"
      unfolding decode_base64_quad_group sextet_char v2 v3
      by (rule sextets_rebuild[OF gb(1)])
    have e2: "(g2 \<noteq> c_char CHR ''='') = (i + 1 < length data)"
      by (simp add: g2_def sextet_char)
    have e3: "(g3 \<noteq> c_char CHR ''='') = (i + 2 < length data)"
      by (simp add: g3_def sextet_char)
    have il: "int i < max_len" "i < length out"
      using True "1.prems" by simp_all
    have step: "decode_base64_loop (encode_base64_loop data i) past max_len 0 (out, int i) =
      (case buf_put True (out, int i) a of
        None \<Rightarrow> None
      | Some st1 \<Rightarrow>
     (case buf_put (snd st1 < max_len \<and> i + 1 < length data) st1 b of
        None \<Rightarrow> None
      | Some st2 \<Rightarrow>
     (case buf_put (snd st2 < max_len \<and> i + 2 < length data) st2 c of
        None \<Rightarrow> None
      | Some st3 \<Rightarrow> decode_base64_loop E past max_len 0 st3)))"
      unfolding enc decode_base64_loop_group[OF il(1)] quad gb e2 e3 ..
    have p1: "buf_put True (out, int i) a = Some (out[i := a], int i + 1)"
      using il by (simp add: buf_put_True)
    have t1: "take (Suc i) (out[i := a]) = take (Suc i) data"
      using il True "1.prems"(4) by (simp add: take_Suc_update a_def)
    show ?thesis
    proof (cases "i + 1 < length data")
      case False
      then have len: "length data = Suc i" using True by simp
      have "decode_base64_loop (encode_base64_loop data i) past max_len 0 (out, int i)
            = decode_base64_loop E past max_len 0 (out[i := a], int i + 1)"
        unfolding step p1 using False by (simp add: buf_put_False)
      moreover have "E = []"
        unfolding E_def using len by (simp add: encode_base64_loop_done)
      ultimately have "decode_base64_loop (encode_base64_loop data i) past max_len 0 (out, int i)
            = Some (out[i := a], int (length data))"
        using len by (simp add: decode_base64_loop_Nil)
      then show ?thesis
        using t1 len by simp
    next
      case b1: True
      have il1: "int i + 1 < max_len" "Suc i < length out"
        using b1 "1.prems" by simp_all
      have p2: "buf_put True (out[i := a], int i + 1) b
                 = Some (out[i := a, Suc i := b], int i + 2)"
        using il1 buf_put_True[of "int i + 1" "out[i := a]" b] by (simp add: nat_add_distrib)
      have t2: "take (Suc (Suc i)) (out[i := a, Suc i := b]) = take (Suc (Suc i)) data"
        using take_Suc_update[of "Suc i" "out[i := a]" data b] il1 t1 b1 by (simp add: b_def)
      show ?thesis
      proof (cases "i + 2 < length data")
        case False
        then have len: "length data = Suc (Suc i)" using b1 by simp
        have "decode_base64_loop (encode_base64_loop data i) past max_len 0 (out, int i)
            = decode_base64_loop E past max_len 0 (out[i := a, Suc i := b], int i + 2)"
          unfolding step p1 using False b1 il1 by (simp add: p2 buf_put_False)
        moreover have "E = []"
          unfolding E_def using len by (simp add: encode_base64_loop_done)
        ultimately have "decode_base64_loop (encode_base64_loop data i) past max_len 0 (out, int i)
            = Some (out[i := a, Suc i := b], int (length data))"
          using len by (simp add: decode_base64_loop_Nil)
        then show ?thesis
          using t2 len by simp
      next
        case b2: True
        have il2: "int i + 2 < max_len" "Suc (Suc i) < length out"
          using b2 "1.prems" by simp_all
        have p3: "buf_put True (out[i := a, Suc i := b], int i + 2) c
                 = Some (out[i := a, Suc i := b, Suc (Suc i) := c], int i + 3)"
          using il2 buf_put_True[of "int i + 2" "out[i := a, Suc i := b]" c]
          by (simp add: nat_add_distrib)
        have t3: "take (i + 3) (out[i := a, Suc i := b, Suc (Suc i) := c]) = take (i + 3) data"
          using take_Suc_update[of "Suc (Suc i)" "out[i := a, Suc i := b]" data c] il2 t2 b2
          by (simp add: c_def eval_nat_numeral)
        have s: "decode_base64_loop (encode_base64_loop data i) past max_len 0 (out, int i)
            = decode_base64_loop (encode_base64_loop data (i + 3)) past max_len 0
                (out[i := a, Suc i := b, Suc (Suc i) := c], int (i + 3))"
          unfolding step p1 E_def using b1 b2 il1 il2 by (simp add: p2 p3)
        have ih: "\<exists>out'. decode_base64_loop (encode_base64_loop data (i + 3)) past max_len 0
                      (out[i := a, Suc i := b, Suc (Suc i) := c], int (i + 3))
                    = Some (out', int (length data)) \<and>
                 take (length data) out' = data \<and>
                 length out' = length (out[i := a, Suc i := b, Suc (Suc i) := c]) \<and>
                 drop (length data) out' = drop (length data) (out[i := a, Suc i := b, Suc (Suc i) := c])"
          using "1.IH"[OF True refl refl refl, of "out[i := a, Suc i := b, Suc (Suc i) := c]"]
            b2 "1.prems" t3 by simp
        then show ?thesis
          unfolding s using b2 by auto
      qed
    qed
  qed
qed


lemma unat_sextet_less: "unat ((x :: u32) AND 0x3F) < 64"
proof -
  have "x AND 0x3F \<le> 0x3F" by (rule word_and_le1)
  then show ?thesis by (simp add: word_le_nat_alt)
qed

lemma b64_table_nth_mem: "b64_table ! unat ((x :: u32) AND 0x3F) \<in> set b64_table"
  using unat_sextet_less[of x] by (simp add: b64_table_length)

lemma encode_base64_loop_length:
  "length (encode_base64_loop data i) = (length data - i + 2) div 3 * 4"
proof (induction data i rule: encode_base64_loop.induct)
  case (1 data i)
  show ?case
  proof (cases "i < length data")
    case False
    then show ?thesis by (simp add: encode_base64_loop_done)
  next
    case True
    have "(length data - i + 2) div 3 = Suc ((length data - (i + 3) + 2) div 3)"
      using True by (cases "i + 3 \<le> length data") (simp_all add: div_eq_0_iff)
    then show ?thesis
      using "1.IH"[OF True refl refl refl] True
      by (simp add: encode_base64_loop_step Let_def)
  qed
qed

lemma encode_base64_loop_alphabet:
  "set (encode_base64_loop data i) \<subseteq> set b64_table \<union> {c_char CHR ''=''}"
proof (induction data i rule: encode_base64_loop.induct)
  case (1 data i)
  show ?case
  proof (cases "i < length data")
    case False
    then show ?thesis by (simp add: encode_base64_loop_done)
  next
    case True
    show ?thesis
      using "1.IH"[OF True refl refl refl] True
      by (simp add: encode_base64_loop_step Let_def b64_table_nth_mem)
  qed
qed

lemma newline_not_base64:
  "c_char (CHR 0x0A) \<notin> set b64_table \<union> {c_char CHR ''=''}"
  "c_char (CHR 0x0D) \<notin> set b64_table \<union> {c_char CHR ''=''}"
  "0 \<notin> set b64_table \<union> {c_char CHR ''=''}"
  by (simp_all add: b64_table_def c_str_def c_char_def)

text \<open>
  C4. For every payload \<open>P\<close> of at most 255 bytes, decoding \<open>encode_base64 P\<close> into a
  buffer of at least 255 bytes with bound \<open>LORA_MAX_PAYLOAD_SIZE\<close> returns \<open>length P\<close> and
  leaves \<open>P\<close> in the buffer; the encoded string has \<open>\<lceil>length P / 3\<rceil> * 4\<close> characters, all
  of them from the standard alphabet or \<open>'='\<close>, and none of them a line break.
\<close>

theorem base64_roundtrip:
  assumes "int (length P) \<le> LORA_MAX_PAYLOAD_SIZE"
    and "nat LORA_MAX_PAYLOAD_SIZE \<le> length output"
  shows "(\<exists>out'. decode_base64 (encode_base64 P) past output LORA_MAX_PAYLOAD_SIZE
                   = Some (out', int (length P)) \<and> take (length P) out' = P) \<and>
         length (encode_base64 P) = (length P + 2) div 3 * 4 \<and>
         set (encode_base64 P) \<subseteq> set b64_table \<union> {c_char CHR ''=''} \<and>
         c_char (CHR 0x0A) \<notin> set (encode_base64 P) \<and>
         c_char (CHR 0x0D) \<notin> set (encode_base64 P)"
proof -
  have "\<exists>out'. decode_base64_loop (encode_base64_loop P 0) past LORA_MAX_PAYLOAD_SIZE 0 (output, int 0)
                  = Some (out', int (length P)) \<and>
               take (length P) out' = P \<and> length out' = length output \<and>
               drop (length P) out' = drop (length P) output"
    using assms by (intro base64_roundtrip_loop) simp_all
  then have rt: "\<exists>out'. decode_base64 (encode_base64 P) past output LORA_MAX_PAYLOAD_SIZE
                   = Some (out', int (length P)) \<and> take (length P) out' = P"
    by (auto simp: decode_base64_def encode_base64_def)
  have len: "length (encode_base64 P) = (length P + 2) div 3 * 4"
    using encode_base64_loop_length[of P 0] by (simp add: encode_base64_def)
  have al: "set (encode_base64 P) \<subseteq> set b64_table \<union> {c_char CHR ''=''}"
    using encode_base64_loop_alphabet[of P 0] by (simp add: encode_base64_def)
  show ?thesis
    using rt len al newline_not_base64 by blast
qed


theorem base64_roundtrip_witness:
  "int (length (c_str ''Hello World'')) \<le> LORA_MAX_PAYLOAD_SIZE \<and>
   nat LORA_MAX_PAYLOAD_SIZE \<le> length (replicate 255 (0 :: u8)) \<and>
   length (encode_base64 (c_str ''Hello World'')) = 16 \<and>
   (\<exists>out'. decode_base64 (encode_base64 (c_str ''Hello World'')) (\<lambda>_. 0) (replicate 255 0)
              LORA_MAX_PAYLOAD_SIZE = Some (out', 11) \<and>
      take 11 out' = c_str ''Hello World'')"
proof -
  have l: "length (c_str ''Hello World'') = 11"
    by (simp add: c_str_def)
  have h1: "int (length (c_str ''Hello World'')) \<le> LORA_MAX_PAYLOAD_SIZE"
    by (simp add: l LORA_MAX_PAYLOAD_SIZE_def)
  have h2: "nat LORA_MAX_PAYLOAD_SIZE \<le> length (replicate 255 (0 :: u8))"
    by (simp add: LORA_MAX_PAYLOAD_SIZE_def)
  show ?thesis
    using base64_roundtrip[OF h1 h2, of "\<lambda>_. 0"] h1 h2 by (simp add: l)
qed

section \<open>Properties of the channel manager's TX worker\<close>

lemma wait_until_timestamp_first:
  "k < length cs \<Longrightarrow> (\<forall>j<k. lora_gateway_get_timestamp (cs ! j) < t) \<Longrightarrow>
   \<not> lora_gateway_get_timestamp (cs ! k) < t \<Longrightarrow>
   wait_until_timestamp t cs = Some (drop (Suc k) cs)"
proof (induction cs arbitrary: k)
  case Nil
  then show ?case by simp
next
  case (Cons c cs)
  show ?case
  proof (cases k)
    case 0
    with Cons.prems show ?thesis by simp
  next
    case (Suc k')
    have "lora_gateway_get_timestamp c < t"
      using Cons.prems(2) Suc by auto
    moreover have "wait_until_timestamp t cs = Some (drop (Suc k') cs)"
      using Cons.prems Suc by (intro Cons.IH) auto
    ultimately show ?thesis using Suc by simp
  qed
qed

lemma wait_until_timestamp_none:
  "(\<forall>j<length cs. lora_gateway_get_timestamp (cs ! j) < t) \<Longrightarrow> wait_until_timestamp t cs = None"
proof (induction cs)
  case Nil
  then show ?case by simp
next
  case (Cons c cs)
  have "lora_gateway_get_timestamp c < t" using Cons.prems by auto
  moreover have "wait_until_timestamp t cs = None"
    using Cons.prems by (intro Cons.IH) auto
  ultimately show ?case by simp
qed

text \<open>The timestamp is the clock modulo \<open>2^32\<close>.\<close>

lemma lora_gateway_get_timestamp_uint:
  "uint (lora_gateway_get_timestamp x) = x mod 2 ^ 32"
proof -
  have a: "x AND mask 32 = x mod 2 ^ 32"
    by (simp flip: take_bit_eq_mask add: take_bit_eq_mod)
  have m: "(mask 32 :: int) = 0xFFFFFFFF"
    by (simp add: mask_eq_exp_minus_1)
  have "x AND 0xFFFFFFFF = x mod 2 ^ 32"
    using a unfolding m .
  then show ?thesis
    by (simp add: lora_gateway_get_timestamp_def uint_word_of_int)
qed

lemma sint_diff_u32:
  assumes "- (2 ^ 31) \<le> uint a - uint b" and "uint a - uint b < 2 ^ 31"
  shows "sint (a - b :: u32) = uint a - uint b"
proof -
  have e: "sint (word_of_int k :: u32) = k" if "- (2 ^ 31) \<le> k" "k < 2 ^ 31" for k
    using that by (simp add: signed_of_int signed_take_bit_int_eq_self)
  have d: "a - b = word_of_int (uint a - uint b)"
    by simp
  show ?thesis
    by (subst d) (rule e[OF assms])
qed

lemma sint_pos_diff_u32:
  assumes "0 < sint (a - b :: u32)" and "b < a"
  shows "uint a - uint b = sint (a - b)"
proof (cases "uint a - uint b < 2 ^ 31")
  case True
  have "0 \<le> uint a - uint b"
    using assms(2) by (simp add: word_less_def)
  then have "- (2 ^ 31) \<le> uint a - uint b" by simp
  from sint_diff_u32[OF this True] show ?thesis by simp
next
  case False
  let ?k = "uint a - uint b - 4294967296"
  have e: "sint (word_of_int k :: u32) = k" if "- 2147483648 \<le> k" "k < 2147483648" for k
    using that by (simp add: signed_of_int signed_take_bit_int_eq_self)
  have d: "a - b = word_of_int ?k"
    by simp
  have ua: "uint a < 4294967296"
    using uint_lt2p[of a] by simp
  have ub: "0 \<le> uint b"
    by simp
  have f: "2147483648 \<le> uint a - uint b"
    using False by simp
  have k: "- 2147483648 \<le> ?k" "?k < 2147483648" "?k < 0"
    using ua ub f by linarith+
  have "sint (a - b) = ?k"
    by (subst d) (rule e[OF k(1,2)])
  with k(3) assms(1) show ?thesis by linarith
qed

text \<open>
  While the 32-bit clock has not wrapped since the first reading, and the timestamp lies
  before the wrap, the unsigned test of the wait loop is the wrap-aware one.
\<close>

lemma wait_test_wrap_aware:
  assumes d: "0 < sint (t - lora_gateway_get_timestamp c)"
      "sint (t - lora_gateway_get_timestamp c) < 5000000"
    and nowrap: "lora_gateway_get_timestamp c < t"
    and x: "c \<le> x" "x - c < 2 ^ 31" "x div 2 ^ 32 = c div 2 ^ 32"
  shows "lora_gateway_get_timestamp x < t \<longleftrightarrow> 0 < sint (t - lora_gateway_get_timestamp x)"
proof -
  let ?C = "uint (lora_gateway_get_timestamp c)"
  let ?X = "uint (lora_gateway_get_timestamp x)"
  have tc: "uint t - ?C = sint (t - lora_gateway_get_timestamp c)"
    using sint_pos_diff_u32[OF d(1) nowrap] .
  have "x mod 2 ^ 32 - c mod 2 ^ 32 = x - c"
    using x(3) by (simp add: mod_div_decomp[of x "2 ^ 32"] mod_div_decomp[of c "2 ^ 32"]
        minus_div_mult_eq_mod[symmetric])
  then have xc: "?X - ?C = x - c"
    by (simp add: lora_gateway_get_timestamp_uint)
  have b: "- (2 ^ 31) \<le> uint t - ?X" "uint t - ?X < 2 ^ 31"
    using tc xc d x(1,2) by simp_all
  have s: "sint (t - lora_gateway_get_timestamp x) = uint t - ?X"
    using sint_diff_u32[OF b] .
  show ?thesis
    unfolding s by (simp add: word_less_def)
qed

lemma wait_until_timestamp_wrap_aware:
  assumes d: "0 < sint (t - lora_gateway_get_timestamp c)"
      "sint (t - lora_gateway_get_timestamp c) < 5000000"
    and nowrap: "lora_gateway_get_timestamp c < t"
    and cs: "\<forall>x\<in>set cs. c \<le> x \<and> x - c < 2 ^ 31 \<and> x div 2 ^ 32 = c div 2 ^ 32"
  shows "k < length cs \<Longrightarrow> (\<forall>j<k. 0 < sint (t - lora_gateway_get_timestamp (cs ! j))) \<Longrightarrow>
           sint (t - lora_gateway_get_timestamp (cs ! k)) \<le> 0 \<Longrightarrow>
           wait_until_timestamp t cs = Some (drop (Suc k) cs)"
    and "(\<forall>j<length cs. 0 < sint (t - lora_gateway_get_timestamp (cs ! j))) \<Longrightarrow>
           wait_until_timestamp t cs = None"
proof -
  have eq: "lora_gateway_get_timestamp (cs ! j) < t
              \<longleftrightarrow> 0 < sint (t - lora_gateway_get_timestamp (cs ! j))" if "j < length cs" for j
  proof -
    from that cs have "c \<le> cs ! j" "cs ! j - c < 2 ^ 31" "cs ! j div 2 ^ 32 = c div 2 ^ 32"
      by (simp_all add: nth_mem)
    then show ?thesis
      by (rule wait_test_wrap_aware[OF d nowrap])
  qed
  show "wait_until_timestamp t cs = Some (drop (Suc k) cs)"
    if "k < length cs" "\<forall>j<k. 0 < sint (t - lora_gateway_get_timestamp (cs ! j))"
      "sint (t - lora_gateway_get_timestamp (cs ! k)) \<le> 0"
  proof (rule wait_until_timestamp_first[OF that(1)])
    show "\<forall>j<k. lora_gateway_get_timestamp (cs ! j) < t"
      using that(1,2) eq by simp
    show "\<not> lora_gateway_get_timestamp (cs ! k) < t"
      using that(1,3) eq[of k] by simp
  qed
  show "wait_until_timestamp t cs = None"
    if "\<forall>j<length cs. 0 < sint (t - lora_gateway_get_timestamp (cs ! j))"
    using that eq by (intro wait_until_timestamp_none) simp
qed

text \<open>What a round does with the head of the queue, by the outcome of the timing check.\<close>

lemma tx_task_round_head:
  assumes "cm_running (s_cm sys)" "tx_queue (s_cm sys) = Some q" "q_items q = packet # rest"
  shows "tx_task_round producer clock sys =
           (case tx_task_timing packet clock of
              None \<Rightarrow>
                (TxWaiting packet,
                 sys\<lparr>s_cm := (s_cm sys)\<lparr>tx_queue := Some (q\<lparr>q_items := rest\<rparr>),
                                          tx_mutex := Some True, tx_busy := True\<rparr>\<rparr>)
            | Some (False, _) \<Rightarrow>
                (TxSkipped packet,
                 sys\<lparr>s_cm := (s_cm sys)\<lparr>tx_queue := Some (q\<lparr>q_items := rest\<rparr>),
                                          tx_mutex := Some False, tx_busy := False\<rparr>\<rparr>)
            | Some (True, _) \<Rightarrow>
                (TxTransmit (prepare_sx_packet packet),
                 sys\<lparr>s_cm := (s_cm sys)\<lparr>tx_queue := Some (q\<lparr>q_items := rest\<rparr>),
                                          tx_mutex := Some True, tx_busy := True\<rparr>\<rparr>))"
  using assms
  by (simp add: tx_task_round_def xQueueReceive_def Let_def
      split: option.splits bool.splits prod.splits)

lemma tx_task_round_stats:
  "stats (s_gw (snd (tx_task_round producer clock sys))) = stats (s_gw sys)"
  by (simp add: tx_task_round_def xQueueReceive_def Let_def
      split: option.splits list.splits bool.splits prod.splits)

text \<open>
  C1, as amended. For every request scheduled \<open>At(t)\<close> that the TX worker takes from the
  queue, with \<open>\<Delta> = t - now\<close> as a wrap-aware signed 32-bit difference at the first clock
  reading. If \<open>\<Delta> < -100000\<close> the packet is discarded: it is off the queue, \<open>tx_busy\<close> is
  cleared and the mutex released. If \<open>-100000 \<le> \<Delta> \<le> 0\<close> it is handed to
  \<open>sx1276_transmit\<close> at once, with \<open>tx_busy\<close> set and the mutex held. If
  \<open>0 < \<Delta> < 5000000\<close>, and the 32-bit clock does not wrap before \<open>t\<close> nor during the
  wait, the worker polls the clock until \<open>now \<ge> t\<close> in the wrap-aware sense (the first
  reading whose signed difference \<open>t - now\<close> is not positive) and then hands the packet to
  \<open>sx1276_transmit\<close>; while every reading is before \<open>t\<close> it is still waiting. In every
  case, whatever \<open>\<Delta>\<close> is, the gateway statistics are left as they were: the worker
  increments neither \<open>tx_fail\<close> nor \<open>tx_collision\<close>.
\<close>

theorem tx_task_schedule:
  assumes "cm_running (s_cm sys)" and "tx_queue (s_cm sys) = Some q"
    and "q_items q = packet # rest" and "\<not> immediate packet"
  shows
    "(let t = tx_timestamp packet;
          delta = sint (t - lora_gateway_get_timestamp c);
          result = tx_task_round producer (c # cs) sys;
          held = sys\<lparr>s_cm := (s_cm sys)\<lparr>tx_queue := Some (q\<lparr>q_items := rest\<rparr>),
                                           tx_mutex := Some True, tx_busy := True\<rparr>\<rparr>;
          released = sys\<lparr>s_cm := (s_cm sys)\<lparr>tx_queue := Some (q\<lparr>q_items := rest\<rparr>),
                                               tx_mutex := Some False, tx_busy := False\<rparr>\<rparr>
      in (delta < - 100000 \<longrightarrow> result = (TxSkipped packet, released)) \<and>
         (- 100000 \<le> delta \<and> delta \<le> 0 \<longrightarrow>
            result = (TxTransmit (prepare_sx_packet packet), held)) \<and>
         (0 < delta \<and> delta < 5000000 \<and> lora_gateway_get_timestamp c < t \<and>
          (\<forall>x\<in>set cs. c \<le> x \<and> x - c < 2 ^ 31 \<and> x div 2 ^ 32 = c div 2 ^ 32) \<longrightarrow>
            (\<forall>k. k < length cs \<and>
                 (\<forall>j<k. 0 < sint (t - lora_gateway_get_timestamp (cs ! j))) \<and>
                 sint (t - lora_gateway_get_timestamp (cs ! k)) \<le> 0 \<longrightarrow>
                 tx_task_timing packet (c # cs) = Some (True, drop (Suc k) cs) \<and>
                 result = (TxTransmit (prepare_sx_packet packet), held)) \<and>
            ((\<forall>j<length cs. 0 < sint (t - lora_gateway_get_timestamp (cs ! j))) \<longrightarrow>
                 result = (TxWaiting packet, held))) \<and>
         stats (s_gw (snd result)) = stats (s_gw sys))"
proof -
  let ?t = "tx_timestamp packet"
  let ?d = "sint (?t - lora_gateway_get_timestamp c)"
  let ?nowrap = "lora_gateway_get_timestamp c < ?t \<and>
          (\<forall>x\<in>set cs. c \<le> x \<and> x - c < 2 ^ 31 \<and> x div 2 ^ 32 = c div 2 ^ 32)"
  note rt = tx_task_round_head[OF assms(1,2,3), of producer "c # cs"]
  have late: "tx_task_timing packet (c # cs) = Some (False, cs)" if "?d < - 100000"
    using that assms(4) by (simp add: tx_task_timing_def Let_def)
  have inwin: "tx_task_timing packet (c # cs) = Some (True, cs)" if "- 100000 \<le> ?d" "?d \<le> 0"
    using that assms(4) by (simp add: tx_task_timing_def Let_def)
  have wait: "tx_task_timing packet (c # cs) = Some (True, drop (Suc k) cs)"
    if "0 < ?d" "?d < 5000000" "?nowrap" "k < length cs"
      "\<forall>j<k. 0 < sint (?t - lora_gateway_get_timestamp (cs ! j))"
      "sint (?t - lora_gateway_get_timestamp (cs ! k)) \<le> 0"
    for k
  proof -
    from that(3) have nw: "lora_gateway_get_timestamp c < ?t"
      and rd: "\<forall>x\<in>set cs. c \<le> x \<and> x - c < 2 ^ 31 \<and> x div 2 ^ 32 = c div 2 ^ 32"
      by blast+
    have "wait_until_timestamp ?t cs = Some (drop (Suc k) cs)"
      using wait_until_timestamp_wrap_aware(1)[OF that(1,2) nw rd that(4,5,6)] .
    then show ?thesis
      using that(1,2) assms(4) by (simp add: tx_task_timing_def Let_def)
  qed
  have still: "tx_task_timing packet (c # cs) = None"
    if "0 < ?d" "?d < 5000000" "?nowrap"
      "\<forall>j<length cs. 0 < sint (?t - lora_gateway_get_timestamp (cs ! j))"
  proof -
    from that(3) have nw: "lora_gateway_get_timestamp c < ?t"
      and rd: "\<forall>x\<in>set cs. c \<le> x \<and> x - c < 2 ^ 31 \<and> x div 2 ^ 32 = c div 2 ^ 32"
      by blast+
    have "wait_until_timestamp ?t cs = None"
      using wait_until_timestamp_wrap_aware(2)[OF that(1,2) nw rd that(4)] .
    then show ?thesis
      using that(1,2) assms(4) by (simp add: tx_task_timing_def Let_def)
  qed
  have c1: "tx_task_round producer (c # cs) sys =
      (TxSkipped packet,
       sys\<lparr>s_cm := (s_cm sys)\<lparr>tx_queue := Some (q\<lparr>q_items := rest\<rparr>),
                                tx_mutex := Some False, tx_busy := False\<rparr>\<rparr>)"
    if "?d < - 100000"
    unfolding rt late[OF that] by simp
  have c2: "tx_task_round producer (c # cs) sys =
      (TxTransmit (prepare_sx_packet packet),
       sys\<lparr>s_cm := (s_cm sys)\<lparr>tx_queue := Some (q\<lparr>q_items := rest\<rparr>),
                                tx_mutex := Some True, tx_busy := True\<rparr>\<rparr>)"
    if "- 100000 \<le> ?d" "?d \<le> 0"
    unfolding rt inwin[OF that] by simp
  have c3: "tx_task_timing packet (c # cs) = Some (True, drop (Suc k) cs) \<and>
      tx_task_round producer (c # cs) sys =
      (TxTransmit (prepare_sx_packet packet),
       sys\<lparr>s_cm := (s_cm sys)\<lparr>tx_queue := Some (q\<lparr>q_items := rest\<rparr>),
                                tx_mutex := Some True, tx_busy := True\<rparr>\<rparr>)"
    if "0 < ?d" "?d < 5000000" "?nowrap" "k < length cs"
      "\<forall>j<k. 0 < sint (?t - lora_gateway_get_timestamp (cs ! j))"
      "sint (?t - lora_gateway_get_timestamp (cs ! k)) \<le> 0"
    for k
    unfolding rt wait[OF that] by simp
  have c4: "tx_task_round producer (c # cs) sys =
      (TxWaiting packet,
       sys\<lparr>s_cm := (s_cm sys)\<lparr>tx_queue := Some (q\<lparr>q_items := rest\<rparr>),
                                tx_mutex := Some True, tx_busy := True\<rparr>\<rparr>)"
    if "0 < ?d" "?d < 5000000" "?nowrap"
      "\<forall>j<length cs. 0 < sint (?t - lora_gateway_get_timestamp (cs ! j))"
    unfolding rt still[OF that] by simp
  show ?thesis
    unfolding Let_def
    using c1 c2 c3 c4 tx_task_round_stats[of producer "c # cs" sys]
    by blast
qed

lemma ts_small: "lora_gateway_get_timestamp 1000000 = 1000000"
  "lora_gateway_get_timestamp 1020000 = 1020000"
  "lora_gateway_get_timestamp 1050000 = 1050000"
  "lora_gateway_get_timestamp 1060000 = 1060000"
  by (simp_all add: lora_gateway_get_timestamp_def)

theorem tx_task_schedule_witness:
  "cm_running (s_cm (tx_ready_system [scheduled_packet 1050000])) \<and>
   \<not> immediate (scheduled_packet 1050000) \<and>
   sint (tx_timestamp (scheduled_packet 1050000) - lora_gateway_get_timestamp 1000000) = 50000 \<and>
   lora_gateway_get_timestamp 1000000 < tx_timestamp (scheduled_packet 1050000) \<and>
   tx_task_timing (scheduled_packet 1050000) [1000000, 1020000, 1050000, 1060000]
     = Some (True, [1060000]) \<and>
   tx_task_round None [1000000, 1020000, 1050000, 1060000]
          (tx_ready_system [scheduled_packet 1050000])
     = (TxTransmit (prepare_sx_packet (scheduled_packet 1050000)),
        (tx_ready_system [scheduled_packet 1050000])
          \<lparr>s_cm := (s_cm (tx_ready_system [scheduled_packet 1050000]))
             \<lparr>tx_queue := Some \<lparr> q_items = [], q_length = GATEWAY_TX_QUEUE_SIZE \<rparr>,
              tx_mutex := Some True, tx_busy := True\<rparr>\<rparr>)"
proof -
  let ?p = "scheduled_packet 1050000"
  let ?sys = "tx_ready_system [?p]"
  let ?q = "\<lparr> q_items = [?p], q_length = GATEWAY_TX_QUEUE_SIZE \<rparr>"
  let ?cs = "[1020000, 1050000, 1060000 :: int]"
  let ?held = "?sys\<lparr>s_cm := (s_cm ?sys)\<lparr>tx_queue := Some (?q\<lparr>q_items := []\<rparr>),
                                          tx_mutex := Some True, tx_busy := True\<rparr>\<rparr>"
  have h1: "cm_running (s_cm ?sys)"
    by (simp add: tx_ready_system_def)
  have h2: "tx_queue (s_cm ?sys) = Some ?q"
    by (simp add: tx_ready_system_def)
  have h3: "q_items ?q = ?p # []"
    by simp
  have h4: "\<not> immediate ?p"
    by (simp add: scheduled_packet_def zero_tx_packet_def)
  have t: "tx_timestamp ?p = 1050000"
    by (simp add: scheduled_packet_def)
  have d: "sint (tx_timestamp ?p - lora_gateway_get_timestamp 1000000) = 50000"
    by (simp add: t ts_small)
  have nw: "lora_gateway_get_timestamp 1000000 < tx_timestamp ?p"
    by (simp add: t ts_small)
  have rd: "\<forall>x\<in>set ?cs. 1000000 \<le> x \<and> x - 1000000 < 2 ^ 31 \<and> x div 2 ^ 32 = 1000000 div 2 ^ 32"
    by simp
  have k: "(1 :: nat) < length ?cs \<and>
           (\<forall>j<1. 0 < sint (tx_timestamp ?p - lora_gateway_get_timestamp (?cs ! j))) \<and>
           sint (tx_timestamp ?p - lora_gateway_get_timestamp (?cs ! 1)) \<le> 0"
    by (simp add: t ts_small)
  have pre: "(0 :: int) < 50000 \<and> (50000 :: int) < 5000000 \<and>
      lora_gateway_get_timestamp 1000000 < tx_timestamp ?p \<and>
      (\<forall>x\<in>set ?cs. 1000000 \<le> x \<and> x - 1000000 < 2 ^ 31 \<and> x div 2 ^ 32 = 1000000 div 2 ^ 32)"
    using nw rd by simp
  have inst: "\<forall>k. k < length ?cs \<and>
              (\<forall>j<k. 0 < sint (tx_timestamp ?p - lora_gateway_get_timestamp (?cs ! j))) \<and>
              sint (tx_timestamp ?p - lora_gateway_get_timestamp (?cs ! k)) \<le> 0 \<longrightarrow>
              tx_task_timing ?p (1000000 # ?cs) = Some (True, drop (Suc k) ?cs) \<and>
              tx_task_round None (1000000 # ?cs) ?sys = (TxTransmit (prepare_sx_packet ?p), ?held)"
    using tx_task_schedule[OF h1 h2 h3 h4, of 1000000 None ?cs] pre
    unfolding Let_def d by blast
  have "tx_task_timing ?p (1000000 # ?cs) = Some (True, drop (Suc 1) ?cs) \<and>
        tx_task_round None (1000000 # ?cs) ?sys = (TxTransmit (prepare_sx_packet ?p), ?held)"
    using inst k by blast
  then have "tx_task_timing ?p [1000000, 1020000, 1050000, 1060000] = Some (True, [1060000]) \<and>
        tx_task_round None [1000000, 1020000, 1050000, 1060000] ?sys
          = (TxTransmit (prepare_sx_packet ?p), ?held)"
    by simp
  then show ?thesis
    using h1 h4 d nw by simp
qed

text \<open>
  C1 as stated fails at the spec's own examples with \<open>now = 1000000\<close>: a request
  \<open>At(800000)\<close> is discarded and \<open>tx_collision\<close> stays 0; a request \<open>At(7000000)\<close>, six
  seconds ahead, is not discarded and \<open>tx_fail\<close> stays 0.
\<close>

theorem tx_task_no_counter:
  "fst (tx_task_round None [1000000] (tx_ready_system [scheduled_packet 800000]))
     = TxSkipped (scheduled_packet 800000) \<and>
   tx_collision (stats (s_gw (tx_ready_system [scheduled_packet 800000]))) = 0 \<and>
   tx_collision (stats (s_gw (snd (tx_task_round None [1000000]
              (tx_ready_system [scheduled_packet 800000]))))) = 0 \<and>
   fst (tx_task_round None [1000000] (tx_ready_system [scheduled_packet 7000000]))
     = TxTransmit (prepare_sx_packet (scheduled_packet 7000000)) \<and>
   tx_fail (stats (s_gw (tx_ready_system [scheduled_packet 7000000]))) = 0 \<and>
   tx_fail (stats (s_gw (snd (tx_task_round None [1000000]
              (tx_ready_system [scheduled_packet 7000000]))))) = 0"
  by (simp add: tx_task_round_def tx_ready_system_def xQueueReceive_def tx_task_timing_def
      scheduled_packet_def zero_tx_packet_def ts_small Let_def boot_def zero_gw_def zero_stats_def
      zero_cm_def)


section \<open>Properties of the bounded queues\<close>


lemma channel_manager_schedule_tx_frame:
  "s_gw (snd (channel_manager_schedule_tx p consumer sys)) = s_gw sys"
  "s_pf (snd (channel_manager_schedule_tx p consumer sys)) = s_pf sys"
  "outbox (snd (channel_manager_schedule_tx p consumer sys)) = outbox sys"
  by (auto simp: channel_manager_schedule_tx_def Let_def split_beta split: option.splits)


lemma channel_manager_schedule_tx_full:
  assumes "cm_running (s_cm sys)" "tx_queue (s_cm sys) = Some q" "length (q_items q) = q_length q"
  shows "channel_manager_schedule_tx (Some p) None sys
           = (ESP_ERR_NO_MEM, sys\<lparr>blocked_ms := blocked_ms sys + 100\<rparr>)"
    and "channel_manager_schedule_tx (Some p) (Some (t, k)) sys =
           (if t < 100 \<and> 0 < k \<and> q_items q \<noteq> []
            then (ESP_OK, sys\<lparr>blocked_ms := blocked_ms sys + t,
                              s_cm := (s_cm sys)\<lparr>tx_queue :=
                                Some (q\<lparr>q_items := drop k (q_items q) @ [p]\<rparr>)\<rparr>\<rparr>)
            else (ESP_ERR_NO_MEM, sys\<lparr>blocked_ms := blocked_ms sys + 100\<rparr>))"
  using assms by (simp_all add: channel_manager_schedule_tx_def xQueueSend_def)

lemma lora_gateway_send_frame:
  "s_pf (snd (lora_gateway_send p now consumer sys)) = s_pf sys"
  "outbox (snd (lora_gateway_send p now consumer sys)) = outbox sys"
  "gw_running (s_gw (snd (lora_gateway_send p now consumer sys))) = gw_running (s_gw sys)"
  "gw_initialized (s_gw (snd (lora_gateway_send p now consumer sys))) = gw_initialized (s_gw sys)"
  by (simp_all add: lora_gateway_send_def Let_def split_beta channel_manager_schedule_tx_frame)


lemma lora_gateway_send_full:
  assumes "gw_running (s_gw sys)" "cm_running (s_cm sys)" "tx_queue (s_cm sys) = Some q"
    "length (q_items q) = q_length q"
  shows "lora_gateway_send (Some p) now None sys =
           (ESP_ERR_NO_MEM,
            sys\<lparr>s_gw := (s_gw sys)\<lparr>stats := (stats (s_gw sys))\<lparr>
                   tx_total := tx_total (stats (s_gw sys)) + 1,
                   tx_fail := tx_fail (stats (s_gw sys)) + 1\<rparr>\<rparr>,
                 blocked_ms := blocked_ms sys + 100\<rparr>)"
    and "lora_gateway_send (Some p) now (Some (t, k)) sys =
           (if t < 100 \<and> 0 < k \<and> q_items q \<noteq> []
            then (ESP_OK,
                  sys\<lparr>s_gw := (s_gw sys)\<lparr>stats := (stats (s_gw sys))\<lparr>
                         tx_total := tx_total (stats (s_gw sys)) + 1,
                         last_tx_time := now\<rparr>\<rparr>,
                       blocked_ms := blocked_ms sys + t,
                       s_cm := (s_cm sys)\<lparr>tx_queue :=
                         Some (q\<lparr>q_items := drop k (q_items q) @ [p]\<rparr>)\<rparr>\<rparr>)
            else (ESP_ERR_NO_MEM,
                  sys\<lparr>s_gw := (s_gw sys)\<lparr>stats := (stats (s_gw sys))\<lparr>
                         tx_total := tx_total (stats (s_gw sys)) + 1,
                         tx_fail := tx_fail (stats (s_gw sys)) + 1\<rparr>\<rparr>,
                       blocked_ms := blocked_ms sys + 100\<rparr>))"
  using assms
  by (simp_all add: lora_gateway_send_def Let_def channel_manager_schedule_tx_def xQueueSend_def)

lemma lora_gateway_rx_handler_full:
  assumes "gw_running (s_gw sys)" "rx_queue (s_gw sys) = Some q" "length (q_items q) = q_length q"
  shows "lora_gateway_rx_handler (Some p) now sys =
           sys\<lparr>s_gw := (s_gw sys)\<lparr>stats := (stats (s_gw sys))\<lparr>
                  rx_total := rx_total (stats (s_gw sys)) + 1,
                  rx_ok := (if crc_ok p then rx_ok (stats (s_gw sys)) + 1 else rx_ok (stats (s_gw sys))),
                  rx_bad := (if crc_ok p then rx_bad (stats (s_gw sys)) else rx_bad (stats (s_gw sys)) + 1),
                  last_rx_time := now\<rparr>\<rparr>\<rparr>"
  using assms
  by (simp add: lora_gateway_rx_handler_def Let_def xQueueSendFromISR_def)

lemma lora_gateway_rx_handler_stats:
  assumes "gw_running (s_gw sys)"
  shows "stats (s_gw (lora_gateway_rx_handler (Some p) now sys)) =
           (stats (s_gw sys))\<lparr>
              rx_total := rx_total (stats (s_gw sys)) + 1,
              rx_ok := (if crc_ok p then rx_ok (stats (s_gw sys)) + 1 else rx_ok (stats (s_gw sys))),
              rx_bad := (if crc_ok p then rx_bad (stats (s_gw sys)) else rx_bad (stats (s_gw sys)) + 1),
              last_rx_time := now\<rparr>"
    and "blocked_ms (lora_gateway_rx_handler (Some p) now sys) = blocked_ms sys"
  using assms
  by (auto simp: lora_gateway_rx_handler_def Let_def xQueueSendFromISR_def split: option.splits)

lemma pkt_fwd_send_uplink_full:
  assumes "pf_running (s_pf sys)" "uplink_queue (s_pf sys) = Some q" "length (q_items q) = q_length q"
  shows "pkt_fwd_send_uplink (Some p) None sys
           = (ESP_ERR_NO_MEM, sys\<lparr>blocked_ms := blocked_ms sys + 100\<rparr>)"
    and "pkt_fwd_send_uplink (Some p) (Some (t, k)) sys =
           (if t < 100 \<and> 0 < k \<and> q_items q \<noteq> []
            then (ESP_OK, sys\<lparr>blocked_ms := blocked_ms sys + t,
                              s_pf := (s_pf sys)\<lparr>uplink_queue :=
                                Some (q\<lparr>q_items := drop k (q_items q) @ [p]\<rparr>)\<rparr>\<rparr>)
            else (ESP_ERR_NO_MEM, sys\<lparr>blocked_ms := blocked_ms sys + 100\<rparr>))"
  using assms by (simp_all add: pkt_fwd_send_uplink_def xQueueSend_def)

text \<open>
  C6, as amended. On the interrupt path (\<open>rx_callback\<close>, \<open>lora_gateway_rx_handler\<close>,
  \<open>xQueueSendFromISR\<close>) a packet that meets a full RX queue is dropped at once: the queue
  keeps its content, nothing blocks, and the statistics change as for any received
  packet, so no counter records the drop. On the TX queue and on the forwarder's uplink
  queue the enqueue is an \<open>xQueueSend\<close> with a wait of 100 ms, which blocks its caller
  while the queue is full. If the consumer takes elements off the queue within the wait,
  the new element is stored behind the remaining ones and \<open>ESP_OK\<close> is returned. If not,
  the caller has been blocked for the 100 ms, the new element is dropped, the queue keeps
  its content and \<open>ESP_ERR_NO_MEM\<close> is returned; \<open>lora_gateway_send\<close> then counts the
  downlink in \<open>tx_fail\<close>.
\<close>

theorem queue_overflow_drops_newest:
  "(gw_running (s_gw sys) \<and> rx_queue (s_gw sys) = Some rq \<and> length (q_items rq) = q_length rq \<longrightarrow>
      rx_queue (s_gw (lora_gateway_rx_handler (Some rp) now sys)) = Some rq \<and>
      blocked_ms (lora_gateway_rx_handler (Some rp) now sys) = blocked_ms sys \<and>
      rx_queue (s_gw (rx_callback_cm (Some sp) now1 now sys)) = Some rq \<and>
      blocked_ms (rx_callback_cm (Some sp) now1 now sys) = blocked_ms sys) \<and>
   (gw_running (s_gw sys) \<longrightarrow>
      stats (s_gw (lora_gateway_rx_handler (Some rp) now sys)) =
        (stats (s_gw sys))\<lparr>
           rx_total := rx_total (stats (s_gw sys)) + 1,
           rx_ok := (if crc_ok rp then rx_ok (stats (s_gw sys)) + 1 else rx_ok (stats (s_gw sys))),
           rx_bad := (if crc_ok rp then rx_bad (stats (s_gw sys)) else rx_bad (stats (s_gw sys)) + 1),
           last_rx_time := now\<rparr>) \<and>
   (cm_running (s_cm sys) \<and> tx_queue (s_cm sys) = Some tq \<and> length (q_items tq) = q_length tq \<longrightarrow>
      channel_manager_schedule_tx (Some tp) None sys
        = (ESP_ERR_NO_MEM, sys\<lparr>blocked_ms := blocked_ms sys + 100\<rparr>) \<and>
      channel_manager_schedule_tx (Some tp) (Some (t, k)) sys
        = (if t < 100 \<and> 0 < k \<and> q_items tq \<noteq> []
           then (ESP_OK, sys\<lparr>blocked_ms := blocked_ms sys + t,
                             s_cm := (s_cm sys)\<lparr>tx_queue :=
                               Some (tq\<lparr>q_items := drop k (q_items tq) @ [tp]\<rparr>)\<rparr>\<rparr>)
           else (ESP_ERR_NO_MEM, sys\<lparr>blocked_ms := blocked_ms sys + 100\<rparr>)) \<and>
      (gw_running (s_gw sys) \<longrightarrow>
         lora_gateway_send (Some tp) now None sys =
           (ESP_ERR_NO_MEM,
            sys\<lparr>s_gw := (s_gw sys)\<lparr>stats := (stats (s_gw sys))\<lparr>
                   tx_total := tx_total (stats (s_gw sys)) + 1,
                   tx_fail := tx_fail (stats (s_gw sys)) + 1\<rparr>\<rparr>,
                 blocked_ms := blocked_ms sys + 100\<rparr>) \<and>
         lora_gateway_send (Some tp) now (Some (t, k)) sys =
           (if t < 100 \<and> 0 < k \<and> q_items tq \<noteq> []
            then (ESP_OK,
                  sys\<lparr>s_gw := (s_gw sys)\<lparr>stats := (stats (s_gw sys))\<lparr>
                         tx_total := tx_total (stats (s_gw sys)) + 1,
                         last_tx_time := now\<rparr>\<rparr>,
                       blocked_ms := blocked_ms sys + t,
                       s_cm := (s_cm sys)\<lparr>tx_queue :=
                         Some (tq\<lparr>q_items := drop k (q_items tq) @ [tp]\<rparr>)\<rparr>\<rparr>)
            else (ESP_ERR_NO_MEM,
                  sys\<lparr>s_gw := (s_gw sys)\<lparr>stats := (stats (s_gw sys))\<lparr>
                         tx_total := tx_total (stats (s_gw sys)) + 1,
                         tx_fail := tx_fail (stats (s_gw sys)) + 1\<rparr>\<rparr>,
                       blocked_ms := blocked_ms sys + 100\<rparr>)))) \<and>
   (pf_running (s_pf sys) \<and> uplink_queue (s_pf sys) = Some uq \<and> length (q_items uq) = q_length uq \<longrightarrow>
      pkt_fwd_send_uplink (Some rp) None sys
        = (ESP_ERR_NO_MEM, sys\<lparr>blocked_ms := blocked_ms sys + 100\<rparr>) \<and>
      pkt_fwd_send_uplink (Some rp) (Some (t, k)) sys
        = (if t < 100 \<and> 0 < k \<and> q_items uq \<noteq> []
           then (ESP_OK, sys\<lparr>blocked_ms := blocked_ms sys + t,
                             s_pf := (s_pf sys)\<lparr>uplink_queue :=
                               Some (uq\<lparr>q_items := drop k (q_items uq) @ [rp]\<rparr>)\<rparr>\<rparr>)
           else (ESP_ERR_NO_MEM, sys\<lparr>blocked_ms := blocked_ms sys + 100\<rparr>)))"
proof -
  have rx: "rx_queue (s_gw (lora_gateway_rx_handler (Some p) n sys)) = Some rq \<and>
      blocked_ms (lora_gateway_rx_handler (Some p) n sys) = blocked_ms sys"
    if "gw_running (s_gw sys)" "rx_queue (s_gw sys) = Some rq" "length (q_items rq) = q_length rq"
    for p n
    using that by (simp add: lora_gateway_rx_handler_full[OF that])
  have c1: "rx_queue (s_gw (lora_gateway_rx_handler (Some rp) now sys)) = Some rq \<and>
      blocked_ms (lora_gateway_rx_handler (Some rp) now sys) = blocked_ms sys \<and>
      rx_queue (s_gw (rx_callback_cm (Some sp) now1 now sys)) = Some rq \<and>
      blocked_ms (rx_callback_cm (Some sp) now1 now sys) = blocked_ms sys"
    if "gw_running (s_gw sys)" "rx_queue (s_gw sys) = Some rq" "length (q_items rq) = q_length rq"
    using rx[OF that] by (simp add: rx_callback_cm_def Let_def)
  have c2: "stats (s_gw (lora_gateway_rx_handler (Some rp) now sys)) =
        (stats (s_gw sys))\<lparr>
           rx_total := rx_total (stats (s_gw sys)) + 1,
           rx_ok := (if crc_ok rp then rx_ok (stats (s_gw sys)) + 1 else rx_ok (stats (s_gw sys))),
           rx_bad := (if crc_ok rp then rx_bad (stats (s_gw sys)) else rx_bad (stats (s_gw sys)) + 1),
           last_rx_time := now\<rparr>"
    if "gw_running (s_gw sys)"
    using lora_gateway_rx_handler_stats(1)[OF that] .
  note c3 = channel_manager_schedule_tx_full(1)[of sys tq tp]
    channel_manager_schedule_tx_full(2)[of sys tq tp t k]
  note c4 = lora_gateway_send_full(1)[of sys tq tp now]
    lora_gateway_send_full(2)[of sys tq tp now t k]
  note c5 = pkt_fwd_send_uplink_full(1)[of sys uq rp]
    pkt_fwd_send_uplink_full(2)[of sys uq rp t k]
  show ?thesis
    using c1 c2 c3 c4 c5 by blast
qed

lemma demo_systems:
  "gw_running (s_gw (rx_ready_system ps))"
  "rx_queue (s_gw (rx_ready_system ps)) = Some \<lparr> q_items = ps, q_length = GATEWAY_RX_QUEUE_SIZE \<rparr>"
  "gw_running (s_gw (tx_ready_system ts))"
  "cm_running (s_cm (tx_ready_system ts))"
  "tx_queue (s_cm (tx_ready_system ts)) = Some \<lparr> q_items = ts, q_length = GATEWAY_TX_QUEUE_SIZE \<rparr>"
  "pf_running (s_pf (uplink_ready_system ps))"
  "uplink_queue (s_pf (uplink_ready_system ps)) = Some \<lparr> q_items = ps, q_length = 32 \<rparr>"
  "blocked_ms (rx_ready_system ps) = 0"
  "blocked_ms (tx_ready_system ts) = 0"
  "blocked_ms (uplink_ready_system ps) = 0"
  "stats (s_gw (rx_ready_system ps)) = zero_stats"
  "stats (s_gw (tx_ready_system ts)) = zero_stats"
  by (simp_all add: rx_ready_system_def tx_ready_system_def uplink_ready_system_def boot_def
      zero_gw_def zero_cm_def zero_pf_def)

theorem queue_overflow_drops_newest_witness:
  "gw_running (s_gw (rx_ready_system (replicate 32 zero_rx_packet))) \<and>
   rx_queue (s_gw (lora_gateway_rx_handler (Some zero_rx_packet) 5
                     (rx_ready_system (replicate 32 zero_rx_packet))))
     = Some \<lparr> q_items = replicate 32 zero_rx_packet, q_length = GATEWAY_RX_QUEUE_SIZE \<rparr> \<and>
   cm_running (s_cm (tx_ready_system (replicate 16 zero_tx_packet))) \<and>
   fst (lora_gateway_send (Some zero_tx_packet) 5 None
          (tx_ready_system (replicate 16 zero_tx_packet))) = ESP_ERR_NO_MEM \<and>
   tx_fail (stats (s_gw (snd (lora_gateway_send (Some zero_tx_packet) 5 None
                                (tx_ready_system (replicate 16 zero_tx_packet)))))) = 1 \<and>
   fst (lora_gateway_send (Some zero_tx_packet) 5 (Some (40, 1))
          (tx_ready_system (replicate 16 zero_tx_packet))) = ESP_OK \<and>
   blocked_ms (snd (lora_gateway_send (Some zero_tx_packet) 5 (Some (40, 1))
          (tx_ready_system (replicate 16 zero_tx_packet)))) = 40 \<and>
   pf_running (s_pf (uplink_ready_system (replicate 32 zero_rx_packet))) \<and>
   fst (pkt_fwd_send_uplink (Some zero_rx_packet) None
          (uplink_ready_system (replicate 32 zero_rx_packet))) = ESP_ERR_NO_MEM \<and>
   fst (pkt_fwd_send_uplink (Some zero_rx_packet) (Some (40, 1))
          (uplink_ready_system (replicate 32 zero_rx_packet))) = ESP_OK"
  using queue_overflow_drops_newest[where sys = "rx_ready_system (replicate 32 zero_rx_packet)"
      and rq = "\<lparr> q_items = replicate 32 zero_rx_packet, q_length = GATEWAY_RX_QUEUE_SIZE \<rparr>"
      and rp = zero_rx_packet and now = 5]
    queue_overflow_drops_newest[where sys = "tx_ready_system (replicate 16 zero_tx_packet)"
      and tq = "\<lparr> q_items = replicate 16 zero_tx_packet, q_length = GATEWAY_TX_QUEUE_SIZE \<rparr>"
      and tp = zero_tx_packet and now = 5 and t = 40 and k = 1]
    queue_overflow_drops_newest[where sys = "uplink_ready_system (replicate 32 zero_rx_packet)"
      and uq = "\<lparr> q_items = replicate 32 zero_rx_packet, q_length = 32 \<rparr>"
      and rp = zero_rx_packet and t = 40 and k = 1]
  by (simp add: demo_systems GATEWAY_RX_QUEUE_SIZE_def GATEWAY_TX_QUEUE_SIZE_def zero_stats_def)

text \<open>
  C6 as stated fails. Scheduling a downlink on a full TX queue blocks the caller, the UDP
  receiver: for the whole 100 ms when the worker takes nothing, and then the downlink is
  dropped; for 40 ms when the worker takes the oldest element after 40 ms, and then the
  downlink is not dropped but stored at the end of the queue. And a packet dropped at the
  full RX queue leaves the same statistics as a packet that was queued: there is no drop
  counter.
\<close>

theorem queue_overflow_blocks_uncounted:
  "blocked_ms (tx_ready_system (replicate 16 zero_tx_packet)) = 0 \<and>
   channel_manager_schedule_tx (Some (scheduled_packet 7)) None
       (tx_ready_system (replicate 16 zero_tx_packet))
     = (ESP_ERR_NO_MEM, (tx_ready_system (replicate 16 zero_tx_packet))\<lparr>blocked_ms := 100\<rparr>) \<and>
   fst (channel_manager_schedule_tx (Some (scheduled_packet 7)) (Some (40, 1))
       (tx_ready_system (replicate 16 zero_tx_packet))) = ESP_OK \<and>
   blocked_ms (snd (channel_manager_schedule_tx (Some (scheduled_packet 7)) (Some (40, 1))
       (tx_ready_system (replicate 16 zero_tx_packet)))) = 40 \<and>
   map_option q_items (tx_queue (s_cm (snd (channel_manager_schedule_tx
       (Some (scheduled_packet 7)) (Some (40, 1))
       (tx_ready_system (replicate 16 zero_tx_packet))))))
     = Some (replicate 15 zero_tx_packet @ [scheduled_packet 7]) \<and>
   map_option (length \<circ> q_items)
     (rx_queue (s_gw (lora_gateway_rx_handler (Some zero_rx_packet) 5
                        (rx_ready_system (replicate 32 zero_rx_packet))))) = Some 32 \<and>
   map_option (length \<circ> q_items)
     (rx_queue (s_gw (lora_gateway_rx_handler (Some zero_rx_packet) 5
                        (rx_ready_system [])))) = Some 1 \<and>
   stats (s_gw (lora_gateway_rx_handler (Some zero_rx_packet) 5
                  (rx_ready_system (replicate 32 zero_rx_packet))))
     = stats (s_gw (lora_gateway_rx_handler (Some zero_rx_packet) 5 (rx_ready_system [])))"
  by (simp add: demo_systems channel_manager_schedule_tx_def
      lora_gateway_rx_handler_def xQueueSend_def xQueueSendFromISR_def Let_def
      GATEWAY_RX_QUEUE_SIZE_def GATEWAY_TX_QUEUE_SIZE_def)


section \<open>Properties of the lifecycle\<close>

lemma send_pull_data_frame:
  "s_gw (snd (send_pull_data plat sys)) = s_gw sys"
  "s_cm (snd (send_pull_data plat sys)) = s_cm sys"
  "pf_running (s_pf (snd (send_pull_data plat sys))) = pf_running (s_pf sys)"
  "pf_initialized (s_pf (snd (send_pull_data plat sys))) = pf_initialized (s_pf sys)"
  "status (s_pf (snd (send_pull_data plat sys))) = status (s_pf sys)"
  "last_pull_ack (s_pf (snd (send_pull_data plat sys))) = last_pull_ack (s_pf sys)"
  by (simp_all add: send_pull_data_def Let_def)

text \<open>
  The flags \<open>initialized\<close> and \<open>running\<close> are written by the lifecycle functions only,
  and each of them keeps a running component an initialised one.
\<close>

lemma pkt_fwd_init_flags:
  "s_gw (snd (pkt_fwd_init cfg plat sys)) = s_gw sys"
  "pf_running (s_pf sys) \<longrightarrow> pf_initialized (s_pf sys) \<Longrightarrow>
   pf_running (s_pf (snd (pkt_fwd_init cfg plat sys)))
     \<longrightarrow> pf_initialized (s_pf (snd (pkt_fwd_init cfg plat sys)))"
  by (auto simp: pkt_fwd_init_def Let_def zero_pf_def split: option.splits)

lemma pkt_fwd_start_flags:
  "s_gw (snd (pkt_fwd_start plat sys)) = s_gw sys"
  "pf_running (s_pf sys) \<longrightarrow> pf_initialized (s_pf sys) \<Longrightarrow>
   pf_running (s_pf (snd (pkt_fwd_start plat sys)))
     \<longrightarrow> pf_initialized (s_pf (snd (pkt_fwd_start plat sys)))"
  by (auto simp: pkt_fwd_start_def Let_def send_pull_data_frame split: option.splits)

lemma pkt_fwd_stop_flags:
  "s_gw (snd (pkt_fwd_stop sys)) = s_gw sys"
  "\<not> pf_running (s_pf (snd (pkt_fwd_stop sys)))"
  by (auto simp: pkt_fwd_stop_def Let_def)

lemma channel_manager_init_frame:
  "s_gw (snd (channel_manager_init rx tx plat sys)) = s_gw sys"
  "s_pf (snd (channel_manager_init rx tx plat sys)) = s_pf sys"
  by (auto simp: channel_manager_init_def Let_def)

lemma channel_manager_start_frame:
  "s_gw (snd (channel_manager_start plat sys)) = s_gw sys"
  "s_pf (snd (channel_manager_start plat sys)) = s_pf sys"
  by (auto simp: channel_manager_start_def Let_def split_beta)

lemma channel_manager_stop_frame:
  "s_gw (snd (channel_manager_stop sys)) = s_gw sys"
  "s_pf (snd (channel_manager_stop sys)) = s_pf sys"
  by (auto simp: channel_manager_stop_def Let_def split_beta)

lemma lora_gateway_init_flags:
  "s_pf (snd (lora_gateway_init cfg plat sys)) = s_pf sys"
  "gw_running (s_gw sys) \<longrightarrow> gw_initialized (s_gw sys) \<Longrightarrow>
   gw_running (s_gw (snd (lora_gateway_init cfg plat sys)))
     \<longrightarrow> gw_initialized (s_gw (snd (lora_gateway_init cfg plat sys)))"
  by (auto simp: lora_gateway_init_def Let_def split_beta zero_gw_def channel_manager_init_frame
      split: option.splits)

lemma lora_gateway_start_flags:
  "s_pf (snd (lora_gateway_start plat now sys)) = s_pf sys"
  "gw_running (s_gw sys) \<longrightarrow> gw_initialized (s_gw sys) \<Longrightarrow>
   gw_running (s_gw (snd (lora_gateway_start plat now sys)))
     \<longrightarrow> gw_initialized (s_gw (snd (lora_gateway_start plat now sys)))"
  by (auto simp: lora_gateway_start_def Let_def split_beta channel_manager_start_frame)

lemma lora_gateway_stop_flags:
  "s_pf (snd (lora_gateway_stop sys)) = s_pf sys"
  "\<not> gw_running (s_gw (snd (lora_gateway_stop sys)))"
  "gw_initialized (s_gw (snd (lora_gateway_stop sys))) = gw_initialized (s_gw sys)"
  by (auto simp: lora_gateway_stop_def Let_def split_beta channel_manager_stop_frame)

lemma lora_gateway_deinit_flags:
  "s_pf (snd (lora_gateway_deinit sys)) = s_pf sys"
  "gw_running (s_gw sys) \<longrightarrow> gw_initialized (s_gw sys) \<Longrightarrow>
   \<not> gw_running (s_gw (snd (lora_gateway_deinit sys)))"
  by (auto simp: lora_gateway_deinit_def Let_def split_beta channel_manager_stop_frame
      lora_gateway_stop_flags)

text \<open>
  C9. A repeated lifecycle call returns \<open>ESP_OK\<close> and leaves the whole state as it was:
  \<open>pkt_fwd_init\<close> when the forwarder is initialised and \<open>lora_gateway_init\<close> when the
  gateway is initialised, \<open>pkt_fwd_start\<close> when the forwarder runs and
  \<open>lora_gateway_start\<close> when the gateway runs. This holds in every state whatever else
  the state contains; the two start calls look at \<open>initialized\<close> first, and a running
  component is an initialised one.
\<close>

theorem lifecycle_idempotent:
  "(pf_initialized (s_pf sys) \<longrightarrow> pkt_fwd_init pf_cfg plat sys = (ESP_OK, sys)) \<and>
   (pf_initialized (s_pf sys) \<and> pf_running (s_pf sys) \<longrightarrow>
      pkt_fwd_start plat sys = (ESP_OK, sys)) \<and>
   (gw_initialized (s_gw sys) \<longrightarrow> lora_gateway_init gw_cfg plat sys = (ESP_OK, sys)) \<and>
   (gw_initialized (s_gw sys) \<and> gw_running (s_gw sys) \<longrightarrow>
      lora_gateway_start plat now sys = (ESP_OK, sys))"
  by (simp add: pkt_fwd_init_def pkt_fwd_start_def lora_gateway_init_def lora_gateway_start_def)

lemma gateway_started:
  "s_pf gateway_started_system = zero_pf"
  "gw_initialized (s_gw gateway_started_system)"
  "gw_running (s_gw gateway_started_system)"
  "cm_running (s_cm gateway_started_system)"
  "tx_queue (s_cm gateway_started_system) = Some (xQueueCreate GATEWAY_TX_QUEUE_SIZE)"
  "outbox gateway_started_system = []"
  by (simp_all add: gateway_started_system_def lora_gateway_init_def lora_gateway_start_def
      channel_manager_init_def
      channel_manager_start_def sx1276_start_rx_def sx1276_set_mode_def demo_platform_def
      boot_def zero_gw_def zero_cm_def Let_def)

lemma forwarder_started:
  "s_gw started_system = s_gw gateway_started_system"
  "s_cm started_system = s_cm gateway_started_system"
  "pf_initialized (s_pf started_system)"
  "pf_running (s_pf started_system)"
  "sock (s_pf started_system) = 3"
  "\<not> connected (status (s_pf started_system))"
  "last_pull_ack (s_pf started_system) = 0"
  "pf_gateway_eui (pf_config (s_pf started_system)) = pf_gateway_eui demo_pf_config"
  "outbox started_system = [pkt_header 1 PKT_PULL_DATA @ pf_gateway_eui demo_pf_config]"
  by (simp_all add: started_system_def pkt_fwd_init_def pkt_fwd_start_def send_pull_data_def
      gateway_started zero_pf_def demo_platform_def Let_def)

theorem lifecycle_idempotent_witness:
  "pf_initialized (s_pf started_system) \<and> pf_running (s_pf started_system) \<and>
   gw_initialized (s_gw started_system) \<and> gw_running (s_gw started_system) \<and>
   pkt_fwd_init (Some demo_pf_config) demo_platform started_system = (ESP_OK, started_system) \<and>
   pkt_fwd_start demo_platform started_system = (ESP_OK, started_system) \<and>
   lora_gateway_init (Some demo_lgw_config) demo_platform started_system
     = (ESP_OK, started_system) \<and>
   lora_gateway_start demo_platform 5000000 started_system = (ESP_OK, started_system)"
  using lifecycle_idempotent[of started_system "Some demo_pf_config" demo_platform
      "Some demo_lgw_config" 5000000]
  by (simp add: forwarder_started gateway_started)


section \<open>Properties of the forwarder's receive loop\<close>

lemma send_tx_ack_frame:
  "s_pf (snd (send_tx_ack token err sys)) = s_pf sys"
  "s_gw (snd (send_tx_ack token err sys)) = s_gw sys"
  "s_cm (snd (send_tx_ack token err sys)) = s_cm sys"
  by (simp_all add: send_tx_ack_def)


lemma handle_pull_resp_frame:
  assumes "handle_pull_resp env data now consumer sys = Some sys'"
  shows "s_pf sys' = s_pf sys"
    and "gw_running (s_gw sys') = gw_running (s_gw sys)"
    and "gw_initialized (s_gw sys') = gw_initialized (s_gw sys)"
  using assms
  by (auto simp: handle_pull_resp_def Let_def split_beta send_tx_ack_frame lora_gateway_send_frame
      split: if_splits option.splits)

lemma rx_task_round_unfold:
  assumes "pf_running (s_pf sys)"
  shows "rx_task_round env (Some d) now consumer sys =
     (if length (take UDP_BUFFER_SIZE d) < 4 then Some sys
      else if take UDP_BUFFER_SIZE d ! 0 \<noteq> PROTOCOL_VERSION then Some sys
      else if take UDP_BUFFER_SIZE d ! 3 = PKT_PUSH_ACK then
        Some (sys\<lparr>s_pf := (s_pf sys)\<lparr>status :=
                (status (s_pf sys))\<lparr>push_ack := push_ack (status (s_pf sys)) + 1\<rparr>\<rparr>\<rparr>)
      else if take UDP_BUFFER_SIZE d ! 3 = PKT_PULL_ACK then
        Some (sys\<lparr>s_pf := (s_pf sys)\<lparr>
                status := (status (s_pf sys))\<lparr>pull_ack := pull_ack (status (s_pf sys)) + 1,
                                               connected := True\<rparr>,
                last_pull_ack := now\<rparr>\<rparr>)
      else if take UDP_BUFFER_SIZE d ! 3 = PKT_PULL_RESP
        then handle_pull_resp env (take UDP_BUFFER_SIZE d) now consumer sys
      else Some sys)"
  unfolding rx_task_round_def Let_def using assms by simp

lemma take_udp_buffer:
  assumes "4 \<le> length d"
  shows "\<not> length (take UDP_BUFFER_SIZE d) < 4"
    "take UDP_BUFFER_SIZE d ! 0 = d ! 0" "take UDP_BUFFER_SIZE d ! 3 = d ! 3"
  using assms by (simp_all add: UDP_BUFFER_SIZE_def)

lemma rx_task_round_pull_ack:
  assumes "pf_running (s_pf sys)" and "4 \<le> length d" and "d ! 0 = PROTOCOL_VERSION"
    and "d ! 3 = PKT_PULL_ACK"
  shows "rx_task_round env (Some d) now consumer sys =
           Some (sys\<lparr>s_pf := (s_pf sys)\<lparr>
                   status := (status (s_pf sys))\<lparr>pull_ack := pull_ack (status (s_pf sys)) + 1,
                                                  connected := True\<rparr>,
                   last_pull_ack := now\<rparr>\<rparr>)"
proof -
  note l = take_udp_buffer[OF assms(2)]
  have n: "PKT_PULL_ACK \<noteq> PKT_PUSH_ACK" by (simp add: PKT_PULL_ACK_def PKT_PUSH_ACK_def)
  show ?thesis
    unfolding rx_task_round_unfold[OF assms(1)] l(2,3) assms(3,4)
    using l(1) n by (simp only: if_False if_True simp_thms)
qed

text \<open>A round that does not receive a PULL\_ACK leaves the connection status as it is.\<close>

lemma rx_task_round_other:
  assumes r: "rx_task_round env recv now consumer sys = Some sys'"
    and n: "\<not> (\<exists>d. recv = Some d \<and> 4 \<le> length d \<and> d ! 0 = PROTOCOL_VERSION \<and> d ! 3 = PKT_PULL_ACK)"
  shows "connected (status (s_pf sys')) = connected (status (s_pf sys)) \<and>
         last_pull_ack (s_pf sys') = last_pull_ack (s_pf sys)"
proof (cases "pf_running (s_pf sys)")
  case False
  with r show ?thesis by (simp add: rx_task_round_def)
next
  case run: True
  show ?thesis
  proof (cases recv)
    case None
    with r run show ?thesis by (simp add: rx_task_round_def)
  next
    case (Some d)
    note u = rx_task_round_unfold[OF run, of env d now consumer]
    let ?b = "take UDP_BUFFER_SIZE d"
    consider (short) "length ?b < 4"
      | (version) "\<not> length ?b < 4" "?b ! 0 \<noteq> PROTOCOL_VERSION"
      | (push) "\<not> length ?b < 4" "?b ! 0 = PROTOCOL_VERSION" "?b ! 3 = PKT_PUSH_ACK"
      | (pull) "\<not> length ?b < 4" "?b ! 0 = PROTOCOL_VERSION" "?b ! 3 \<noteq> PKT_PUSH_ACK"
          "?b ! 3 = PKT_PULL_ACK"
      | (resp) "\<not> length ?b < 4" "?b ! 0 = PROTOCOL_VERSION" "?b ! 3 \<noteq> PKT_PUSH_ACK"
          "?b ! 3 \<noteq> PKT_PULL_ACK" "?b ! 3 = PKT_PULL_RESP"
      | (other) "\<not> length ?b < 4" "?b ! 0 = PROTOCOL_VERSION" "?b ! 3 \<noteq> PKT_PUSH_ACK"
          "?b ! 3 \<noteq> PKT_PULL_ACK" "?b ! 3 \<noteq> PKT_PULL_RESP"
      by blast
    then show ?thesis
    proof cases
      case short
      have "rx_task_round env (Some d) now consumer sys = Some sys"
        unfolding u using short by (simp only: if_True)
      with r Some show ?thesis by simp
    next
      case version
      have "rx_task_round env (Some d) now consumer sys = Some sys"
        unfolding u using version by (simp only: if_True if_False simp_thms)
      with r Some show ?thesis by simp
    next
      case push
      have "rx_task_round env (Some d) now consumer sys =
        Some (sys\<lparr>s_pf := (s_pf sys)\<lparr>status :=
                (status (s_pf sys))\<lparr>push_ack := push_ack (status (s_pf sys)) + 1\<rparr>\<rparr>\<rparr>)"
        unfolding u using push by (simp only: if_True if_False simp_thms)
      with r Some show ?thesis by auto
    next
      case pull
      from pull(1) have l: "4 \<le> length d" by (simp add: UDP_BUFFER_SIZE_def)
      from take_udp_buffer(2,3)[OF l] pull have "d ! 0 = PROTOCOL_VERSION" "d ! 3 = PKT_PULL_ACK"
        by simp_all
      with n Some l show ?thesis by simp
    next
      case resp
      have "rx_task_round env (Some d) now consumer sys = handle_pull_resp env ?b now consumer sys"
        unfolding u using resp by (simp only: if_True if_False simp_thms)
      with r Some have "handle_pull_resp env ?b now consumer sys = Some sys'" by simp
      from handle_pull_resp_frame(1)[OF this] show ?thesis by simp
    next
      case other
      have "rx_task_round env (Some d) now consumer sys = Some sys"
        unfolding u using other by (simp only: if_True if_False simp_thms)
      with r Some show ?thesis by simp
    qed
  qed
qed

lemma keepalive_callback_status:
  "last_pull_ack (s_pf (keepalive_callback plat now sys)) = last_pull_ack (s_pf sys)"
  "pf_running (s_pf (keepalive_callback plat now sys)) = pf_running (s_pf sys)"
  "connected (status (s_pf (keepalive_callback plat now sys)))
     \<Longrightarrow> connected (status (s_pf sys))"
  by (auto simp: keepalive_callback_def Let_def send_pull_data_frame split: if_splits)

lemma keepalive_callback_disconnects:
  assumes "pf_running (s_pf sys)" and "30000000 < now - last_pull_ack (s_pf sys)"
  shows "\<not> connected (status (s_pf (keepalive_callback plat now sys)))"
  using assms by (simp add: keepalive_callback_def Let_def send_pull_data_frame)

lemma keepalive_callback_keeps:
  assumes "\<not> 30000000 < now - last_pull_ack (s_pf sys)"
  shows "connected (status (s_pf (keepalive_callback plat now sys)))
           = connected (status (s_pf sys))"
  using assms by (simp add: keepalive_callback_def Let_def send_pull_data_frame)

lemma pkt_fwd_init_status:
  assumes "\<not> pf_initialized (s_pf sys)"
  shows "\<not> connected (status (s_pf (snd (pkt_fwd_init (Some cfg) plat sys))))"
    and "last_pull_ack (s_pf (snd (pkt_fwd_init (Some cfg) plat sys))) = 0"
    and "\<not> pf_running (s_pf (snd (pkt_fwd_init (Some cfg) plat sys)))"
  using assms by (simp_all add: pkt_fwd_init_def zero_pf_def Let_def)

lemma pkt_fwd_start_status:
  "status (s_pf (snd (pkt_fwd_start plat sys))) = status (s_pf sys)"
  "last_pull_ack (s_pf (snd (pkt_fwd_start plat sys))) = last_pull_ack (s_pf sys)"
  by (auto simp: pkt_fwd_start_def Let_def send_pull_data_frame split: option.splits)

text \<open>
  C5, as amended. While the forwarder runs, a received PULL\_ACK sets \<open>connected\<close> and
  records the time of its arrival, and a round of the receive loop that gets anything
  else leaves both as they are. A keepalive tick of the running forwarder that finds the
  last PULL\_ACK more than 30 seconds back (or, when there has been none, the clock beyond
  30 seconds) clears \<open>connected\<close>; any other tick leaves it as it is, and no tick changes
  the recorded time. \<open>pkt_fwd_init\<close> leaves \<open>connected\<close> false, not true, and
  \<open>pkt_fwd_start\<close> does not change it: with no PULL\_ACK the flag is false from the
  start, and the first PULL\_ACK after a tick has cleared it sets it.
\<close>

theorem pull_ack_liveness:
  "(pf_running (s_pf sys) \<and> 4 \<le> length d \<and> d ! 0 = PROTOCOL_VERSION \<and> d ! 3 = PKT_PULL_ACK \<longrightarrow>
      rx_task_round env (Some d) now consumer sys =
        Some (sys\<lparr>s_pf := (s_pf sys)\<lparr>
                status := (status (s_pf sys))\<lparr>pull_ack := pull_ack (status (s_pf sys)) + 1,
                                               connected := True\<rparr>,
                last_pull_ack := now\<rparr>\<rparr>)) \<and>
   (rx_task_round env recv now consumer sys = Some sys' \<and>
    \<not> (\<exists>d. recv = Some d \<and> 4 \<le> length d \<and> d ! 0 = PROTOCOL_VERSION \<and> d ! 3 = PKT_PULL_ACK) \<longrightarrow>
      connected (status (s_pf sys')) = connected (status (s_pf sys)) \<and>
      last_pull_ack (s_pf sys') = last_pull_ack (s_pf sys)) \<and>
   (pf_running (s_pf sys) \<and> 30000000 < now - last_pull_ack (s_pf sys) \<longrightarrow>
      \<not> connected (status (s_pf (keepalive_callback plat now sys)))) \<and>
   (\<not> pf_running (s_pf sys) \<or> now - last_pull_ack (s_pf sys) \<le> 30000000 \<longrightarrow>
      connected (status (s_pf (keepalive_callback plat now sys))) = connected (status (s_pf sys))) \<and>
   last_pull_ack (s_pf (keepalive_callback plat now sys)) = last_pull_ack (s_pf sys) \<and>
   pf_running (s_pf (keepalive_callback plat now sys)) = pf_running (s_pf sys) \<and>
   (\<not> pf_initialized (s_pf sys) \<longrightarrow>
      \<not> connected (status (s_pf (snd (pkt_fwd_init (Some cfg) plat sys)))) \<and>
      last_pull_ack (s_pf (snd (pkt_fwd_init (Some cfg) plat sys))) = 0) \<and>
   status (s_pf (snd (pkt_fwd_start plat sys))) = status (s_pf sys) \<and>
   last_pull_ack (s_pf (snd (pkt_fwd_start plat sys))) = last_pull_ack (s_pf sys) \<and>
   (pf_running (s_pf sys) \<and> 30000000 < now - last_pull_ack (s_pf sys) \<and>
    4 \<le> length d \<and> d ! 0 = PROTOCOL_VERSION \<and> d ! 3 = PKT_PULL_ACK \<longrightarrow>
      map_option (\<lambda>s. (connected (status (s_pf s)), last_pull_ack (s_pf s)))
        (rx_task_round env (Some d) now2 consumer (keepalive_callback plat now sys))
        = Some (True, now2))"
proof -
  have c1: "rx_task_round env (Some d) now consumer sys =
        Some (sys\<lparr>s_pf := (s_pf sys)\<lparr>
                status := (status (s_pf sys))\<lparr>pull_ack := pull_ack (status (s_pf sys)) + 1,
                                               connected := True\<rparr>,
                last_pull_ack := now\<rparr>\<rparr>)"
    if "pf_running (s_pf sys)" "4 \<le> length d" "d ! 0 = PROTOCOL_VERSION" "d ! 3 = PKT_PULL_ACK"
    using rx_task_round_pull_ack[OF that] .
  have c2: "connected (status (s_pf sys')) = connected (status (s_pf sys)) \<and>
      last_pull_ack (s_pf sys') = last_pull_ack (s_pf sys)"
    if "rx_task_round env recv now consumer sys = Some sys'"
      "\<not> (\<exists>d. recv = Some d \<and> 4 \<le> length d \<and> d ! 0 = PROTOCOL_VERSION \<and> d ! 3 = PKT_PULL_ACK)"
    using rx_task_round_other[OF that] .
  have c3: "\<not> connected (status (s_pf (keepalive_callback plat now sys)))"
    if "pf_running (s_pf sys)" "30000000 < now - last_pull_ack (s_pf sys)"
    using keepalive_callback_disconnects[OF that] .
  have c4: "connected (status (s_pf (keepalive_callback plat now sys))) = connected (status (s_pf sys))"
    if "\<not> pf_running (s_pf sys) \<or> now - last_pull_ack (s_pf sys) \<le> 30000000"
    using that
  proof
    assume "\<not> pf_running (s_pf sys)"
    then show ?thesis by (simp add: keepalive_callback_def)
  next
    assume "now - last_pull_ack (s_pf sys) \<le> 30000000"
    then have "\<not> 30000000 < now - last_pull_ack (s_pf sys)" by simp
    from keepalive_callback_keeps[OF this] show ?thesis .
  qed
  have c5: "\<not> connected (status (s_pf (snd (pkt_fwd_init (Some cfg) plat sys)))) \<and>
      last_pull_ack (s_pf (snd (pkt_fwd_init (Some cfg) plat sys))) = 0"
    if "\<not> pf_initialized (s_pf sys)"
    using pkt_fwd_init_status(1,2)[OF that] by simp
  have c6: "map_option (\<lambda>s. (connected (status (s_pf s)), last_pull_ack (s_pf s)))
        (rx_task_round env (Some d) now2 consumer (keepalive_callback plat now sys))
        = Some (True, now2)"
    if "pf_running (s_pf sys)" "4 \<le> length d" "d ! 0 = PROTOCOL_VERSION" "d ! 3 = PKT_PULL_ACK"
  proof -
    have "pf_running (s_pf (keepalive_callback plat now sys))"
      using that(1) by (simp add: keepalive_callback_status(2))
    from rx_task_round_pull_ack[OF this that(2,3,4)] show ?thesis by simp
  qed
  show ?thesis
    using c1 c2 c3 c4 c5 c6 keepalive_callback_status(1,2)[of plat now sys]
      pkt_fwd_start_status[of plat sys]
    by blast
qed

lemma pkt_header_bytes:
  "length (pkt_header token ptype) = 4"
  "pkt_header token ptype ! 0 = PROTOCOL_VERSION"
  "pkt_header token ptype ! 3 = ptype"
  by (simp_all add: pkt_header_def)

theorem pull_ack_liveness_witness:
  "pf_running (s_pf started_system) \<and>
   (30000000 :: int) < 31000000 - last_pull_ack (s_pf started_system) \<and>
   map_option (\<lambda>s. connected (status (s_pf s)))
     (rx_task_round demo_pf_env (Some (pkt_header 7 PKT_PULL_ACK)) 31000000 None started_system)
     = Some True \<and>
   \<not> connected (status (s_pf (keepalive_callback demo_platform 31000000 started_system))) \<and>
   map_option (\<lambda>s. (connected (status (s_pf s)), last_pull_ack (s_pf s)))
     (rx_task_round demo_pf_env (Some (pkt_header 7 PKT_PULL_ACK)) 32000000 None
        (keepalive_callback demo_platform 31000000 started_system))
     = Some (True, 32000000) \<and>
   \<not> connected (status (s_pf (keepalive_callback demo_platform 29000000 started_system))) \<and>
   \<not> pf_initialized (s_pf gateway_started_system) \<and>
   \<not> connected (status (s_pf (snd (pkt_fwd_init (Some demo_pf_config) demo_platform
                                    gateway_started_system)))) \<and>
   connected (status (s_pf (started_system\<lparr>s_pf := (s_pf started_system)\<lparr>status :=
       (status (s_pf started_system))\<lparr>push_ack := push_ack (status (s_pf started_system)) + 1\<rparr>\<rparr>\<rparr>)))
     = connected (status (s_pf started_system))"
proof -
  let ?ack = "pkt_header 7 PKT_PULL_ACK"
  let ?push = "pkt_header 7 PKT_PUSH_ACK"
  let ?pushed = "started_system\<lparr>s_pf := (s_pf started_system)\<lparr>status :=
       (status (s_pf started_system))\<lparr>push_ack := push_ack (status (s_pf started_system)) + 1\<rparr>\<rparr>\<rparr>"
  have run: "pf_running (s_pf started_system)"
    by (simp add: forwarder_started)
  have late: "(30000000 :: int) < 31000000 - last_pull_ack (s_pf started_system)"
    by (simp add: forwarder_started)
  have early: "\<not> pf_running (s_pf started_system) \<or>
      (29000000 :: int) - last_pull_ack (s_pf started_system) \<le> 30000000"
    by (simp add: forwarder_started)
  have ack: "4 \<le> length ?ack" "?ack ! 0 = PROTOCOL_VERSION" "?ack ! 3 = PKT_PULL_ACK"
    by (simp_all add: pkt_header_bytes)
  have fresh: "\<not> pf_initialized (s_pf gateway_started_system)"
    by (simp add: gateway_started zero_pf_def)
  have push: "rx_task_round demo_pf_env (Some ?push) 31000000 None started_system = Some ?pushed"
    using run
    by (simp add: rx_task_round_def pkt_header_def UDP_BUFFER_SIZE_def PKT_PUSH_ACK_def Let_def)
  have other: "\<not> (\<exists>d. Some ?push = Some d \<and> 4 \<le> length d \<and> d ! 0 = PROTOCOL_VERSION \<and>
      d ! 3 = PKT_PULL_ACK)"
    by (simp add: pkt_header_bytes PKT_PUSH_ACK_def PKT_PULL_ACK_def)
  note a = pull_ack_liveness[of started_system ?ack demo_pf_env 31000000 None "Some ?push"
      ?pushed demo_platform demo_pf_config 32000000]
  note b = pull_ack_liveness[of started_system ?ack demo_pf_env 29000000 None "Some ?push"
      ?pushed demo_platform demo_pf_config 32000000]
  note c = pull_ack_liveness[of gateway_started_system ?ack demo_pf_env 31000000 None "Some ?push"
      ?pushed demo_platform demo_pf_config 32000000]
  have 1: "map_option (\<lambda>s. connected (status (s_pf s)))
     (rx_task_round demo_pf_env (Some ?ack) 31000000 None started_system) = Some True"
    using a run ack by simp
  have 2: "\<not> connected (status (s_pf (keepalive_callback demo_platform 31000000 started_system)))"
    using a run late by blast
  have 3: "map_option (\<lambda>s. (connected (status (s_pf s)), last_pull_ack (s_pf s)))
     (rx_task_round demo_pf_env (Some ?ack) 32000000 None
        (keepalive_callback demo_platform 31000000 started_system)) = Some (True, 32000000)"
    using a run late ack by blast
  have 4: "\<not> connected (status (s_pf (keepalive_callback demo_platform 29000000 started_system)))"
    using b early by (simp add: forwarder_started)
  have 5: "\<not> connected (status (s_pf (snd (pkt_fwd_init (Some demo_pf_config) demo_platform
                                    gateway_started_system))))"
    using c fresh by blast
  have 6: "connected (status (s_pf ?pushed)) = connected (status (s_pf started_system))"
    using a push other by blast
  show ?thesis
    using run late 1 2 3 4 fresh 5 6 by blast
qed

text \<open>
  C5 as stated fails: after \<open>pkt_fwd_init\<close> and \<open>pkt_fwd_start\<close> with no PULL\_ACK the
  flag does not go from true to false when 30 seconds have passed. It is false after
  \<open>pkt_fwd_init\<close>, false after \<open>pkt_fwd_start\<close>, false at a keepalive tick after 29
  seconds, and the tick after 31 seconds leaves the status as it was.
\<close>

theorem connected_false_from_init:
  "\<not> connected (status (s_pf (snd (pkt_fwd_init (Some demo_pf_config) demo_platform
                                    gateway_started_system)))) \<and>
   \<not> connected (status (s_pf started_system)) \<and>
   \<not> connected (status (s_pf (keepalive_callback demo_platform 29000000 started_system))) \<and>
   status (s_pf (keepalive_callback demo_platform 31000000 started_system))
     = status (s_pf started_system)"
  by (simp add: forwarder_started gateway_started pkt_fwd_init_def zero_pf_def Let_def
      keepalive_callback_def send_pull_data_frame)


section \<open>Properties of the downlink path\<close>

















end
